theory Spec2Isabelle
  imports Complex_Main "HOL-Library.AList"
begin

section \<open>Peer Session Negotiator: link-quality telemetry (src/hooks/useWebRTC.ts)\<close>





section \<open>Peer Session Negotiator: signalling handlers (src/hooks/useWebRTC.ts)\<close>

text \<open>
  The negotiator keeps one \<open>RTCPeerConnection\<close> per remote user in \<open>peersRef\<close>, and nothing
  else about a negotiation. The connection object belongs to the browser; of its state the
  handlers touch the remote description, the local description and the candidates that
  \<open>addIceCandidate\<close> has accepted. Session descriptions and candidates are opaque strings.
  Each handler is taken as one step (the interleaving of their \<open>await\<close>s is not modelled).
\<close>

record PeerConnection =
  remoteDescription :: "string option"
  localDescription :: "string option"
  appliedCandidates :: "string list"

datatype rtc_error = InvalidStateError

text \<open>
  The browser's \<open>addIceCandidate\<close>: the promise is rejected with \<open>InvalidStateError\<close> while
  the connection has no remote description, and the candidate is added otherwise.
\<close>

definition addIceCandidate :: "PeerConnection \<Rightarrow> string \<Rightarrow> rtc_error + PeerConnection" where
  "addIceCandidate pc candidate =
     (case remoteDescription pc of
        None \<Rightarrow> Inl InvalidStateError
      | Some d \<Rightarrow> Inr (pc\<lparr>appliedCandidates := appliedCandidates pc @ [candidate]\<rparr>))"

definition setRemoteDescription :: "PeerConnection \<Rightarrow> string \<Rightarrow> PeerConnection" where
  "setRemoteDescription pc d = pc\<lparr>remoteDescription := Some d\<rparr>"

definition setLocalDescription :: "PeerConnection \<Rightarrow> string \<Rightarrow> PeerConnection" where
  "setLocalDescription pc d = pc\<lparr>localDescription := Some d\<rparr>"

text \<open>
  Lines 153 to 192: the connection of \<open>targetUserId\<close>, created when there is none. It
  returns the new \<open>peersRef\<close> and the connection.
\<close>

definition createPeerConnection ::
  "(string \<times> PeerConnection) list \<Rightarrow> string \<Rightarrow> (string \<times> PeerConnection) list \<times> PeerConnection" where
  "createPeerConnection peersRef targetUserId =
     (case map_of peersRef targetUserId of
        Some pc \<Rightarrow> (peersRef, pc)
      | None \<Rightarrow>
         (let pc = \<lparr>remoteDescription = None, localDescription = None, appliedCandidates = []\<rparr>
          in (AList.update targetUserId pc peersRef, pc)))"

text \<open>
  Lines 194 to 207, \<open>handleUserConnected\<close>: the new connection gets the local offer. The
  offer that \<open>createOffer\<close> produces is a parameter.
\<close>

definition handleUserConnected ::
  "(string \<times> PeerConnection) list \<Rightarrow> string \<Rightarrow> string \<Rightarrow> (string \<times> PeerConnection) list" where
  "handleUserConnected peersRef newUserId localOffer =
     (let r = createPeerConnection peersRef newUserId
      in AList.update newUserId (setLocalDescription (snd r) localOffer) (fst r))"

text \<open>
  Lines 209 to 237, \<open>handleOffer\<close>: the offer becomes the remote description and the answer
  (what \<open>createAnswer\<close> produces, a parameter) the local one.
\<close>

definition handleOffer ::
  "(string \<times> PeerConnection) list \<Rightarrow> string \<Rightarrow> string \<Rightarrow> string \<Rightarrow> (string \<times> PeerConnection) list" where
  "handleOffer peersRef callerId remoteOffer localAnswer =
     (let r = createPeerConnection peersRef callerId
      in AList.update callerId
           (setLocalDescription (setRemoteDescription (snd r) remoteOffer) localAnswer) (fst r))"

text \<open>Lines 239 to 258, \<open>handleAnswer\<close>.\<close>

definition handleAnswer ::
  "(string \<times> PeerConnection) list \<Rightarrow> string \<Rightarrow> string \<Rightarrow> (string \<times> PeerConnection) list" where
  "handleAnswer peersRef callerId remoteAnswer =
     (case map_of peersRef callerId of
        None \<Rightarrow> peersRef
      | Some pc \<Rightarrow> AList.update callerId (setRemoteDescription pc remoteAnswer) peersRef)"

text \<open>
  Lines 260 to 269, \<open>handleIceCandidate\<close>: without a connection for the caller nothing
  happens; a rejection by \<open>addIceCandidate\<close> is caught and logged, and the candidate is
  not kept anywhere.
\<close>

definition handleIceCandidate ::
  "(string \<times> PeerConnection) list \<Rightarrow> string \<Rightarrow> string \<Rightarrow> (string \<times> PeerConnection) list" where
  "handleIceCandidate peersRef callerId candidate =
     (case map_of peersRef callerId of
        None \<Rightarrow> peersRef
      | Some pc \<Rightarrow>
         (case addIceCandidate pc candidate of
            Inl e \<Rightarrow> peersRef
          | Inr pc' \<Rightarrow> AList.update callerId pc' peersRef))"

text \<open>The candidates the connection of \<open>callerId\<close> has accepted so far.\<close>

definition candidatesOf :: "(string \<times> PeerConnection) list \<Rightarrow> string \<Rightarrow> string list" where
  "candidatesOf peersRef callerId =
     (case map_of peersRef callerId of None \<Rightarrow> [] | Some pc \<Rightarrow> appliedCandidates pc)"

section \<open>Room Authority (src/server.ts)\<close>

subsection \<open>JavaScript values and collections\<close>

text \<open>
  A JavaScript string is falsy exactly when it is empty. A \<open>Map\<close> is an association list
  in insertion order: \<open>get\<close> is \<^const>\<open>map_of\<close>, \<open>set\<close> is \<^const>\<open>AList.update\<close>
  (an existing key keeps its position, a new key goes last), \<open>delete\<close> is
  \<^const>\<open>AList.delete\<close>. A \<open>Set\<close> of strings is a list in insertion order.
\<close>

definition truthy :: "string \<Rightarrow> bool" where
  "truthy s = (s \<noteq> [])"

definition Set_add :: "'a list \<Rightarrow> 'a \<Rightarrow> 'a list" where
  "Set_add xs x = (if x \<in> set xs then xs else xs @ [x])"

definition Set_delete :: "'a list \<Rightarrow> 'a \<Rightarrow> 'a list" where
  "Set_delete xs x = removeAll x xs"

text \<open>\<open>roomUsers.values().next().value\<close>: the first element, \<open>undefined\<close> on an empty set.\<close>

definition Set_first :: "'a list \<Rightarrow> 'a option" where
  "Set_first xs = (case xs of [] \<Rightarrow> None | x # _ \<Rightarrow> Some x)"

subsection \<open>State\<close>

record RoomMeta =
  isPublic :: bool
  name :: "string option"
  hostId :: "string option"
  isLocked :: bool
  waitingRoom :: bool

record WaitingUser =
  wu_odId :: string
  wu_socketId :: string
  wu_userName :: string

text \<open>The optional third argument of \<open>join-room\<close>.\<close>

record RoomConfig =
  cfg_isPublic :: bool
  cfg_name :: string
  cfg_waitingRoom :: "bool option"

text \<open>
  The six module-level maps of the server, and the two pieces of state the socket.io library
  keeps for it: \<open>sockets\<close> is \<open>io.sockets.sockets\<close> (the identifiers of the connected
  sockets) and \<open>adapter\<close> holds the pairs (socket, room) of the adapter: the ones made by
  \<open>socket.join\<close> and, for every socket, the one socket.io makes on connection with the
  room named by the socket's own identifier. \<open>socket.leave\<close> removes a pair, also that one.
\<close>

record server_state =
  rooms :: "(string \<times> string list) list"
  roomMetadata :: "(string \<times> RoomMeta) list"
  waitingRooms :: "(string \<times> (string \<times> WaitingUser) list) list"
  socketToUser :: "(string \<times> string) list"
  userToRoom :: "(string \<times> string) list"
  userNames :: "(string \<times> string) list"
  sockets :: "string list"
  adapter :: "(string \<times> string) list"

definition init :: server_state where
  "init = \<lparr>rooms = [], roomMetadata = [], waitingRooms = [], socketToUser = [],
            userToRoom = [], userNames = [], sockets = [], adapter = []\<rparr>"

subsection \<open>Messages\<close>

record RoomSettings =
  rs_isLocked :: bool
  rs_waitingRoom :: bool
  rs_hostId :: "string option"

record RoomInfo =
  ri_roomId :: string
  ri_name :: "string option"
  ri_count :: nat
  ri_isPublic :: bool
  ri_isLocked :: bool
  ri_waitingRoom :: bool

text \<open>
  The messages the server emits, one constructor per event name (\<open>rooms-update\<close>,
  \<open>room-locked\<close>, \<open>waiting-room\<close>, ...), with the fields of the payload in the order the
  source writes them. Session descriptions, candidates, chat messages and drawing data are
  relayed unread, so they are opaque strings here.
\<close>

datatype message =
    RoomsUpdate "RoomInfo list"
  | RoomLocked string
  | WaitingRoom string nat
  | WaitingRoomUpdate string "(string \<times> string) list"
  | UserConnected string
  | RoomJoined string bool RoomSettings
  | Admitted string bool RoomSettings
  | Denied string
  | RoomSettingsUpdate RoomSettings
  | HostChanged bool
  | RoomClosed string
  | UserDisconnected string
  | Offer "string option" string bool string string
  | Answer "string option" string bool string string
  | IceCandidate "string option" string string
  | ChatMessage string
  | Reaction string
  | Caption string
  | WhiteboardDraw string
  | WhiteboardClear
  | PingAck

text \<open>
  Where an emission is addressed: \<open>socket.emit\<close> and \<open>targetSocket.emit\<close> are
  \<open>ToSocket\<close>, \<open>io.to(r).emit\<close> is \<open>ToRoom r\<close>, \<open>socket.to(r).emit\<close> on socket \<open>s\<close> is
  \<open>FromSocketToRoom s r\<close>, and \<open>io.emit\<close> is \<open>ToAll\<close>.
\<close>

datatype target =
    ToSocket string
  | ToRoom string
  | FromSocketToRoom string string
  | ToAll

type_synonym emission = "target \<times> message"

text \<open>
  Who receives an emission, as socket.io's in-memory adapter resolves it: an emission to a
  room reaches the connected sockets that are in the room; a broadcast from a socket leaves
  out the sockets that are in the room named by the sender (the sender itself, as long as it
  has not left that room); \<open>socket.emit\<close> goes to the socket itself.
\<close>

definition inRoom :: "server_state \<Rightarrow> string \<Rightarrow> string \<Rightarrow> bool" where
  "inRoom st sid r = ((sid, r) \<in> set (adapter st))"

fun recipients :: "server_state \<Rightarrow> target \<Rightarrow> string list" where
  "recipients st (ToSocket sid) = (if sid \<in> set (sockets st) then [sid] else [])"
| "recipients st (ToRoom r) = filter (\<lambda>x. inRoom st x r) (sockets st)"
| "recipients st (FromSocketToRoom sid r) =
     filter (\<lambda>x. inRoom st x r \<and> \<not> inRoom st x sid) (sockets st)"
| "recipients st ToAll = sockets st"

text \<open>The only exception a handler can raise: reading a property of \<open>undefined\<close>.\<close>

datatype error = TypeError

type_synonym outcome = "error + server_state \<times> emission list"

subsection \<open>Helpers of the source\<close>

definition getPublicRooms :: "server_state \<Rightarrow> RoomInfo list" where
  "getPublicRooms st =
     concat (map (\<lambda>(roomId, metadata).
        if isPublic metadata then
          (let count = (case map_of (rooms st) roomId of None \<Rightarrow> 0 | Some us \<Rightarrow> length us)
           in if count > 0
              then [\<lparr>ri_roomId = roomId, ri_name = name metadata, ri_count = count,
                     ri_isPublic = True, ri_isLocked = isLocked metadata,
                     ri_waitingRoom = waitingRoom metadata\<rparr>]
              else [])
        else []) (roomMetadata st))"

definition broadcastPublicRooms :: "server_state \<Rightarrow> emission list" where
  "broadcastPublicRooms st = [(ToAll, RoomsUpdate (getPublicRooms st))]"

text \<open>\<open>meta?.hostId\<close>\<close>

definition metaHost :: "RoomMeta option \<Rightarrow> string option" where
  "metaHost meta = (case meta of None \<Rightarrow> None | Some m \<Rightarrow> hostId m)"

definition getRoomSettings :: "server_state \<Rightarrow> string \<Rightarrow> RoomSettings" where
  "getRoomSettings st roomId =
     (let meta = map_of (roomMetadata st) roomId
      in \<lparr>rs_isLocked = (case meta of None \<Rightarrow> False | Some m \<Rightarrow> isLocked m),
          rs_waitingRoom = (case meta of None \<Rightarrow> False | Some m \<Rightarrow> waitingRoom m),
          rs_hostId = metaHost meta\<rparr>)"

text \<open>
  \<open>Array.from(socketToUser.entries()).find(([_, id]) => id === uid)?.[0]\<close>: the first
  socket bound to the user identifier, none when \<open>uid\<close> is \<open>undefined\<close>.
\<close>

definition findSocketOf :: "server_state \<Rightarrow> string option \<Rightarrow> string option" where
  "findSocketOf st uid = map_option fst (List.find (\<lambda>(_, x). Some x = uid) (socketToUser st))"

text \<open>\<open>Array.from(waiting.values()).map(u => ({ odId: u.odId, userName: u.userName }))\<close>\<close>

definition waitingList :: "(string \<times> WaitingUser) list \<Rightarrow> (string \<times> string) list" where
  "waitingList waiting = map (\<lambda>(_, u). (wu_odId u, wu_userName u)) waiting"

text \<open>\<open>if (h) io.to(h).emit(...)\<close> for an optional socket identifier \<open>h\<close>.\<close>

definition toSocketIfAny :: "string option \<Rightarrow> message list \<Rightarrow> emission list" where
  "toSocketIfAny h ms =
     (case h of None \<Rightarrow> [] | Some x \<Rightarrow> if truthy x then map (\<lambda>m. (ToRoom x, m)) ms else [])"

subsection \<open>The \<open>join-room\<close> handler (lines 92 to 178)\<close>

text \<open>Lines 94 to 96: \<open>if (userName) userNames.set(odId, userName)\<close>.\<close>

definition storeUserName :: "server_state \<Rightarrow> string \<Rightarrow> string option \<Rightarrow> server_state" where
  "storeUserName st odId userName =
     (case userName of
        None \<Rightarrow> st
      | Some n \<Rightarrow> if truthy n then st\<lparr>userNames := AList.update odId n (userNames st)\<rparr> else st)"

text \<open>\<open>userName || odId\<close>\<close>

definition nameOr :: "string option \<Rightarrow> string \<Rightarrow> string" where
  "nameOr userName odId =
     (case userName of None \<Rightarrow> odId | Some n \<Rightarrow> if truthy n then n else odId)"

text \<open>
  Lines 110 to 136, the waiting-room branch. \<open>waiting\<close> is the room's waiting map after the
  entry of \<open>odId\<close> has been set (an absent map is created empty first); the host's socket
  is looked up after the requester's own binding has been written.
\<close>

definition joinWaiting ::
  "server_state \<Rightarrow> string \<Rightarrow> string \<Rightarrow> string \<Rightarrow> string option \<Rightarrow> RoomMeta
     \<Rightarrow> server_state \<times> emission list" where
  "joinWaiting st sid roomId odId userName existingMeta =
     (let waiting0 = (case map_of (waitingRooms st) roomId of None \<Rightarrow> [] | Some w \<Rightarrow> w);
          waiting = AList.update odId
                      \<lparr>wu_odId = odId, wu_socketId = sid, wu_userName = nameOr userName odId\<rparr>
                      waiting0;
          st1 = st\<lparr>waitingRooms := AList.update roomId waiting (waitingRooms st),
                   socketToUser := AList.update sid odId (socketToUser st)\<rparr>;
          hostSocketId = findSocketOf st1 (hostId existingMeta)
      in (st1, (ToSocket sid, WaitingRoom roomId (length waiting)) #
               toSocketIfAny hostSocketId [WaitingRoomUpdate roomId (waitingList waiting)]))"

text \<open>Lines 148 to 156: the three entries of a new room.\<close>

definition createRoom :: "server_state \<Rightarrow> string \<Rightarrow> string \<Rightarrow> RoomConfig option \<Rightarrow> server_state" where
  "createRoom st roomId odId config =
     st\<lparr>rooms := AList.update roomId [] (rooms st),
        roomMetadata := AList.update roomId
          \<lparr>isPublic = (case config of None \<Rightarrow> False | Some c \<Rightarrow> cfg_isPublic c),
           name = Some (case config of
                          None \<Rightarrow> ''Room '' @ roomId
                        | Some c \<Rightarrow> if truthy (cfg_name c) then cfg_name c else ''Room '' @ roomId),
           hostId = Some odId,
           isLocked = False,
           waitingRoom = (case config of
                            None \<Rightarrow> False
                          | Some c \<Rightarrow> (case cfg_waitingRoom c of None \<Rightarrow> False | Some b \<Rightarrow> b))\<rparr>
          (roomMetadata st),
        waitingRooms := AList.update roomId [] (waitingRooms st)\<rparr>"

text \<open>Lines 140 to 177, the direct join.\<close>

definition joinDirect ::
  "server_state \<Rightarrow> string \<Rightarrow> string \<Rightarrow> string \<Rightarrow> RoomConfig option \<Rightarrow> bool
     \<Rightarrow> server_state \<times> emission list" where
  "joinDirect st sid roomId odId config isNewRoom =
     (let st1 = st\<lparr>adapter := Set_add (adapter st) (sid, roomId),
                   socketToUser := AList.update sid odId (socketToUser st),
                   userToRoom := AList.update odId roomId (userToRoom st)\<rparr>;
          st2 = (if isNewRoom then createRoom st1 roomId odId config else st1);
          roomUsers = map_of (rooms st2) roomId;
          out1 = (case roomUsers of
                    None \<Rightarrow> []
                  | Some us \<Rightarrow> [(FromSocketToRoom sid roomId, UserConnected odId)]);
          st3 = (case roomUsers of
                   None \<Rightarrow> st2
                 | Some us \<Rightarrow> st2\<lparr>rooms := AList.update roomId (Set_add us odId) (rooms st2)\<rparr>);
          meta = map_of (roomMetadata st3) roomId
      in (st3, out1
               @ [(ToSocket sid, RoomJoined roomId (metaHost meta = Some odId)
                                   (getRoomSettings st3 roomId))]
               @ broadcastPublicRooms st3))"

definition on_join_room ::
  "server_state \<Rightarrow> string \<Rightarrow> string \<Rightarrow> string \<Rightarrow> RoomConfig option \<Rightarrow> string option \<Rightarrow> outcome" where
  "on_join_room st0 sid roomId odId config userName =
     (let st = storeUserName st0 odId userName;
          existingMeta = map_of (roomMetadata st) roomId
      in case existingMeta of
           None \<Rightarrow> Inr (joinDirect st sid roomId odId config True)
         | Some m \<Rightarrow>
             if isLocked m then Inr (st, [(ToSocket sid, RoomLocked roomId)])
             else if waitingRoom m \<and> hostId m \<noteq> Some odId
                  then Inr (joinWaiting st sid roomId odId userName m)
                  else Inr (joinDirect st sid roomId odId config False))"

subsection \<open>The host-only handlers (lines 181 to 302)\<close>

text \<open>Lines 200 to 219: the waiting user's socket is still connected.\<close>

definition admitTarget ::
  "server_state \<Rightarrow> string \<Rightarrow> string \<Rightarrow> string \<Rightarrow> server_state \<times> emission list" where
  "admitTarget st roomId odId targetSocket =
     (let st1 = st\<lparr>adapter := Set_add (adapter st) (targetSocket, roomId),
                   userToRoom := AList.update odId roomId (userToRoom st)\<rparr>;
          roomUsers = map_of (rooms st1) roomId;
          out1 = (case roomUsers of
                    None \<Rightarrow> []
                  | Some us \<Rightarrow> [(FromSocketToRoom targetSocket roomId, UserConnected odId)]);
          st2 = (case roomUsers of
                   None \<Rightarrow> st1
                 | Some us \<Rightarrow> st1\<lparr>rooms := AList.update roomId (Set_add us odId) (rooms st1)\<rparr>)
      in (st2, out1 @ [(ToSocket targetSocket, Admitted roomId False (getRoomSettings st2 roomId))]))"

definition on_admit_user :: "server_state \<Rightarrow> string \<Rightarrow> string \<Rightarrow> string \<Rightarrow> outcome" where
  "on_admit_user st sid roomId odId =
     (let hostUserId = map_of (socketToUser st) sid;
          meta = map_of (roomMetadata st) roomId
      in if metaHost meta \<noteq> hostUserId then Inr (st, [])
         else (case map_of (waitingRooms st) roomId of
                 None \<Rightarrow> Inr (st, [])
               | Some waiting0 \<Rightarrow>
                  (case map_of waiting0 odId of
                     None \<Rightarrow> Inr (st, [])
                   | Some waitingUser \<Rightarrow>
                      (let waiting = AList.delete odId waiting0;
                           st1 = st\<lparr>waitingRooms := AList.update roomId waiting (waitingRooms st)\<rparr>;
                           r = (if wu_socketId waitingUser \<in> set (sockets st1)
                                then admitTarget st1 roomId odId (wu_socketId waitingUser)
                                else (st1, []))
                       in Inr (fst r, snd r
                                 @ [(ToSocket sid, WaitingRoomUpdate roomId (waitingList waiting))]
                                 @ broadcastPublicRooms (fst r))))))"

definition on_deny_user :: "server_state \<Rightarrow> string \<Rightarrow> string \<Rightarrow> string \<Rightarrow> outcome" where
  "on_deny_user st sid roomId odId =
     (let hostUserId = map_of (socketToUser st) sid;
          meta = map_of (roomMetadata st) roomId
      in if metaHost meta \<noteq> hostUserId then Inr (st, [])
         else (case map_of (waitingRooms st) roomId of
                 None \<Rightarrow> Inr (st, [])
               | Some waiting0 \<Rightarrow>
                  (case map_of waiting0 odId of
                     None \<Rightarrow> Inr (st, [])
                   | Some waitingUser \<Rightarrow>
                      (let waiting = AList.delete odId waiting0;
                           st1 = st\<lparr>waitingRooms := AList.update roomId waiting (waitingRooms st)\<rparr>;
                           r = (if wu_socketId waitingUser \<in> set (sockets st1)
                                then (st1\<lparr>socketToUser :=
                                            AList.delete (wu_socketId waitingUser) (socketToUser st1)\<rparr>,
                                      [(ToSocket (wu_socketId waitingUser), Denied roomId)])
                                else (st1, []))
                       in Inr (fst r, snd r
                                 @ [(ToSocket sid, WaitingRoomUpdate roomId (waitingList waiting))])))))"

text \<open>
  Lines 267 to 283. The guard compares \<open>meta?.hostId\<close> with the sender's binding; when both
  are \<open>undefined\<close> it lets the event through and \<open>meta.isLocked\<close> raises.
\<close>

definition on_toggle_lock :: "server_state \<Rightarrow> string \<Rightarrow> string \<Rightarrow> outcome" where
  "on_toggle_lock st sid roomId =
     (let hostUserId = map_of (socketToUser st) sid;
          meta = map_of (roomMetadata st) roomId
      in if metaHost meta \<noteq> hostUserId then Inr (st, [])
         else (case meta of
                 None \<Rightarrow> Inl TypeError
               | Some m \<Rightarrow>
                  (let st1 = st\<lparr>roomMetadata :=
                                  AList.update roomId (m\<lparr>isLocked := \<not> isLocked m\<rparr>) (roomMetadata st)\<rparr>
                   in Inr (st1, [(ToRoom roomId, RoomSettingsUpdate (getRoomSettings st1 roomId))]
                                @ broadcastPublicRooms st1))))"

definition on_toggle_waiting_room :: "server_state \<Rightarrow> string \<Rightarrow> string \<Rightarrow> outcome" where
  "on_toggle_waiting_room st sid roomId =
     (let hostUserId = map_of (socketToUser st) sid;
          meta = map_of (roomMetadata st) roomId
      in if metaHost meta \<noteq> hostUserId then Inr (st, [])
         else (case meta of
                 None \<Rightarrow> Inl TypeError
               | Some m \<Rightarrow>
                  (let st1 = st\<lparr>roomMetadata :=
                                  AList.update roomId (m\<lparr>waitingRoom := \<not> waitingRoom m\<rparr>)
                                    (roomMetadata st)\<rparr>
                   in Inr (st1, [(ToRoom roomId, RoomSettingsUpdate (getRoomSettings st1 roomId))]
                                @ broadcastPublicRooms st1))))"

subsection \<open>Departure: \<open>leave-room\<close> (lines 363 to 432) and \<open>disconnect\<close> (lines 434 to 516)\<close>

text \<open>
  Lines 378 to 399 and, word for word, lines 467 to 486: the host field becomes the first
  remaining member, and the first socket bound to that member, when there is one, is told.
\<close>

definition transferHost ::
  "server_state \<Rightarrow> string \<Rightarrow> RoomMeta \<Rightarrow> string list \<Rightarrow> server_state \<times> emission list" where
  "transferHost st roomId meta roomUsers =
     (let newHostId = Set_first roomUsers;
          st1 = st\<lparr>roomMetadata := AList.update roomId (meta\<lparr>hostId := newHostId\<rparr>) (roomMetadata st)\<rparr>;
          newHostSocketId = findSocketOf st1 newHostId
      in (st1, toSocketIfAny newHostSocketId
                 ([HostChanged True, RoomSettingsUpdate (getRoomSettings st1 roomId)]
                  @ (case map_of (waitingRooms st1) roomId of
                       None \<Rightarrow> []
                     | Some waiting \<Rightarrow>
                         if length waiting > 0
                         then [WaitingRoomUpdate roomId (waitingList waiting)] else []))))"

text \<open>
  The loop of lines 409 to 415 (and 495 to 501) over the waiting users of a room that is
  being deleted: a user whose socket is still connected is told, and that socket's binding
  is dropped. It returns the new \<open>socketToUser\<close> and the emissions.
\<close>

fun closeWaiting ::
  "string list \<Rightarrow> string \<Rightarrow> (string \<times> WaitingUser) list \<Rightarrow> (string \<times> string) list
     \<Rightarrow> (string \<times> string) list \<times> emission list" where
  "closeWaiting socks roomId [] s2u = (s2u, [])"
| "closeWaiting socks roomId ((k, user) # rest) s2u =
     (if wu_socketId user \<in> set socks
      then (let r = closeWaiting socks roomId rest (AList.delete (wu_socketId user) s2u)
            in (fst r, (ToSocket (wu_socketId user), RoomClosed roomId) # snd r))
      else closeWaiting socks roomId rest s2u)"

text \<open>Lines 403 to 417 and 490 to 503.\<close>

definition cleanupRoom :: "server_state \<Rightarrow> string \<Rightarrow> server_state \<times> emission list" where
  "cleanupRoom st roomId =
     (let st1 = st\<lparr>rooms := AList.delete roomId (rooms st),
                   roomMetadata := AList.delete roomId (roomMetadata st)\<rparr>
      in case map_of (waitingRooms st1) roomId of
           None \<Rightarrow> (st1, [])
         | Some waiting \<Rightarrow>
            (let r = closeWaiting (sockets st1) roomId waiting (socketToUser st1)
             in (st1\<lparr>socketToUser := fst r,
                     waitingRooms := AList.delete roomId (waitingRooms st1)\<rparr>, snd r)))"

text \<open>
  Lines 375 to 420 and 464 to 506, for a room that has a membership set \<open>roomUsers0\<close>: the
  user is deleted from it, the host is transferred when the user was host and members
  remain, and the room is deleted when nobody remains.
\<close>

definition departRoom ::
  "server_state \<Rightarrow> string \<Rightarrow> string \<Rightarrow> RoomMeta option \<Rightarrow> string list
     \<Rightarrow> server_state \<times> emission list" where
  "departRoom st roomId userId meta roomUsers0 =
     (let roomUsers = Set_delete roomUsers0 userId;
          st1 = st\<lparr>rooms := AList.update roomId roomUsers (rooms st)\<rparr>;
          r1 = (case meta of
                  None \<Rightarrow> (st1, [])
                | Some m \<Rightarrow>
                    if hostId m = Some userId \<and> length roomUsers > 0
                    then transferHost st1 roomId m roomUsers else (st1, []));
          r2 = (if length roomUsers = 0 then cleanupRoom (fst r1) roomId else (fst r1, []))
      in (fst r2, snd r1 @ snd r2))"

definition leaveRoom ::
  "server_state \<Rightarrow> string \<Rightarrow> string \<Rightarrow> string \<Rightarrow> server_state \<times> emission list" where
  "leaveRoom st sid roomId userId =
     (let st1 = st\<lparr>adapter := Set_delete (adapter st) (sid, roomId)\<rparr>;
          meta = map_of (roomMetadata st1) roomId;
          r = (case map_of (rooms st1) roomId of
                 None \<Rightarrow> (st1, [])
               | Some roomUsers0 \<Rightarrow> departRoom st1 roomId userId meta roomUsers0);
          st2 = (fst r)\<lparr>userToRoom := AList.delete userId (userToRoom (fst r)),
                        userNames := AList.delete userId (userNames (fst r))\<rparr>
      in (st2, snd r
               @ [(FromSocketToRoom sid roomId, UserDisconnected userId)]
               @ broadcastPublicRooms st2))"

definition on_leave_room :: "server_state \<Rightarrow> string \<Rightarrow> string \<Rightarrow> string \<Rightarrow> outcome" where
  "on_leave_room st sid roomId userId = Inr (leaveRoom st sid roomId userId)"

text \<open>
  The loop of lines 440 to 458 over the entries of \<open>waitingRooms\<close>: the first waiting map
  that holds \<open>odId\<close> loses it, the host of that room is told, and the loop stops.
  It returns the new \<open>waitingRooms\<close> and the emissions.
\<close>

fun leaveWaiting ::
  "server_state \<Rightarrow> string \<Rightarrow> (string \<times> (string \<times> WaitingUser) list) list
     \<Rightarrow> (string \<times> (string \<times> WaitingUser) list) list \<times> emission list" where
  "leaveWaiting st odId [] = ([], [])"
| "leaveWaiting st odId ((rid, waiting0) # rest) =
     (if map_of waiting0 odId \<noteq> None
      then (let waiting = AList.delete odId waiting0;
                h = metaHost (map_of (roomMetadata st) rid)
            in ((rid, waiting) # rest,
                (case h of
                   None \<Rightarrow> []
                 | Some x \<Rightarrow>
                     if truthy x
                     then toSocketIfAny (findSocketOf st h)
                            [WaitingRoomUpdate rid (waitingList waiting)]
                     else [])))
      else (let r = leaveWaiting st odId rest in ((rid, waiting0) # fst r, snd r)))"

text \<open>Lines 460 to 510, for a user whose binding names the room \<open>roomId\<close>.\<close>

definition disconnectRoom ::
  "server_state \<Rightarrow> string \<Rightarrow> string \<Rightarrow> string \<Rightarrow> server_state \<times> emission list" where
  "disconnectRoom st sid roomId odId =
     (let meta = map_of (roomMetadata st) roomId;
          r = (case map_of (rooms st) roomId of
                 None \<Rightarrow> (st, [])
               | Some roomUsers0 \<Rightarrow> departRoom st roomId odId meta roomUsers0)
      in (fst r, snd r
                 @ [(FromSocketToRoom sid roomId, UserDisconnected odId)]
                 @ broadcastPublicRooms (fst r)))"

text \<open>
  socket.io runs the \<open>disconnect\<close> handler after the socket has left all its rooms and
  has been removed from \<open>io.sockets.sockets\<close>.
\<close>

definition socketGone :: "server_state \<Rightarrow> string \<Rightarrow> server_state" where
  "socketGone st sid =
     st\<lparr>sockets := removeAll sid (sockets st),
        adapter := filter (\<lambda>(s, r). s \<noteq> sid) (adapter st)\<rparr>"

text \<open>Lines 437 to 514, the body of \<open>if (odId)\<close>.\<close>

definition disconnectUser ::
  "server_state \<Rightarrow> string \<Rightarrow> string \<Rightarrow> server_state \<times> emission list" where
  "disconnectUser st sid odId =
     (let roomId = map_of (userToRoom st) odId;
          w = leaveWaiting st odId (waitingRooms st);
          st1 = st\<lparr>waitingRooms := fst w\<rparr>;
          r = (case roomId of
                 None \<Rightarrow> (st1, [])
               | Some rid \<Rightarrow>
                   if truthy rid then disconnectRoom st1 sid rid odId else (st1, []));
          st2 = (fst r)\<lparr>socketToUser := AList.delete sid (socketToUser (fst r)),
                        userToRoom := AList.delete odId (userToRoom (fst r)),
                        userNames := AList.delete odId (userNames (fst r))\<rparr>
      in (st2, snd w @ snd r))"

definition on_disconnect :: "server_state \<Rightarrow> string \<Rightarrow> outcome" where
  "on_disconnect st0 sid =
     (let st = socketGone st0 sid
      in case map_of (socketToUser st) sid of
           None \<Rightarrow> Inr (st, [])
         | Some odId \<Rightarrow>
            if truthy odId then Inr (disconnectUser st sid odId) else Inr (st, []))"

subsection \<open>Relays (lines 304 to 360) and the dispatch of events\<close>

text \<open>\<open>userToRoom.get(socketToUser.get(socket.id) || '')\<close>, kept when it is truthy.\<close>

definition senderRoom :: "server_state \<Rightarrow> string \<Rightarrow> string option" where
  "senderRoom st sid =
     (case map_of (userToRoom st)
             (case map_of (socketToUser st) sid of
                None \<Rightarrow> [] | Some u \<Rightarrow> if truthy u then u else []) of
        None \<Rightarrow> None
      | Some r \<Rightarrow> if truthy r then Some r else None)"

definition relayToSenderRoom :: "server_state \<Rightarrow> string \<Rightarrow> message \<Rightarrow> emission list" where
  "relayToSenderRoom st sid m =
     (case senderRoom st sid of None \<Rightarrow> [] | Some r \<Rightarrow> [(FromSocketToRoom sid r, m)])"

text \<open>
  The events a connected client can send, with the arguments the handlers read. The payloads
  are the well-typed ones of \<open>ClientToServerEvents\<close> in src/types.ts.
\<close>

datatype client_event =
    GetRooms
  | Ping bool
  | JoinRoom string string "RoomConfig option" "string option"
  | AdmitUser string string
  | DenyUser string string
  | ToggleLock string
  | ToggleWaitingRoom string
  | SendOffer string string bool string
  | SendAnswer string string bool string
  | SendIceCandidate string string
  | SendChatMessage string string
  | SendReaction string string
  | SendCaption string string
  | SendWhiteboardDraw string string
  | SendWhiteboardClear string
  | LeaveRoom string string

fun on_event :: "server_state \<Rightarrow> string \<Rightarrow> client_event \<Rightarrow> outcome" where
  "on_event st sid GetRooms = Inr (st, [(ToSocket sid, RoomsUpdate (getPublicRooms st))])"
| "on_event st sid (Ping hasCallback) =
     Inr (st, if hasCallback then [(ToSocket sid, PingAck)] else [])"
| "on_event st sid (JoinRoom roomId odId config userName) =
     on_join_room st sid roomId odId config userName"
| "on_event st sid (AdmitUser roomId odId) = on_admit_user st sid roomId odId"
| "on_event st sid (DenyUser roomId odId) = on_deny_user st sid roomId odId"
| "on_event st sid (ToggleLock roomId) = on_toggle_lock st sid roomId"
| "on_event st sid (ToggleWaitingRoom roomId) = on_toggle_waiting_room st sid roomId"
| "on_event st sid (SendOffer targetUserId userName isScreenShare sdp) =
     Inr (st, relayToSenderRoom st sid
               (Offer (map_of (socketToUser st) sid) userName isScreenShare sdp targetUserId))"
| "on_event st sid (SendAnswer targetUserId userName isScreenShare sdp) =
     Inr (st, relayToSenderRoom st sid
               (Answer (map_of (socketToUser st) sid) userName isScreenShare sdp targetUserId))"
| "on_event st sid (SendIceCandidate targetUserId candidate) =
     Inr (st, relayToSenderRoom st sid
               (IceCandidate (map_of (socketToUser st) sid) candidate targetUserId))"
| "on_event st sid (SendChatMessage roomId m) =
     Inr (st, [(FromSocketToRoom sid roomId, ChatMessage m)])"
| "on_event st sid (SendReaction roomId m) =
     Inr (st, [(FromSocketToRoom sid roomId, Reaction m)])"
| "on_event st sid (SendCaption roomId m) =
     Inr (st, [(FromSocketToRoom sid roomId, Caption m)])"
| "on_event st sid (SendWhiteboardDraw roomId m) =
     Inr (st, [(FromSocketToRoom sid roomId, WhiteboardDraw m)])"
| "on_event st sid (SendWhiteboardClear roomId) =
     Inr (st, [(FromSocketToRoom sid roomId, WhiteboardClear)])"
| "on_event st sid (LeaveRoom roomId userId) = on_leave_room st sid roomId userId"

text \<open>
  What the server sees: a new connection, an event of a connected client, a disconnection.
  Only connected sockets have handlers, and socket identifiers are unique among them. On
  connection socket.io puts the socket in the room named by its own identifier.
\<close>

datatype event =
    Connection string
  | Client string client_event
  | Disconnect string

fun handle :: "server_state \<Rightarrow> event \<Rightarrow> outcome" where
  "handle st (Connection sid) =
     Inr (if sid \<in> set (sockets st) then st
          else st\<lparr>sockets := sockets st @ [sid],
                  adapter := Set_add (adapter st) (sid, sid)\<rparr>, [])"
| "handle st (Client sid e) =
     (if sid \<in> set (sockets st) then on_event st sid e else Inr (st, []))"
| "handle st (Disconnect sid) =
     (if sid \<in> set (sockets st) then on_disconnect st sid else Inr (st, []))"

text \<open>
  A sequence of events from a state. An exception that no handler catches ends the Node
  process, so the run stops there.
\<close>

fun run :: "server_state \<Rightarrow> event list \<Rightarrow> error + server_state" where
  "run st [] = Inr st"
| "run st (e # es) = (case handle st e of Inl err \<Rightarrow> Inl err | Inr r \<Rightarrow> run (fst r) es)"

subsection \<open>Invariants and example states\<close>

text \<open>
  Every room identifier that is a key of the membership map, of the metadata map or of the
  waiting-room map has a membership set with at least one member.
\<close>

definition roomsInv :: "server_state \<Rightarrow> bool" where
  "roomsInv st =
     (\<forall>rid. rid \<in> fst ` set (rooms st) \<union> fst ` set (roomMetadata st) \<union> fst ` set (waitingRooms st)
        \<longrightarrow> (\<exists>us. map_of (rooms st) rid = Some us \<and> 1 \<le> length us))"

text \<open>
  Every room with metadata has a host, and the host is in the membership set of the room.
\<close>

definition hostInv :: "server_state \<Rightarrow> bool" where
  "hostInv st =
     (\<forall>rid m. map_of (roomMetadata st) rid = Some m
        \<longrightarrow> (\<exists>h us. hostId m = Some h \<and> map_of (rooms st) rid = Some us \<and> h \<in> set us))"

text \<open>
  The sockets that receive the message \<open>m\<close> when the emissions \<open>out\<close> of an event are
  delivered in the state \<open>st\<close> the event leaves: every handler changes the socket.io state
  before it emits.
\<close>

definition receivers :: "server_state \<Rightarrow> emission list \<Rightarrow> message \<Rightarrow> string list" where
  "receivers st out m = concat (map (\<lambda>e. recipients st (fst e)) (filter (\<lambda>e. snd e = m) out))"

text \<open>The waiting entries of a room, none when the room has no waiting map.\<close>

definition waitingOf :: "server_state \<Rightarrow> string \<Rightarrow> (string \<times> WaitingUser) list" where
  "waitingOf st r = (case map_of (waitingRooms st) r of None \<Rightarrow> [] | Some w \<Rightarrow> w)"

definition authorityInv :: "server_state \<Rightarrow> bool" where
  "authorityInv st = (roomsInv st \<and> hostInv st)"

text \<open>The room exists and its lock flag is set.\<close>

definition roomLocked :: "server_state \<Rightarrow> string \<Rightarrow> bool" where
  "roomLocked st roomId = (case map_of (roomMetadata st) roomId of None \<Rightarrow> False | Some m \<Rightarrow> isLocked m)"

text \<open>
  The states below are examples. Each is reached from the initial state by the events its
  lemma \<open>_reachable\<close> names, or is the result of one more event, as the theorem that uses
  it shows. First, a single connected socket that has sent nothing.
\<close>

definition s1Connected :: server_state where
  "s1Connected = init\<lparr>sockets := [''s1''], adapter := [(''s1'', ''s1'')]\<rparr>"

text \<open>``u1'' created ``R1'' on socket ``s1'' and locked it; socket ``s2'' has connected.\<close>

definition lockedRoom :: server_state where
  "lockedRoom =
     \<lparr>rooms = [(''R1'', [''u1''])],
      roomMetadata = [(''R1'', \<lparr>isPublic = False, name = Some ''Room R1'', hostId = Some ''u1'',
                                isLocked = True, waitingRoom = False\<rparr>)],
      waitingRooms = [(''R1'', [])],
      socketToUser = [(''s1'', ''u1'')],
      userToRoom = [(''u1'', ''R1'')],
      userNames = [],
      sockets = [''s1'', ''s2''],
      adapter = [(''s1'', ''s1''), (''s1'', ''R1''), (''s2'', ''s2'')]\<rparr>"

text \<open>``u1'' created ``R1'' on socket ``s1''.\<close>

definition createdRoom :: server_state where
  "createdRoom =
     \<lparr>rooms = [(''R1'', [''u1''])],
      roomMetadata = [(''R1'', \<lparr>isPublic = False, name = Some ''Room R1'', hostId = Some ''u1'',
                                isLocked = False, waitingRoom = False\<rparr>)],
      waitingRooms = [(''R1'', [])],
      socketToUser = [(''s1'', ''u1'')],
      userToRoom = [(''u1'', ''R1'')],
      userNames = [],
      sockets = [''s1''],
      adapter = [(''s1'', ''s1''), (''s1'', ''R1'')]\<rparr>"



text \<open>A creation config that turns the waiting room on.\<close>

definition cfgGated :: "RoomConfig option" where
  "cfgGated = Some \<lparr>cfg_isPublic = True, cfg_name = ''Standup'', cfg_waitingRoom = Some True\<rparr>"

text \<open>``u1'' created ``R1'' with that config; socket ``s2'' has connected.\<close>

definition gatedRoom :: server_state where
  "gatedRoom =
     \<lparr>rooms = [(''R1'', [''u1''])],
      roomMetadata = [(''R1'', \<lparr>isPublic = True, name = Some ''Standup'', hostId = Some ''u1'',
                                isLocked = False, waitingRoom = True\<rparr>)],
      waitingRooms = [(''R1'', [])],
      socketToUser = [(''s1'', ''u1'')],
      userToRoom = [(''u1'', ''R1'')],
      userNames = [],
      sockets = [''s1'', ''s2''],
      adapter = [(''s1'', ''s1''), (''s2'', ''s2''), (''s1'', ''R1'')]\<rparr>"

text \<open>
  ``u1'' created ``R1'' with that config, joined ``R2'' on the same socket and disconnected;
  socket ``s2'' has connected.
\<close>

definition ghostGatedRoom :: server_state where
  "ghostGatedRoom =
     \<lparr>rooms = [(''R1'', [''u1''])],
      roomMetadata = [(''R1'', \<lparr>isPublic = True, name = Some ''Standup'', hostId = Some ''u1'',
                                isLocked = False, waitingRoom = True\<rparr>)],
      waitingRooms = [(''R1'', [])],
      socketToUser = [],
      userToRoom = [],
      userNames = [],
      sockets = [''s2''],
      adapter = [(''s2'', ''s2'')]\<rparr>"


text \<open>``u2'' waits for the room of ``u1''.\<close>

definition gatedRoomWaiting :: server_state where
  "gatedRoomWaiting =
     gatedRoom\<lparr>waitingRooms :=
                  [(''R1'', [(''u2'', \<lparr>wu_odId = ''u2'', wu_socketId = ''s2'', wu_userName = ''u2''\<rparr>)])],
                socketToUser := [(''s1'', ''u1''), (''s2'', ''u2'')]\<rparr>"

text \<open>``u2'' waits for the room that ``u1'' left behind.\<close>

definition ghostGatedRoomWaiting :: server_state where
  "ghostGatedRoomWaiting =
     ghostGatedRoom\<lparr>waitingRooms :=
                  [(''R1'', [(''u2'', \<lparr>wu_odId = ''u2'', wu_socketId = ''s2'', wu_userName = ''u2''\<rparr>)])],
                socketToUser := [(''s2'', ''u2'')]\<rparr>"


text \<open>``u2'' and then ``u3'' wait for the room of ``u1''.\<close>

definition queueOfTwo :: server_state where
  "queueOfTwo =
     \<lparr>rooms = [(''R1'', [''u1''])],
      roomMetadata = [(''R1'', \<lparr>isPublic = True, name = Some ''Standup'', hostId = Some ''u1'',
                                isLocked = False, waitingRoom = True\<rparr>)],
      waitingRooms =
        [(''R1'', [(''u2'', \<lparr>wu_odId = ''u2'', wu_socketId = ''s2'', wu_userName = ''u2''\<rparr>),
                   (''u3'', \<lparr>wu_odId = ''u3'', wu_socketId = ''s3'', wu_userName = ''u3''\<rparr>)])],
      socketToUser = [(''s1'', ''u1''), (''s2'', ''u2''), (''s3'', ''u3'')],
      userToRoom = [(''u1'', ''R1'')],
      userNames = [],
      sockets = [''s1'', ''s2'', ''s3''],
      adapter = [(''s1'', ''s1''), (''s2'', ''s2''), (''s1'', ''R1''), (''s3'', ''s3'')]\<rparr>"

text \<open>
  The room of ``u1'' with the waiting room on, after socket ``s1'' has sent \<open>leave-room\<close> for
  the socket.io room named ``s1''.
\<close>

definition hostLeftOwnRoom :: server_state where
  "hostLeftOwnRoom = gatedRoom\<lparr>adapter := [(''s2'', ''s2''), (''s1'', ''R1'')]\<rparr>"

text \<open>``u1'' created ``R1'' and then ``R2'' on one socket.\<close>

definition twoRooms :: server_state where
  "twoRooms =
     \<lparr>rooms = [(''R1'', [''u1'']), (''R2'', [''u1''])],
      roomMetadata =
        [(''R1'', \<lparr>isPublic = False, name = Some ''Room R1'', hostId = Some ''u1'',
                   isLocked = False, waitingRoom = False\<rparr>),
         (''R2'', \<lparr>isPublic = False, name = Some ''Room R2'', hostId = Some ''u1'',
                   isLocked = False, waitingRoom = False\<rparr>)],
      waitingRooms = [(''R1'', []), (''R2'', [])],
      socketToUser = [(''s1'', ''u1'')],
      userToRoom = [(''u1'', ''R2'')],
      userNames = [],
      sockets = [''s1''],
      adapter = [(''s1'', ''s1''), (''s1'', ''R1''), (''s1'', ''R2'')]\<rparr>"

text \<open>What is left of it when that socket disconnects.\<close>

definition ghostRoom :: server_state where
  "ghostRoom =
     \<lparr>rooms = [(''R1'', [''u1''])],
      roomMetadata =
        [(''R1'', \<lparr>isPublic = False, name = Some ''Room R1'', hostId = Some ''u1'',
                   isLocked = False, waitingRoom = False\<rparr>)],
      waitingRooms = [(''R1'', [])],
      socketToUser = [],
      userToRoom = [],
      userNames = [],
      sockets = [],
      adapter = []\<rparr>"

text \<open>The metadata of a room created with the config above, with host \<open>h\<close>.\<close>

definition metaStandup :: "string \<Rightarrow> RoomMeta" where
  "metaStandup h = \<lparr>isPublic = True, name = Some ''Standup'', hostId = Some h,
                    isLocked = False, waitingRoom = True\<rparr>"

text \<open>
  ``u1'' hosts ``R1'' and ``u3'' hosts ``R2''; ``u2'' asked to enter both on socket ``s2'' and
  disconnected.
\<close>

definition staleWaiting :: server_state where
  "staleWaiting =
     \<lparr>rooms = [(''R1'', [''u1'']), (''R2'', [''u3''])],
      roomMetadata = [(''R1'', metaStandup ''u1''), (''R2'', metaStandup ''u3'')],
      waitingRooms =
        [(''R1'', []),
         (''R2'', [(''u2'', \<lparr>wu_odId = ''u2'', wu_socketId = ''s2'', wu_userName = ''u2''\<rparr>)])],
      socketToUser = [(''s1'', ''u1''), (''s3'', ''u3'')],
      userToRoom = [(''u1'', ''R1''), (''u3'', ''R2'')],
      userNames = [],
      sockets = [''s1'', ''s3''],
      adapter = [(''s1'', ''s1''), (''s1'', ''R1''), (''s3'', ''s3''), (''s3'', ''R2'')]\<rparr>"

text \<open>A user whose identifier is the empty string created ``R1''.\<close>

definition namelessMember :: server_state where
  "namelessMember =
     \<lparr>rooms = [(''R1'', [[]])],
      roomMetadata =
        [(''R1'', \<lparr>isPublic = False, name = Some ''Room R1'', hostId = Some [],
                   isLocked = False, waitingRoom = False\<rparr>)],
      waitingRooms = [(''R1'', [])],
      socketToUser = [(''s1'', [])],
      userToRoom = [([], ''R1'')],
      userNames = [],
      sockets = [''s1''],
      adapter = [(''s1'', ''s1''), (''s1'', ''R1'')]\<rparr>"

text \<open>``u1'' created the room whose identifier is the empty string.\<close>

definition namelessRoom :: server_state where
  "namelessRoom =
     \<lparr>rooms = [([], [''u1''])],
      roomMetadata =
        [([], \<lparr>isPublic = False, name = Some ''Room '', hostId = Some ''u1'',
               isLocked = False, waitingRoom = False\<rparr>)],
      waitingRooms = [([], [])],
      socketToUser = [(''s1'', ''u1'')],
      userToRoom = [(''u1'', [])],
      userNames = [],
      sockets = [''s1''],
      adapter = [(''s1'', ''s1''), (''s1'', [])]\<rparr>"

text \<open>
  ``u1'' created ``R1'', ``u2'' joined it on socket ``s2'', ``u1'' turned the waiting room on,
  ``u2'' asked to enter on a second socket ``s5'', and ``u1'' left: ``u2'' is the only member, the
  host, and a waiting user.
\<close>

definition waitingMember :: server_state where
  "waitingMember =
     \<lparr>rooms = [(''R1'', [''u2''])],
      roomMetadata =
        [(''R1'', \<lparr>isPublic = False, name = Some ''Room R1'', hostId = Some ''u2'',
                   isLocked = False, waitingRoom = True\<rparr>)],
      waitingRooms =
        [(''R1'', [(''u2'', \<lparr>wu_odId = ''u2'', wu_socketId = ''s5'', wu_userName = ''u2''\<rparr>)])],
      socketToUser = [(''s1'', ''u1''), (''s2'', ''u2''), (''s5'', ''u2'')],
      userToRoom = [(''u2'', ''R1'')],
      userNames = [],
      sockets = [''s1'', ''s2'', ''s5''],
      adapter = [(''s1'', ''s1''), (''s2'', ''s2''), (''s2'', ''R1''), (''s5'', ''s5'')]\<rparr>"

text \<open>The metadata of a room ``R1'' created without a config, with host \<open>h\<close>.\<close>

definition metaR1 :: "string \<Rightarrow> RoomMeta" where
  "metaR1 h = \<lparr>isPublic = False, name = Some ''Room R1'', hostId = Some h,
               isLocked = False, waitingRoom = False\<rparr>"

text \<open>``u1'' created ``R1''; ``u2'' and ``u3'' joined, each on its own socket.\<close>

definition threeMembers :: server_state where
  "threeMembers =
     \<lparr>rooms = [(''R1'', [''u1'', ''u2'', ''u3''])],
      roomMetadata = [(''R1'', metaR1 ''u1'')],
      waitingRooms = [(''R1'', [])],
      socketToUser = [(''s1'', ''u1''), (''s2'', ''u2''), (''s3'', ''u3'')],
      userToRoom = [(''u1'', ''R1''), (''u2'', ''R1''), (''u3'', ''R1'')],
      userNames = [],
      sockets = [''s1'', ''s2'', ''s3''],
      adapter = [(''s1'', ''s1''), (''s1'', ''R1''), (''s2'', ''s2''), (''s2'', ''R1''),
                 (''s3'', ''s3''), (''s3'', ''R1'')]\<rparr>"

text \<open>``u1'' created ``R1'', ``u2'' joined it, and ``u1'' created ``R2'' on the same socket.\<close>

definition twoRoomsHost :: server_state where
  "twoRoomsHost =
     \<lparr>rooms = [(''R1'', [''u1'', ''u2'']), (''R2'', [''u1''])],
      roomMetadata =
        [(''R1'', metaR1 ''u1''),
         (''R2'', \<lparr>isPublic = False, name = Some ''Room R2'', hostId = Some ''u1'',
                   isLocked = False, waitingRoom = False\<rparr>)],
      waitingRooms = [(''R1'', []), (''R2'', [])],
      socketToUser = [(''s1'', ''u1''), (''s2'', ''u2'')],
      userToRoom = [(''u1'', ''R2''), (''u2'', ''R1'')],
      userNames = [],
      sockets = [''s1'', ''s2''],
      adapter = [(''s1'', ''s1''), (''s1'', ''R1''), (''s2'', ''s2''), (''s2'', ''R1''),
                 (''s1'', ''R2'')]\<rparr>"

text \<open>What is left of it when the socket of ``u1'' disconnects.\<close>

definition staleHostRoom :: server_state where
  "staleHostRoom =
     \<lparr>rooms = [(''R1'', [''u1'', ''u2''])],
      roomMetadata = [(''R1'', metaR1 ''u1'')],
      waitingRooms = [(''R1'', [])],
      socketToUser = [(''s2'', ''u2'')],
      userToRoom = [(''u2'', ''R1'')],
      userNames = [],
      sockets = [''s2''],
      adapter = [(''s2'', ''s2''), (''s2'', ''R1'')]\<rparr>"

text \<open>
  ``u1'' created ``R1'' and ``u2'' joined it; ``u2'' then created ``R2'' on the same socket and
  disconnected.
\<close>

definition ghostMember :: server_state where
  "ghostMember =
     \<lparr>rooms = [(''R1'', [''u1'', ''u2''])],
      roomMetadata = [(''R1'', metaR1 ''u1'')],
      waitingRooms = [(''R1'', [])],
      socketToUser = [(''s1'', ''u1'')],
      userToRoom = [(''u1'', ''R1'')],
      userNames = [],
      sockets = [''s1''],
      adapter = [(''s1'', ''s1''), (''s1'', ''R1'')]\<rparr>"

text \<open>What is left of it when the socket of ``u1'' disconnects.\<close>

definition orphanRoom :: server_state where
  "orphanRoom =
     \<lparr>rooms = [(''R1'', [''u2''])],
      roomMetadata = [(''R1'', metaR1 ''u2'')],
      waitingRooms = [(''R1'', [])],
      socketToUser = [],
      userToRoom = [],
      userNames = [],
      sockets = [],
      adapter = []\<rparr>"

text \<open>A user whose identifier is the empty string created ``R1'', and ``u2'' joined it.\<close>

definition namelessHost :: server_state where
  "namelessHost =
     \<lparr>rooms = [(''R1'', [[], ''u2''])],
      roomMetadata = [(''R1'', metaR1 [])],
      waitingRooms = [(''R1'', [])],
      socketToUser = [(''s1'', []), (''s2'', ''u2'')],
      userToRoom = [([], ''R1''), (''u2'', ''R1'')],
      userNames = [],
      sockets = [''s1'', ''s2''],
      adapter = [(''s1'', ''s1''), (''s1'', ''R1''), (''s2'', ''s2''), (''s2'', ''R1'')]\<rparr>"

text \<open>``u1'' created the room whose identifier is the empty string, and ``u2'' joined it.\<close>

definition namelessRoomOfTwo :: server_state where
  "namelessRoomOfTwo =
     \<lparr>rooms = [([], [''u1'', ''u2''])],
      roomMetadata =
        [([], \<lparr>isPublic = False, name = Some ''Room '', hostId = Some ''u1'',
               isLocked = False, waitingRoom = False\<rparr>)],
      waitingRooms = [([], [])],
      socketToUser = [(''s1'', ''u1''), (''s2'', ''u2'')],
      userToRoom = [(''u1'', []), (''u2'', [])],
      userNames = [],
      sockets = [''s1'', ''s2''],
      adapter = [(''s1'', ''s1''), (''s1'', []), (''s2'', ''s2''), (''s2'', [])]\<rparr>"

text \<open>
  ``u2'' has joined the room of ``u1'', and its socket ``s2'' has sent \<open>leave-room\<close> for the
  socket.io room named ``s2''.
\<close>

definition deafMember :: server_state where
  "deafMember =
     \<lparr>rooms = [(''R1'', [''u1'', ''u2''])],
      roomMetadata = [(''R1'', metaR1 ''u1'')],
      waitingRooms = [(''R1'', [])],
      socketToUser = [(''s1'', ''u1''), (''s2'', ''u2'')],
      userToRoom = [(''u1'', ''R1''), (''u2'', ''R1'')],
      userNames = [],
      sockets = [''s1'', ''s2''],
      adapter = [(''s1'', ''s1''), (''s1'', ''R1''), (''s2'', ''R1'')]\<rparr>"

section \<open>Properties of the telemetry\<close>





section \<open>Properties of the signalling handlers\<close>

lemma candidatesOf_update [simp]:
  "candidatesOf (AList.update k pc peersRef) k = appliedCandidates pc"
  by (simp add: candidatesOf_def update_conv')

text \<open>
  Claim C1 as stated fails: nothing holds a candidate back. A candidate from ``u2'' that
  arrives before the offer of ``u2'' finds no connection and is ignored; a candidate that
  arrives after the local offer and before the answer is rejected by the connection, which
  has no remote description yet. In both runs the connection has accepted no candidate once
  the remote description is set.
\<close>

theorem early_candidate_counterexample:
  "handleOffer (handleIceCandidate [] ''u2'' ''candidate-1'') ''u2'' ''offer-of-u2'' ''answer''
     = [(''u2'', \<lparr>remoteDescription = Some ''offer-of-u2'', localDescription = Some ''answer'',
                  appliedCandidates = []\<rparr>)]
   \<and> handleAnswer
        (handleIceCandidate (handleUserConnected [] ''u2'' ''offer'') ''u2'' ''candidate-1'')
        ''u2'' ''answer-of-u2''
     = [(''u2'', \<lparr>remoteDescription = Some ''answer-of-u2'', localDescription = Some ''offer'',
                  appliedCandidates = []\<rparr>)]"
  by (simp add: handleOffer_def handleAnswer_def handleIceCandidate_def handleUserConnected_def
      createPeerConnection_def addIceCandidate_def setRemoteDescription_def
      setLocalDescription_def Let_def)

text \<open>
  Claim C1, amended. \<open>handleIceCandidate\<close> hands the candidate to the caller's connection at
  once and keeps nothing: with a connection that has a remote description the candidate is
  appended to the accepted ones, in arrival order; without a connection for the caller, or
  without a remote description, the negotiator's state is unchanged. Applying an offer or an
  answer afterwards applies no candidate.
\<close>

theorem candidates_are_applied_at_once_or_dropped:
  "handleIceCandidate peersRef callerId candidate
     = (case map_of peersRef callerId of
          None \<Rightarrow> peersRef
        | Some pc \<Rightarrow>
            (case remoteDescription pc of
               None \<Rightarrow> peersRef
             | Some d \<Rightarrow>
                 AList.update callerId
                   (pc\<lparr>appliedCandidates := appliedCandidates pc @ [candidate]\<rparr>) peersRef))
   \<and> candidatesOf (handleOffer peersRef callerId remoteOffer localAnswer) callerId
       = candidatesOf peersRef callerId
   \<and> candidatesOf (handleAnswer peersRef callerId remoteAnswer) callerId
       = candidatesOf peersRef callerId"
proof (intro conjI)
  show "handleIceCandidate peersRef callerId candidate
     = (case map_of peersRef callerId of
          None \<Rightarrow> peersRef
        | Some pc \<Rightarrow>
            (case remoteDescription pc of
               None \<Rightarrow> peersRef
             | Some d \<Rightarrow>
                 AList.update callerId
                   (pc\<lparr>appliedCandidates := appliedCandidates pc @ [candidate]\<rparr>) peersRef))"
    by (simp add: handleIceCandidate_def addIceCandidate_def split: option.splits)
  show "candidatesOf (handleOffer peersRef callerId remoteOffer localAnswer) callerId
       = candidatesOf peersRef callerId"
  proof (cases "map_of peersRef callerId")
    case None
    then show ?thesis
      by (simp add: handleOffer_def createPeerConnection_def Let_def setRemoteDescription_def
          setLocalDescription_def)
         (simp add: candidatesOf_def)
  next
    case (Some pc)
    then show ?thesis
      by (simp add: handleOffer_def createPeerConnection_def Let_def setRemoteDescription_def
          setLocalDescription_def)
         (simp add: candidatesOf_def)
  qed
  show "candidatesOf (handleAnswer peersRef callerId remoteAnswer) callerId
       = candidatesOf peersRef callerId"
  proof (cases "map_of peersRef callerId")
    case None
    then show ?thesis by (simp add: handleAnswer_def)
  next
    case (Some pc)
    then show ?thesis
      by (simp add: handleAnswer_def setRemoteDescription_def) (simp add: candidatesOf_def)
  qed
qed

section \<open>Properties of the Room Authority\<close>

subsection \<open>Invariants: no room is empty, every host is a member\<close>

lemma key_iff: "k \<in> fst ` set al \<longleftrightarrow> map_of al k \<noteq> None"
  by (simp add: map_of_eq_None_iff)

lemma roomsInv_alt:
  "roomsInv st \<longleftrightarrow>
     (\<forall>rid. map_of (rooms st) rid \<noteq> None \<or> map_of (roomMetadata st) rid \<noteq> None
            \<or> map_of (waitingRooms st) rid \<noteq> None
        \<longrightarrow> (\<exists>us. map_of (rooms st) rid = Some us \<and> us \<noteq> []))"
  unfolding roomsInv_def key_iff Un_iff
  by (metis One_nat_def Suc_le_eq length_greater_0_conv)

lemma storeUserName_frame [simp]:
  "rooms (storeUserName st odId userName) = rooms st"
  "roomMetadata (storeUserName st odId userName) = roomMetadata st"
  "waitingRooms (storeUserName st odId userName) = waitingRooms st"
  "socketToUser (storeUserName st odId userName) = socketToUser st"
  "userToRoom (storeUserName st odId userName) = userToRoom st"
  "sockets (storeUserName st odId userName) = sockets st"
  "adapter (storeUserName st odId userName) = adapter st"
  by (simp_all add: storeUserName_def split: option.splits)

lemma cleanupRoom_maps [simp]:
  "map_of (rooms (fst (cleanupRoom st r))) = (map_of (rooms st))(r := None)"
  "map_of (roomMetadata (fst (cleanupRoom st r))) = (map_of (roomMetadata st))(r := None)"
  "map_of (waitingRooms (fst (cleanupRoom st r))) = (map_of (waitingRooms st))(r := None)"
  "userToRoom (fst (cleanupRoom st r)) = userToRoom st"
  "userNames (fst (cleanupRoom st r)) = userNames st"
  "sockets (fst (cleanupRoom st r)) = sockets st"
  "adapter (fst (cleanupRoom st r)) = adapter st"
  by (auto simp: cleanupRoom_def Let_def delete_conv' split: option.splits)

lemma transferHost_maps [simp]:
  "rooms (fst (transferHost st r m us)) = rooms st"
  "map_of (roomMetadata (fst (transferHost st r m us)))
     = (map_of (roomMetadata st))(r \<mapsto> m\<lparr>hostId := Set_first us\<rparr>)"
  "waitingRooms (fst (transferHost st r m us)) = waitingRooms st"
  "socketToUser (fst (transferHost st r m us)) = socketToUser st"
  "userToRoom (fst (transferHost st r m us)) = userToRoom st"
  "userNames (fst (transferHost st r m us)) = userNames st"
  "sockets (fst (transferHost st r m us)) = sockets st"
  "adapter (fst (transferHost st r m us)) = adapter st"
  by (simp_all add: transferHost_def Let_def update_conv')

lemma departRoom_rooms:
  "map_of (rooms (fst (departRoom st r u meta us0)))
     = (if Set_delete us0 u = [] then (map_of (rooms st))(r := None)
        else (map_of (rooms st))(r \<mapsto> Set_delete us0 u))"
  by (auto simp: departRoom_def Let_def update_conv' split: option.splits)

lemma departRoom_meta:
  "map_of (roomMetadata (fst (departRoom st r u meta us0)))
     = (if Set_delete us0 u = [] then (map_of (roomMetadata st))(r := None)
        else (case meta of
                None \<Rightarrow> map_of (roomMetadata st)
              | Some m \<Rightarrow> if hostId m = Some u
                          then (map_of (roomMetadata st))(r \<mapsto> m\<lparr>hostId := Set_first (Set_delete us0 u)\<rparr>)
                          else map_of (roomMetadata st)))"
  by (auto simp: departRoom_def Let_def update_conv' split: option.splits)

lemma departRoom_waiting:
  "map_of (waitingRooms (fst (departRoom st r u meta us0)))
     = (if Set_delete us0 u = [] then (map_of (waitingRooms st))(r := None)
        else map_of (waitingRooms st))"
  by (auto simp: departRoom_def Let_def update_conv' split: option.splits)

lemma departRoom_frame [simp]:
  "userToRoom (fst (departRoom st r u meta us0)) = userToRoom st"
  "userNames (fst (departRoom st r u meta us0)) = userNames st"
  "sockets (fst (departRoom st r u meta us0)) = sockets st"
  "adapter (fst (departRoom st r u meta us0)) = adapter st"
  by (auto simp: departRoom_def Let_def split: option.splits)

lemma leaveWaiting_keys [simp]:
  "map fst (fst (leaveWaiting st odId w)) = map fst w"
  by (induction w) (auto simp: Let_def)

lemma leaveWaiting_dom:
  "map_of (fst (leaveWaiting st odId w)) rid \<noteq> None \<longleftrightarrow> map_of w rid \<noteq> None"
  using leaveWaiting_keys [of st odId w]
  by (metis key_iff set_map)

lemma Set_add_nonempty [simp]: "Set_add us x \<noteq> []"
  by (auto simp: Set_add_def)

lemma set_Set_add [simp]: "set (Set_add us x) = insert x (set us)"
  by (auto simp: Set_add_def)

lemma set_Set_delete [simp]: "set (Set_delete us x) = set us - {x}"
  by (auto simp: Set_delete_def)

lemma Set_first_mem: "us \<noteq> [] \<Longrightarrow> \<exists>h. Set_first us = Some h \<and> h \<in> set us"
  by (cases us) (auto simp: Set_first_def)

lemma joinDirect_maps:
  "map_of (rooms (fst (joinDirect st sid r u cfg new)))
     = (if new then (map_of (rooms st))(r \<mapsto> [u])
        else (case map_of (rooms st) r of None \<Rightarrow> map_of (rooms st)
              | Some us \<Rightarrow> (map_of (rooms st))(r \<mapsto> Set_add us u)))"
  "map_of (roomMetadata (fst (joinDirect st sid r u cfg new)))
     = (if new then map_of (roomMetadata (createRoom st r u cfg)) else map_of (roomMetadata st))"
  "map_of (waitingRooms (fst (joinDirect st sid r u cfg new)))
     = (if new then (map_of (waitingRooms st))(r \<mapsto> []) else map_of (waitingRooms st))"
  by (auto simp: joinDirect_def createRoom_def Let_def update_conv' Set_add_def split: option.splits)

lemma createRoom_meta:
  "map_of (roomMetadata (createRoom st r u cfg)) r = Some m \<Longrightarrow> hostId m = Some u \<and> \<not> isLocked m"
  "r' \<noteq> r \<Longrightarrow> map_of (roomMetadata (createRoom st r u cfg)) r' = map_of (roomMetadata st) r'"
  "map_of (roomMetadata (createRoom st r u cfg)) r \<noteq> None"
  by (auto simp: createRoom_def update_conv')

lemma joinWaiting_maps:
  "rooms (fst (joinWaiting st sid r u un m)) = rooms st"
  "roomMetadata (fst (joinWaiting st sid r u un m)) = roomMetadata st"
  "map_of (waitingRooms (fst (joinWaiting st sid r u un m))) r' \<noteq> None
     \<longleftrightarrow> r' = r \<or> map_of (waitingRooms st) r' \<noteq> None"
  by (auto simp: joinWaiting_def Let_def update_conv')

lemma inv_join:
  assumes "authorityInv st" "on_join_room st sid r u cfg un = Inr (st', out)"
  shows "authorityInv st'"
proof -
  let ?st = "storeUserName st u un"
  show ?thesis
  proof (cases "map_of (roomMetadata st) r")
    case None
    then have st': "st' = fst (joinDirect ?st sid r u cfg True)"
      using assms(2) by (auto simp: on_join_room_def Let_def)
    show ?thesis using assms(1) createRoom_meta
      unfolding authorityInv_def roomsInv_alt hostInv_def st' joinDirect_maps
      by (auto split: if_splits)
  next
    case (Some m)
    then consider (locked) "st' = ?st" | (waiting) "st' = fst (joinWaiting ?st sid r u un m)"
      | (direct) "st' = fst (joinDirect ?st sid r u cfg False)"
      using assms(2) by (auto simp: on_join_room_def Let_def split: if_splits)
    then show ?thesis
    proof cases
      case locked
      then show ?thesis using assms(1) by (simp add: authorityInv_def roomsInv_alt hostInv_def)
    next
      case waiting
      then show ?thesis using assms(1) Some
        unfolding authorityInv_def roomsInv_alt hostInv_def waiting joinWaiting_maps
        by (auto split: if_splits)
    next
      case direct
      then show ?thesis using assms(1) Some
        unfolding authorityInv_def roomsInv_alt hostInv_def direct joinDirect_maps
        by (fastforce split: if_splits option.splits)
    qed
  qed
qed

lemma inv_frame0:
  assumes "authorityInv st" "rooms st' = rooms st" "roomMetadata st' = roomMetadata st"
    "\<And>rid. map_of (waitingRooms st') rid \<noteq> None \<longleftrightarrow> map_of (waitingRooms st) rid \<noteq> None"
  shows "authorityInv st'"
  using assms unfolding authorityInv_def roomsInv_alt hostInv_def by auto

lemma admitTarget_maps:
  "map_of (rooms (fst (admitTarget st r u ts)))
     = (case map_of (rooms st) r of None \<Rightarrow> map_of (rooms st)
        | Some us \<Rightarrow> (map_of (rooms st))(r \<mapsto> Set_add us u))"
  "roomMetadata (fst (admitTarget st r u ts)) = roomMetadata st"
  "waitingRooms (fst (admitTarget st r u ts)) = waitingRooms st"
  by (auto simp: admitTarget_def Let_def update_conv' split: option.splits)

lemma on_admit_user_effect:
  assumes "on_admit_user st sid r u = Inr (st', out)"
  shows "st' = st \<or> (\<exists>w0 wu. map_of (waitingRooms st) r = Some w0 \<and> map_of w0 u = Some wu \<and>
     (st' = st\<lparr>waitingRooms := AList.update r (AList.delete u w0) (waitingRooms st)\<rparr> \<or>
      st' = fst (admitTarget (st\<lparr>waitingRooms := AList.update r (AList.delete u w0) (waitingRooms st)\<rparr>)
                   r u (wu_socketId wu))))"
proof (cases "metaHost (map_of (roomMetadata st) r) \<noteq> map_of (socketToUser st) sid")
  case True
  then show ?thesis using assms by (simp add: on_admit_user_def)
next
  case False
  note F = False
  show ?thesis
  proof (cases "map_of (waitingRooms st) r")
    case None
    with F assms show ?thesis by (simp add: on_admit_user_def)
  next
    case (Some w0)
    note W = Some
    show ?thesis
    proof (cases "map_of w0 u")
      case None
      with F W assms show ?thesis by (simp add: on_admit_user_def)
    next
      case (Some wu)
      with F W assms show ?thesis
        by (cases "wu_socketId wu \<in> set (sockets st)") (simp_all add: on_admit_user_def Let_def)
    qed
  qed
qed

lemma inv_upd_waiting:
  assumes "authorityInv st" "map_of (waitingRooms st) r \<noteq> None"
  shows "authorityInv (st\<lparr>waitingRooms := AList.update r w (waitingRooms st)\<rparr>)"
  using assms(1)
proof (rule inv_frame0)
  fix rid
  show "(map_of (waitingRooms (st\<lparr>waitingRooms := AList.update r w (waitingRooms st)\<rparr>)) rid \<noteq> None)
        = (map_of (waitingRooms st) rid \<noteq> None)"
    using assms(2) by (simp add: update_conv')
qed simp_all

lemma inv_add_member:
  assumes "authorityInv st" "roomMetadata st' = roomMetadata st"
    "\<And>rid. map_of (waitingRooms st') rid \<noteq> None \<longleftrightarrow> map_of (waitingRooms st) rid \<noteq> None"
    "map_of (rooms st') = (case map_of (rooms st) r of None \<Rightarrow> map_of (rooms st)
        | Some us \<Rightarrow> (map_of (rooms st))(r \<mapsto> Set_add us u))"
  shows "authorityInv st'"
proof (cases "map_of (rooms st) r")
  case None
  then have "map_of (rooms st') = map_of (rooms st)" using assms(4) by simp
  then show ?thesis using assms(1-3) unfolding authorityInv_def roomsInv_alt hostInv_def by simp
next
  case (Some us)
  then have r: "map_of (rooms st') = (map_of (rooms st))(r \<mapsto> Set_add us u)" using assms(4) by simp
  have 1: "roomsInv st'"
    using assms(1) Some unfolding authorityInv_def roomsInv_alt r assms(2) assms(3) by auto
  have 2: "hostInv st'"
    unfolding hostInv_def
  proof (intro allI impI)
    fix rid m
    assume "map_of (roomMetadata st') rid = Some m"
    then have "map_of (roomMetadata st) rid = Some m" by (simp add: assms(2))
    then obtain h us' where h: "hostId m = Some h" "map_of (rooms st) rid = Some us'" "h \<in> set us'"
      using assms(1) unfolding authorityInv_def hostInv_def by blast
    show "\<exists>h us. hostId m = Some h \<and> map_of (rooms st') rid = Some us \<and> h \<in> set us"
      using h Some by (cases "rid = r") (simp_all add: r)
  qed
  from 1 2 show ?thesis by (simp add: authorityInv_def)
qed

lemma inv_admit:
  assumes "authorityInv st" "on_admit_user st sid r u = Inr (st', out)"
  shows "authorityInv st'"
  using on_admit_user_effect [OF assms(2)]
proof (elim disjE exE conjE)
  assume "st' = st"
  then show ?thesis using assms(1) by simp
next
  fix w0 wu
  assume w: "map_of (waitingRooms st) r = Some w0"
    and s: "st' = st\<lparr>waitingRooms := AList.update r (AList.delete u w0) (waitingRooms st)\<rparr>"
  show ?thesis unfolding s by (rule inv_upd_waiting [OF assms(1)]) (simp add: w)
next
  fix w0 wu
  assume w: "map_of (waitingRooms st) r = Some w0"
    and s: "st' = fst (admitTarget (st\<lparr>waitingRooms := AList.update r (AList.delete u w0) (waitingRooms st)\<rparr>)
                   r u (wu_socketId wu))"
  have i: "authorityInv (st\<lparr>waitingRooms := AList.update r (AList.delete u w0) (waitingRooms st)\<rparr>)"
    by (rule inv_upd_waiting [OF assms(1)]) (simp add: w)
  show ?thesis unfolding s
    by (rule inv_add_member [OF i]) (simp_all add: admitTarget_maps)
qed

lemma on_deny_user_effect:
  assumes "on_deny_user st sid r u = Inr (st', out)"
  shows "st' = st \<or> (\<exists>w0. map_of (waitingRooms st) r = Some w0 \<and>
     rooms st' = rooms st \<and> roomMetadata st' = roomMetadata st \<and>
     waitingRooms st' = AList.update r (AList.delete u w0) (waitingRooms st))"
proof (cases "metaHost (map_of (roomMetadata st) r) \<noteq> map_of (socketToUser st) sid")
  case True
  then show ?thesis using assms by (simp add: on_deny_user_def)
next
  case False
  note F = False
  show ?thesis
  proof (cases "map_of (waitingRooms st) r")
    case None
    with F assms show ?thesis by (simp add: on_deny_user_def)
  next
    case (Some w0)
    note W = Some
    show ?thesis
    proof (cases "map_of w0 u")
      case None
      with F W assms show ?thesis by (simp add: on_deny_user_def)
    next
      case (Some wu)
      with F W assms show ?thesis
        by (cases "wu_socketId wu \<in> set (sockets st)") (auto simp add: on_deny_user_def Let_def)
    qed
  qed
qed

lemma inv_deny:
  assumes "authorityInv st" "on_deny_user st sid r u = Inr (st', out)"
  shows "authorityInv st'"
  using on_deny_user_effect [OF assms(2)]
proof (elim disjE exE conjE)
  assume "st' = st"
  then show ?thesis using assms(1) by simp
next
  fix w0
  assume w: "map_of (waitingRooms st) r = Some w0"
    and s: "rooms st' = rooms st" "roomMetadata st' = roomMetadata st"
      "waitingRooms st' = AList.update r (AList.delete u w0) (waitingRooms st)"
  show ?thesis using assms(1) s(1,2)
    by (rule inv_frame0) (simp add: s(3) update_conv' w)
qed

lemma on_toggle_lock_effect:
  assumes "on_toggle_lock st sid r = Inr (st', out)"
  shows "st' = st \<or> (\<exists>m. map_of (roomMetadata st) r = Some m
     \<and> map_of (socketToUser st) sid = hostId m
     \<and> st' = st\<lparr>roomMetadata := AList.update r (m\<lparr>isLocked := \<not> isLocked m\<rparr>) (roomMetadata st)\<rparr>)"
proof (cases "metaHost (map_of (roomMetadata st) r) \<noteq> map_of (socketToUser st) sid")
  case True
  then show ?thesis using assms by (simp add: on_toggle_lock_def)
next
  case False
  then show ?thesis using assms
    by (cases "map_of (roomMetadata st) r") (auto simp add: on_toggle_lock_def Let_def metaHost_def)
qed

lemma on_toggle_waiting_room_effect:
  assumes "on_toggle_waiting_room st sid r = Inr (st', out)"
  shows "st' = st \<or> (\<exists>m. map_of (roomMetadata st) r = Some m
     \<and> map_of (socketToUser st) sid = hostId m
     \<and> st' = st\<lparr>roomMetadata := AList.update r (m\<lparr>waitingRoom := \<not> waitingRoom m\<rparr>) (roomMetadata st)\<rparr>)"
proof (cases "metaHost (map_of (roomMetadata st) r) \<noteq> map_of (socketToUser st) sid")
  case True
  then show ?thesis using assms by (simp add: on_toggle_waiting_room_def)
next
  case False
  then show ?thesis using assms
    by (cases "map_of (roomMetadata st) r") (auto simp add: on_toggle_waiting_room_def Let_def metaHost_def)
qed

lemma inv_upd_meta:
  assumes "authorityInv st" "map_of (roomMetadata st) r = Some m" "hostId m' = hostId m"
  shows "authorityInv (st\<lparr>roomMetadata := AList.update r m' (roomMetadata st)\<rparr>)"
proof -
  have 1: "roomsInv (st\<lparr>roomMetadata := AList.update r m' (roomMetadata st)\<rparr>)"
    using assms(1,2) unfolding authorityInv_def roomsInv_alt by (auto simp: update_conv')
  have 2: "hostInv (st\<lparr>roomMetadata := AList.update r m' (roomMetadata st)\<rparr>)"
    unfolding hostInv_def
  proof (intro allI impI)
    fix rid m0
    assume a: "map_of (roomMetadata (st\<lparr>roomMetadata := AList.update r m' (roomMetadata st)\<rparr>)) rid = Some m0"
    have "\<exists>m1. map_of (roomMetadata st) rid = Some m1 \<and> hostId m0 = hostId m1"
      using a assms(2,3) by (cases "rid = r") (auto simp: update_conv')
    then obtain m1 where m1: "map_of (roomMetadata st) rid = Some m1" "hostId m0 = hostId m1" by blast
    then obtain h us where "hostId m1 = Some h" "map_of (rooms st) rid = Some us" "h \<in> set us"
      using assms(1) unfolding authorityInv_def hostInv_def by blast
    then show "\<exists>h us. hostId m0 = Some h
         \<and> map_of (rooms (st\<lparr>roomMetadata := AList.update r m' (roomMetadata st)\<rparr>)) rid = Some us
         \<and> h \<in> set us"
      using m1 by simp
  qed
  from 1 2 show ?thesis by (simp add: authorityInv_def)
qed

lemma inv_toggle_lock:
  assumes "authorityInv st" "on_toggle_lock st sid r = Inr (st', out)"
  shows "authorityInv st'"
  using on_toggle_lock_effect [OF assms(2)]
proof (elim disjE exE conjE)
  assume "st' = st"
  then show ?thesis using assms(1) by simp
next
  fix m
  assume m: "map_of (roomMetadata st) r = Some m"
    and s: "st' = st\<lparr>roomMetadata := AList.update r (m\<lparr>isLocked := \<not> isLocked m\<rparr>) (roomMetadata st)\<rparr>"
  show ?thesis unfolding s by (rule inv_upd_meta [OF assms(1) m]) simp
qed

lemma inv_toggle_waiting_room:
  assumes "authorityInv st" "on_toggle_waiting_room st sid r = Inr (st', out)"
  shows "authorityInv st'"
  using on_toggle_waiting_room_effect [OF assms(2)]
proof (elim disjE exE conjE)
  assume "st' = st"
  then show ?thesis using assms(1) by simp
next
  fix m
  assume m: "map_of (roomMetadata st) r = Some m"
    and s: "st' = st\<lparr>roomMetadata := AList.update r (m\<lparr>waitingRoom := \<not> waitingRoom m\<rparr>) (roomMetadata st)\<rparr>"
  show ?thesis unfolding s by (rule inv_upd_meta [OF assms(1) m]) simp
qed

lemma inv_remove_room:
  assumes "authorityInv st"
    "map_of (rooms st') = (map_of (rooms st))(r := None)"
    "map_of (roomMetadata st') = (map_of (roomMetadata st))(r := None)"
    "map_of (waitingRooms st') = (map_of (waitingRooms st))(r := None)"
  shows "authorityInv st'"
proof -
  have 1: "roomsInv st'"
    unfolding roomsInv_alt
  proof (intro allI impI)
    fix rid
    assume a: "map_of (rooms st') rid \<noteq> None \<or> map_of (roomMetadata st') rid \<noteq> None
               \<or> map_of (waitingRooms st') rid \<noteq> None"
    then have ne: "rid \<noteq> r" by (auto simp: assms(2-4))
    with a have "map_of (rooms st) rid \<noteq> None \<or> map_of (roomMetadata st) rid \<noteq> None
               \<or> map_of (waitingRooms st) rid \<noteq> None" by (simp add: assms(2-4))
    then obtain us where "map_of (rooms st) rid = Some us" "us \<noteq> []"
      using assms(1) unfolding authorityInv_def roomsInv_alt by blast
    then show "\<exists>us. map_of (rooms st') rid = Some us \<and> us \<noteq> []"
      using ne by (simp add: assms(2))
  qed
  have 2: "hostInv st'"
    unfolding hostInv_def
  proof (intro allI impI)
    fix rid m
    assume a: "map_of (roomMetadata st') rid = Some m"
    then have ne: "rid \<noteq> r" by (auto simp: assms(3))
    with a have "map_of (roomMetadata st) rid = Some m" by (simp add: assms(3))
    then obtain h us where "hostId m = Some h" "map_of (rooms st) rid = Some us" "h \<in> set us"
      using assms(1) unfolding authorityInv_def hostInv_def by blast
    then show "\<exists>h us. hostId m = Some h \<and> map_of (rooms st') rid = Some us \<and> h \<in> set us"
      using ne by (simp add: assms(2))
  qed
  from 1 2 show ?thesis by (simp add: authorityInv_def)
qed

lemma inv_shrink_room:
  assumes "authorityInv st" and "us \<noteq> []"
    and "map_of (rooms st') = (map_of (rooms st))(r \<mapsto> us)"
    and "\<And>m. map_of (roomMetadata st') r = Some m \<Longrightarrow> \<exists>h. hostId m = Some h \<and> h \<in> set us"
    and "\<And>rid. rid \<noteq> r \<Longrightarrow> map_of (roomMetadata st') rid = map_of (roomMetadata st) rid"
    and "\<And>rid. map_of (waitingRooms st') rid \<noteq> None \<longleftrightarrow> map_of (waitingRooms st) rid \<noteq> None"
  shows "authorityInv st'"
proof -
  have 1: "roomsInv st'"
    unfolding roomsInv_alt
  proof (intro allI impI)
    fix rid
    assume a: "map_of (rooms st') rid \<noteq> None \<or> map_of (roomMetadata st') rid \<noteq> None
               \<or> map_of (waitingRooms st') rid \<noteq> None"
    show "\<exists>us. map_of (rooms st') rid = Some us \<and> us \<noteq> []"
    proof (cases "rid = r")
      case True
      then show ?thesis using assms(2) by (simp add: assms(3))
    next
      case False
      with a have "map_of (rooms st) rid \<noteq> None \<or> map_of (roomMetadata st) rid \<noteq> None
               \<or> map_of (waitingRooms st) rid \<noteq> None"
        using assms(6) [of rid] by (simp add: assms(3,5))
      then obtain us' where "map_of (rooms st) rid = Some us'" "us' \<noteq> []"
        using assms(1) unfolding authorityInv_def roomsInv_alt by blast
      then show ?thesis using False by (simp add: assms(3))
    qed
  qed
  have 2: "hostInv st'"
    unfolding hostInv_def
  proof (intro allI impI)
    fix rid m
    assume a: "map_of (roomMetadata st') rid = Some m"
    show "\<exists>h us. hostId m = Some h \<and> map_of (rooms st') rid = Some us \<and> h \<in> set us"
    proof (cases "rid = r")
      case True
      then show ?thesis using assms(4) [of m] a by (simp add: assms(3))
    next
      case False
      with a have "map_of (roomMetadata st) rid = Some m" by (simp add: assms(5))
      then obtain h us' where "hostId m = Some h" "map_of (rooms st) rid = Some us'" "h \<in> set us'"
        using assms(1) unfolding authorityInv_def hostInv_def by blast
      then show ?thesis using False by (simp add: assms(3))
    qed
  qed
  from 1 2 show ?thesis by (simp add: authorityInv_def)
qed

lemma inv_depart:
  assumes "authorityInv st" "map_of (rooms st) r = Some us0"
  shows "authorityInv (fst (departRoom st r u (map_of (roomMetadata st) r) us0))"
proof (cases "Set_delete us0 u = []")
  case True
  show ?thesis
    by (rule inv_remove_room [OF assms(1)])
       (simp_all add: departRoom_rooms departRoom_meta departRoom_waiting True)
next
  case False
  from Set_first_mem [OF False] obtain h where
    h: "Set_first (Set_delete us0 u) = Some h" "h \<in> set (Set_delete us0 u)" by blast
  show ?thesis
  proof (rule inv_shrink_room [OF assms(1) False])
    show "map_of (rooms (fst (departRoom st r u (map_of (roomMetadata st) r) us0)))
          = (map_of (rooms st))(r \<mapsto> Set_delete us0 u)"
      by (simp add: departRoom_rooms False)
  next
    fix m
    assume a: "map_of (roomMetadata (fst (departRoom st r u (map_of (roomMetadata st) r) us0))) r = Some m"
    show "\<exists>h. hostId m = Some h \<and> h \<in> set (Set_delete us0 u)"
    proof (cases "map_of (roomMetadata st) r")
      case None
      then show ?thesis using a by (simp add: departRoom_meta False)
    next
      case (Some m0)
      from Some obtain h0 us where h0: "hostId m0 = Some h0" "map_of (rooms st) r = Some us" "h0 \<in> set us"
        using assms(1) unfolding authorityInv_def hostInv_def by blast
      then have us: "us = us0" using assms(2) by simp
      show ?thesis
      proof (cases "hostId m0 = Some u")
        case True
        then have "m = m0\<lparr>hostId := Set_first (Set_delete us0 u)\<rparr>"
          using a Some by (simp add: departRoom_meta False)
        then show ?thesis using h by simp
      next
        case False
        then have "m = m0" using a Some \<open>Set_delete us0 u \<noteq> []\<close> by (simp add: departRoom_meta)
        then show ?thesis using h0 us False by auto
      qed
    qed
  next
    fix rid :: string
    assume "rid \<noteq> r"
    then show "map_of (roomMetadata (fst (departRoom st r u (map_of (roomMetadata st) r) us0))) rid
               = map_of (roomMetadata st) rid"
      by (simp add: departRoom_meta False split: option.splits)
  next
    fix rid
    show "(map_of (waitingRooms (fst (departRoom st r u (map_of (roomMetadata st) r) us0))) rid \<noteq> None)
          = (map_of (waitingRooms st) rid \<noteq> None)"
      by (simp add: departRoom_waiting False)
  qed
qed

lemma leaveRoom_fst:
  "rooms (fst (leaveRoom st sid r u)) =
     rooms (case map_of (rooms st) r of None \<Rightarrow> st
            | Some us0 \<Rightarrow> fst (departRoom (st\<lparr>adapter := Set_delete (adapter st) (sid, r)\<rparr>) r u
                                (map_of (roomMetadata st) r) us0))"
  "roomMetadata (fst (leaveRoom st sid r u)) =
     roomMetadata (case map_of (rooms st) r of None \<Rightarrow> st
            | Some us0 \<Rightarrow> fst (departRoom (st\<lparr>adapter := Set_delete (adapter st) (sid, r)\<rparr>) r u
                                (map_of (roomMetadata st) r) us0))"
  "waitingRooms (fst (leaveRoom st sid r u)) =
     waitingRooms (case map_of (rooms st) r of None \<Rightarrow> st
            | Some us0 \<Rightarrow> fst (departRoom (st\<lparr>adapter := Set_delete (adapter st) (sid, r)\<rparr>) r u
                                (map_of (roomMetadata st) r) us0))"
  by (simp_all add: leaveRoom_def Let_def split: option.splits)

lemma inv_leaveRoom:
  assumes "authorityInv st"
  shows "authorityInv (fst (leaveRoom st sid r u))"
proof (cases "map_of (rooms st) r")
  case None
  show ?thesis using assms by (rule inv_frame0) (simp_all add: leaveRoom_fst None)
next
  case (Some us0)
  let ?st1 = "st\<lparr>adapter := Set_delete (adapter st) (sid, r)\<rparr>"
  have i1: "authorityInv ?st1" using assms by (rule inv_frame0) simp_all
  have "authorityInv (fst (departRoom ?st1 r u (map_of (roomMetadata ?st1) r) us0))"
    by (rule inv_depart [OF i1]) (simp add: Some)
  then show ?thesis by (rule inv_frame0) (simp_all add: leaveRoom_fst Some)
qed

lemma inv_leave:
  assumes "authorityInv st" "on_leave_room st sid r u = Inr (st', out)"
  shows "authorityInv st'"
  using assms inv_leaveRoom [of st sid r u] by (auto simp: on_leave_room_def)

lemma disconnectRoom_fst:
  "fst (disconnectRoom st sid r u) =
     (case map_of (rooms st) r of
                 None \<Rightarrow> st
               | Some roomUsers0 \<Rightarrow> fst (departRoom st r u (map_of (roomMetadata st) r) roomUsers0))"
  by (simp add: disconnectRoom_def Let_def split: option.splits)

lemma inv_disconnectRoom:
  assumes "authorityInv st"
  shows "authorityInv (fst (disconnectRoom st sid r u))"
proof (cases "map_of (rooms st) r")
  case None
  then show ?thesis using assms by (simp add: disconnectRoom_fst)
next
  case (Some us0)
  then show ?thesis using inv_depart [OF assms Some, of u] by (simp add: disconnectRoom_fst)
qed

lemma disconnectUser_fst:
  "rooms (fst (disconnectUser st sid u)) =
     rooms (case map_of (userToRoom st) u of
              None \<Rightarrow> st\<lparr>waitingRooms := fst (leaveWaiting st u (waitingRooms st))\<rparr>
            | Some rid \<Rightarrow>
                if truthy rid
                then fst (disconnectRoom (st\<lparr>waitingRooms := fst (leaveWaiting st u (waitingRooms st))\<rparr>) sid rid u)
                else st\<lparr>waitingRooms := fst (leaveWaiting st u (waitingRooms st))\<rparr>)"
  "roomMetadata (fst (disconnectUser st sid u)) =
     roomMetadata (case map_of (userToRoom st) u of
              None \<Rightarrow> st\<lparr>waitingRooms := fst (leaveWaiting st u (waitingRooms st))\<rparr>
            | Some rid \<Rightarrow>
                if truthy rid
                then fst (disconnectRoom (st\<lparr>waitingRooms := fst (leaveWaiting st u (waitingRooms st))\<rparr>) sid rid u)
                else st\<lparr>waitingRooms := fst (leaveWaiting st u (waitingRooms st))\<rparr>)"
  "waitingRooms (fst (disconnectUser st sid u)) =
     waitingRooms (case map_of (userToRoom st) u of
              None \<Rightarrow> st\<lparr>waitingRooms := fst (leaveWaiting st u (waitingRooms st))\<rparr>
            | Some rid \<Rightarrow>
                if truthy rid
                then fst (disconnectRoom (st\<lparr>waitingRooms := fst (leaveWaiting st u (waitingRooms st))\<rparr>) sid rid u)
                else st\<lparr>waitingRooms := fst (leaveWaiting st u (waitingRooms st))\<rparr>)"
  by (simp_all add: disconnectUser_def Let_def split: option.splits)

lemma inv_disconnectUser:
  assumes "authorityInv st"
  shows "authorityInv (fst (disconnectUser st sid u))"
proof -
  let ?st1 = "st\<lparr>waitingRooms := fst (leaveWaiting st u (waitingRooms st))\<rparr>"
  have i1: "authorityInv ?st1"
    using assms
  proof (rule inv_frame0)
    fix rid
    show "(map_of (waitingRooms ?st1) rid \<noteq> None) = (map_of (waitingRooms st) rid \<noteq> None)"
      using leaveWaiting_dom [of st u "waitingRooms st" rid] by simp
  qed simp_all
  have "authorityInv (case map_of (userToRoom st) u of
              None \<Rightarrow> ?st1
            | Some rid \<Rightarrow> if truthy rid then fst (disconnectRoom ?st1 sid rid u) else ?st1)"
    using i1 inv_disconnectRoom [OF i1] by (simp split: option.splits)
  then show ?thesis by (rule inv_frame0) (simp_all add: disconnectUser_fst)
qed

lemma inv_disconnect:
  assumes "authorityInv st0" "on_disconnect st0 sid = Inr (st', out)"
  shows "authorityInv st'"
proof -
  have i0: "authorityInv (socketGone st0 sid)"
    using assms(1) by (rule inv_frame0) (simp_all add: socketGone_def)
  have "st' = socketGone st0 sid \<or> (\<exists>u. st' = fst (disconnectUser (socketGone st0 sid) sid u))"
  proof (cases "map_of (socketToUser (socketGone st0 sid)) sid")
    case None
    then show ?thesis using assms(2) by (simp add: on_disconnect_def)
  next
    case (Some u)
    then show ?thesis using assms(2)
      by (cases "truthy u") (auto simp: on_disconnect_def intro: exI [of _ u])
  qed
  then show ?thesis using i0 inv_disconnectUser [OF i0] by auto
qed

lemma inv_event:
  assumes "authorityInv st" "on_event st sid e = Inr (st', out)"
  shows "authorityInv st'"
proof (cases e)
  case (JoinRoom r u cfg un)
  then show ?thesis using assms inv_join [of st sid r u cfg un st' out] by simp
next
  case (AdmitUser r u)
  then show ?thesis using assms inv_admit [of st sid r u st' out] by simp
next
  case (DenyUser r u)
  then show ?thesis using assms inv_deny [of st sid r u st' out] by simp
next
  case (ToggleLock r)
  then show ?thesis using assms inv_toggle_lock [of st sid r st' out] by simp
next
  case (ToggleWaitingRoom r)
  then show ?thesis using assms inv_toggle_waiting_room [of st sid r st' out] by simp
next
  case (LeaveRoom r u)
  then show ?thesis using assms inv_leave [of st sid r u st' out] by simp
qed (use assms in auto)

lemma inv_handle:
  assumes "authorityInv st" "handle st e = Inr (st', out)"
  shows "authorityInv st'"
proof (cases e)
  case (Connection sid)
  have "st' = (if sid \<in> set (sockets st) then st else st\<lparr>sockets := sockets st @ [sid],
                                                   adapter := Set_add (adapter st) (sid, sid)\<rparr>)"
    using assms(2) Connection by simp
  then have "rooms st' = rooms st \<and> roomMetadata st' = roomMetadata st \<and> waitingRooms st' = waitingRooms st"
    by simp
  then show ?thesis using inv_frame0 [OF assms(1), of st'] by simp
next
  case (Client sid ce)
  show ?thesis
  proof (cases "sid \<in> set (sockets st)")
    case True
    then show ?thesis using assms Client inv_event [of st sid ce st' out] by simp
  next
    case False
    then show ?thesis using assms Client by simp
  qed
next
  case (Disconnect sid)
  show ?thesis
  proof (cases "sid \<in> set (sockets st)")
    case True
    then show ?thesis using assms Disconnect inv_disconnect [of st sid st' out] by simp
  next
    case False
    then show ?thesis using assms Disconnect by simp
  qed
qed

lemma inv_run:
  assumes "authorityInv st" "run st evs = Inr st'"
  shows "authorityInv st'"
  using assms
proof (induction evs arbitrary: st)
  case Nil
  then show ?case by simp
next
  case (Cons e evs)
  then obtain r where r: "handle st e = Inr r" "run (fst r) evs = Inr st'"
    by (auto split: sum.splits)
  have "authorityInv (fst r)" using inv_handle [OF Cons.prems(1), of e "fst r" "snd r"] r(1) by simp
  then show ?case using Cons.IH r(2) by blast
qed

lemma inv_init: "authorityInv init"
  by (simp add: authorityInv_def roomsInv_def hostInv_def init_def)

subsection \<open>Which events lock a room\<close>

lemma roomLocked_cong: "roomMetadata st' = roomMetadata st \<Longrightarrow> roomLocked st' x = roomLocked st x"
  by (simp add: roomLocked_def)

lemma locked_join:
  assumes "on_join_room st sid r u cfg un = Inr (st', out)" "roomLocked st' x"
  shows "roomLocked st x"
proof -
  let ?st = "storeUserName st u un"
  show ?thesis
  proof (cases "map_of (roomMetadata st) r")
    case None
    then have st': "st' = fst (joinDirect ?st sid r u cfg True)"
      using assms(1) by (auto simp: on_join_room_def Let_def)
    show ?thesis
    proof (cases "x = r")
      case True
      then show ?thesis using assms(2) createRoom_meta(1) [of ?st r u cfg]
        by (auto simp: roomLocked_def st' joinDirect_maps split: option.splits)
    next
      case False
      then show ?thesis using assms(2) createRoom_meta(2) [of x r ?st u cfg]
        by (simp add: roomLocked_def st' joinDirect_maps)
    qed
  next
    case (Some m)
    then have "st' = ?st \<or> st' = fst (joinWaiting ?st sid r u un m)
      \<or> st' = fst (joinDirect ?st sid r u cfg False)"
      using assms(1) by (auto simp: on_join_room_def Let_def split: if_splits)
    then have "map_of (roomMetadata st') = map_of (roomMetadata st)"
      by (auto simp: joinWaiting_maps joinDirect_maps)
    then show ?thesis using assms(2) by (simp add: roomLocked_def)
  qed
qed

lemma locked_admit:
  assumes "on_admit_user st sid r u = Inr (st', out)" "roomLocked st' x"
  shows "roomLocked st x"
proof -
  have "roomMetadata st' = roomMetadata st"
    using on_admit_user_effect [OF assms(1)] by (auto simp: admitTarget_maps)
  then show ?thesis using assms(2) by (simp add: roomLocked_def)
qed

lemma locked_deny:
  assumes "on_deny_user st sid r u = Inr (st', out)" "roomLocked st' x"
  shows "roomLocked st x"
proof -
  have "roomMetadata st' = roomMetadata st"
    using on_deny_user_effect [OF assms(1)] by auto
  then show ?thesis using assms(2) by (simp add: roomLocked_def)
qed

lemma locked_toggle_waiting_room:
  assumes "on_toggle_waiting_room st sid r = Inr (st', out)" "roomLocked st' x"
  shows "roomLocked st x"
  using on_toggle_waiting_room_effect [OF assms(1)] assms(2)
  by (auto simp: roomLocked_def update_conv' split: option.splits if_splits)

lemma locked_toggle_lock:
  assumes "on_toggle_lock st sid r = Inr (st', out)" "roomLocked st' x" "\<not> roomLocked st x"
  shows "x = r \<and> (\<exists>m. map_of (roomMetadata st) r = Some m \<and> map_of (socketToUser st) sid = hostId m)"
  using on_toggle_lock_effect [OF assms(1)] assms(2,3)
  by (auto simp: roomLocked_def update_conv' split: option.splits if_splits)

lemma locked_depart:
  assumes "roomLocked (fst (departRoom st r u (map_of (roomMetadata st) r) us0)) x"
  shows "roomLocked st x"
  using assms
  by (auto simp: roomLocked_def departRoom_meta split: option.splits if_splits)

lemma locked_leave:
  assumes "on_leave_room st sid r u = Inr (st', out)" "roomLocked st' x"
  shows "roomLocked st x"
proof -
  have st': "st' = fst (leaveRoom st sid r u)" using assms(1) by (auto simp: on_leave_room_def)
  show ?thesis
  proof (cases "map_of (rooms st) r")
    case None
    then show ?thesis using assms(2) by (simp add: st' roomLocked_def leaveRoom_fst)
  next
    case (Some us0)
    let ?st1 = "st\<lparr>adapter := Set_delete (adapter st) (sid, r)\<rparr>"
    have "roomLocked (fst (departRoom ?st1 r u (map_of (roomMetadata ?st1) r) us0)) x"
      using assms(2) by (simp add: st' roomLocked_def leaveRoom_fst Some)
    from locked_depart [OF this] show ?thesis by (simp add: roomLocked_def)
  qed
qed

lemma locked_disconnectRoom:
  assumes "roomLocked (fst (disconnectRoom st sid r u)) x"
  shows "roomLocked st x"
  using assms locked_depart [of st r u _ x]
  by (auto simp: disconnectRoom_fst split: option.splits)

lemma locked_disconnect:
  assumes "on_disconnect st0 sid = Inr (st', out)" "roomLocked st' x"
  shows "roomLocked st0 x"
proof -
  let ?st = "socketGone st0 sid"
  have g: "roomLocked ?st x = roomLocked st0 x" by (simp add: roomLocked_def socketGone_def)
  have "st' = ?st \<or> (\<exists>u. st' = fst (disconnectUser ?st sid u))"
  proof (cases "map_of (socketToUser ?st) sid")
    case None
    then show ?thesis using assms(1) by (simp add: on_disconnect_def)
  next
    case (Some u)
    then show ?thesis using assms(1)
      by (cases "truthy u") (auto simp: on_disconnect_def intro: exI [of _ u])
  qed
  then show ?thesis
  proof
    assume "st' = ?st"
    then show ?thesis using assms(2) g by simp
  next
    assume "\<exists>u. st' = fst (disconnectUser ?st sid u)"
    then obtain u where u: "st' = fst (disconnectUser ?st sid u)" ..
    let ?st1 = "?st\<lparr>waitingRooms := fst (leaveWaiting ?st u (waitingRooms ?st))\<rparr>"
    have g1: "roomLocked ?st1 x = roomLocked ?st x" by (simp add: roomLocked_def)
    have "roomLocked (case map_of (userToRoom ?st) u of
              None \<Rightarrow> ?st1
            | Some rid \<Rightarrow> if truthy rid then fst (disconnectRoom ?st1 sid rid u) else ?st1) x"
      using assms(2) unfolding u roomLocked_def disconnectUser_fst .
    then have "roomLocked ?st1 x"
      using locked_disconnectRoom [of ?st1 sid _ u x] by (auto split: option.splits if_splits)
    then show ?thesis using g g1 by simp
  qed
qed

subsection \<open>Uncaught exceptions\<close>

lemmas handler_defs =
  on_join_room_def storeUserName_def nameOr_def joinWaiting_def createRoom_def joinDirect_def
  on_admit_user_def admitTarget_def on_deny_user_def on_toggle_lock_def
  on_toggle_waiting_room_def transferHost_def cleanupRoom_def departRoom_def leaveRoom_def
  on_leave_room_def disconnectRoom_def socketGone_def disconnectUser_def on_disconnect_def
  senderRoom_def relayToSenderRoom_def getPublicRooms_def broadcastPublicRooms_def
  metaHost_def getRoomSettings_def findSocketOf_def waitingList_def toSocketIfAny_def
  truthy_def Set_add_def Set_delete_def Set_first_def Let_def

lemma on_toggle_lock_throws:
  "on_toggle_lock st sid r = Inl TypeError
     \<longleftrightarrow> map_of (socketToUser st) sid = None \<and> map_of (roomMetadata st) r = None"
  by (cases "map_of (roomMetadata st) r"; cases "map_of (socketToUser st) sid")
     (auto simp: on_toggle_lock_def metaHost_def Let_def)

lemma on_toggle_waiting_room_throws:
  "on_toggle_waiting_room st sid r = Inl TypeError
     \<longleftrightarrow> map_of (socketToUser st) sid = None \<and> map_of (roomMetadata st) r = None"
  by (cases "map_of (roomMetadata st) r"; cases "map_of (socketToUser st) sid")
     (auto simp: on_toggle_waiting_room_def metaHost_def Let_def)

lemma on_join_room_returns: "on_join_room st sid r u cfg un \<noteq> Inl TypeError"
  by (simp add: on_join_room_def Let_def split: option.splits)

lemma on_admit_user_returns: "on_admit_user st sid r u \<noteq> Inl TypeError"
  by (simp add: on_admit_user_def Let_def split: option.splits)

lemma on_deny_user_returns: "on_deny_user st sid r u \<noteq> Inl TypeError"
  by (simp add: on_deny_user_def Let_def split: option.splits)

lemma on_disconnect_returns: "on_disconnect st sid \<noteq> Inl TypeError"
  by (simp add: on_disconnect_def Let_def split: option.splits)

lemma on_event_throws:
  "on_event st sid e = Inl TypeError
     \<longleftrightarrow> (\<exists>r. (e = ToggleLock r \<or> e = ToggleWaitingRoom r)
              \<and> map_of (socketToUser st) sid = None \<and> map_of (roomMetadata st) r = None)"
  by (cases e)
     (simp_all add: on_toggle_lock_throws on_toggle_waiting_room_throws on_join_room_returns
        on_admit_user_returns on_deny_user_returns on_leave_room_def)

lemma handle_throws:
  "handle st ev = Inl TypeError
     \<longleftrightarrow> (\<exists>sid r. (ev = Client sid (ToggleLock r) \<or> ev = Client sid (ToggleWaitingRoom r))
              \<and> sid \<in> set (sockets st)
              \<and> map_of (socketToUser st) sid = None \<and> map_of (roomMetadata st) r = None)"
  by (cases ev) (auto simp: on_event_throws on_disconnect_returns)

text \<open>
  Claim C2 (the handlers never throw) does not hold of the code. A connected socket that has
  no session binding sends \<open>toggle-lock\<close>, or \<open>toggle-waiting-room\<close>, naming a room that has
  no metadata: \<open>meta?.hostId\<close> and the sender's binding are both \<open>undefined\<close>, the host check
  lets the event through, and reading \<open>meta.isLocked\<close> raises a \<open>TypeError\<close> that nothing
  catches.
\<close>

theorem toggle_lock_without_binding_throws:
  "run init [Connection ''s1''] = Inr s1Connected
   \<and> map_of (socketToUser s1Connected) ''s1'' = None
   \<and> map_of (roomMetadata s1Connected) ''nowhere'' = None
   \<and> handle s1Connected (Client ''s1'' (ToggleLock ''nowhere'')) = Inl TypeError
   \<and> handle s1Connected (Client ''s1'' (ToggleWaitingRoom ''nowhere'')) = Inl TypeError"
  by (simp add: s1Connected_def init_def handler_defs)

subsection \<open>Locked rooms and host-only events\<close>

text \<open>
  Claim C7. A join that targets an existing, locked room emits \<open>room-locked\<close> to the
  requester's socket and nothing else, and leaves room membership, room metadata, waiting
  entries, session bindings and the socket.io state as they were. (The handler has already
  recorded a supplied display name in \<open>userNames\<close>, a cache that no handler reads.)
\<close>

theorem join_locked_room:
  assumes "map_of (roomMetadata st) roomId = Some m" and "isLocked m"
    and "sid \<in> set (sockets st)"
  shows "\<exists>st'. handle st (Client sid (JoinRoom roomId odId config userName))
                 = Inr (st', [(ToSocket sid, RoomLocked roomId)])
           \<and> recipients st' (ToSocket sid) = [sid]
           \<and> rooms st' = rooms st \<and> roomMetadata st' = roomMetadata st
           \<and> waitingRooms st' = waitingRooms st \<and> socketToUser st' = socketToUser st
           \<and> userToRoom st' = userToRoom st \<and> sockets st' = sockets st
           \<and> adapter st' = adapter st"
  using assms by (simp add: on_join_room_def Let_def)

lemma lockedRoom_reachable:
  "run init [Connection ''s1'', Client ''s1'' (JoinRoom ''R1'' ''u1'' None None),
             Client ''s1'' (ToggleLock ''R1''), Connection ''s2''] = Inr lockedRoom"
  by (simp add: lockedRoom_def init_def handler_defs update_conv')

text \<open>The theorem at a locked room ``R1'' of host ``u1'', with ``u2'' asking on socket ``s2''.\<close>

theorem join_locked_room_witness:
  "map_of (roomMetadata lockedRoom) ''R1''
     = Some \<lparr>isPublic = False, name = Some ''Room R1'', hostId = Some ''u1'',
             isLocked = True, waitingRoom = False\<rparr>
   \<and> ''s2'' \<in> set (sockets lockedRoom)
   \<and> handle lockedRoom (Client ''s2'' (JoinRoom ''R1'' ''u2'' None (Some ''Bob'')))
       = Inr (lockedRoom\<lparr>userNames := [(''u2'', ''Bob'')]\<rparr>, [(ToSocket ''s2'', RoomLocked ''R1'')])"
proof -
  have m: "map_of (roomMetadata lockedRoom) ''R1''
     = Some \<lparr>isPublic = False, name = Some ''Room R1'', hostId = Some ''u1'',
             isLocked = True, waitingRoom = False\<rparr>"
    by (simp add: lockedRoom_def)
  have l: "isLocked \<lparr>isPublic = False, name = Some ''Room R1'', hostId = Some ''u1'',
             isLocked = True, waitingRoom = False\<rparr>" by simp
  have c: "''s2'' \<in> set (sockets lockedRoom)" by (simp add: lockedRoom_def)
  from join_locked_room [OF m l c, of "''u2''" None "Some ''Bob''"]
  obtain st' where "handle lockedRoom (Client ''s2'' (JoinRoom ''R1'' ''u2'' None (Some ''Bob'')))
                 = Inr (st', [(ToSocket ''s2'', RoomLocked ''R1'')])" by blast
  moreover have "handle lockedRoom (Client ''s2'' (JoinRoom ''R1'' ''u2'' None (Some ''Bob'')))
       = Inr (lockedRoom\<lparr>userNames := [(''u2'', ''Bob'')]\<rparr>, [(ToSocket ''s2'', RoomLocked ''R1'')])"
    by (simp add: lockedRoom_def handler_defs)
  ultimately show ?thesis using m c by simp
qed

text \<open>
  While the two sides of the host check differ (the host of the named room, if the room
  exists, and the user bound to the sending socket, if any), each of \<open>admit-user\<close>,
  \<open>deny-user\<close>, \<open>toggle-lock\<close> and \<open>toggle-waiting-room\<close> emits nothing and leaves the whole
  state unchanged.
\<close>

lemma host_check_rejects:
  assumes "metaHost (map_of (roomMetadata st) roomId) \<noteq> map_of (socketToUser st) sid"
    and "e \<in> {AdmitUser roomId odId, DenyUser roomId odId, ToggleLock roomId, ToggleWaitingRoom roomId}"
  shows "handle st (Client sid e) = Inr (st, [])"
  using assms
  by (auto simp: on_admit_user_def on_deny_user_def on_toggle_lock_def on_toggle_waiting_room_def)

text \<open>
  Claim C8 (a host-only event whose sender is not the host of the named room is silently
  ignored) does not hold of the code. The socket ``s2'' has no session binding and ``R9'' is
  no room, so the sender is not the host of ``R9''. \<open>admit-user\<close> and \<open>deny-user\<close> are
  ignored, but \<open>toggle-lock\<close> and \<open>toggle-waiting-room\<close> are not: the host check compares
  \<open>undefined\<close> with \<open>undefined\<close>, lets the event through, and reading \<open>meta.isLocked\<close>
  (\<open>meta.waitingRoom\<close>) raises a \<open>TypeError\<close>. It is the defect of claim C2; for every
  other sender lemma \<open>host_check_rejects\<close> shows the four events ignored.
\<close>

theorem unbound_sender_not_ignored:
  "run init [Connection ''s1'', Client ''s1'' (JoinRoom ''R1'' ''u1'' None None),
             Client ''s1'' (ToggleLock ''R1''), Connection ''s2''] = Inr lockedRoom
   \<and> ''s2'' \<in> set (sockets lockedRoom)
   \<and> map_of (socketToUser lockedRoom) ''s2'' = None
   \<and> map_of (roomMetadata lockedRoom) ''R9'' = None
   \<and> handle lockedRoom (Client ''s2'' (AdmitUser ''R9'' ''u3'')) = Inr (lockedRoom, [])
   \<and> handle lockedRoom (Client ''s2'' (DenyUser ''R9'' ''u3'')) = Inr (lockedRoom, [])
   \<and> handle lockedRoom (Client ''s2'' (ToggleLock ''R9'')) = Inl TypeError
   \<and> handle lockedRoom (Client ''s2'' (ToggleWaitingRoom ''R9'')) = Inl TypeError"
proof (intro conjI)
  show "run init [Connection ''s1'', Client ''s1'' (JoinRoom ''R1'' ''u1'' None None),
             Client ''s1'' (ToggleLock ''R1''), Connection ''s2''] = Inr lockedRoom"
    by (rule lockedRoom_reachable)
qed (simp_all add: lockedRoom_def handler_defs)

subsection \<open>Rooms start unlocked\<close>

lemma createdRoom_reachable:
  "run init [Connection ''s1'', Client ''s1'' (JoinRoom ''R1'' ''u1'' None None)] = Inr createdRoom"
  by (simp add: createdRoom_def init_def handler_defs update_conv')

lemma created_room_unlocked:
  assumes "map_of (roomMetadata st) r = None"
    and "on_join_room st sid r u cfg un = Inr (st', out)"
  shows "\<exists>m. map_of (roomMetadata st') r = Some m \<and> \<not> isLocked m"
proof -
  have "st' = fst (joinDirect (storeUserName st u un) sid r u cfg True)"
    using assms by (auto simp: on_join_room_def Let_def)
  then show ?thesis
    using createRoom_meta(1,3) [of "storeUserName st u un" r u cfg]
    by (auto simp: joinDirect_maps)
qed

lemma locked_event:
  assumes "on_event st sid e = Inr (st', out)" "roomLocked st' x" "\<not> roomLocked st x"
  shows "e = ToggleLock x \<and> metaHost (map_of (roomMetadata st) x) = map_of (socketToUser st) sid
         \<and> map_of (roomMetadata st) x \<noteq> None"
proof (cases e)
  case (JoinRoom r u cfg un)
  then show ?thesis using assms locked_join [of st sid r u cfg un st' out x] by simp
next
  case (AdmitUser r u)
  then show ?thesis using assms locked_admit [of st sid r u st' out x] by simp
next
  case (DenyUser r u)
  then show ?thesis using assms locked_deny [of st sid r u st' out x] by simp
next
  case (ToggleLock r)
  then show ?thesis using assms locked_toggle_lock [of st sid r st' out x]
    by (auto simp: metaHost_def)
next
  case (ToggleWaitingRoom r)
  then show ?thesis using assms locked_toggle_waiting_room [of st sid r st' out x] by simp
next
  case (LeaveRoom r u)
  then show ?thesis using assms locked_leave [of st sid r u st' out x] by simp
qed (use assms in auto)

lemma locked_handle:
  assumes "handle st e = Inr (st', out)" "roomLocked st' x" "\<not> roomLocked st x"
  shows "\<exists>sid. e = Client sid (ToggleLock x) \<and> sid \<in> set (sockets st)
           \<and> metaHost (map_of (roomMetadata st) x) = map_of (socketToUser st) sid
           \<and> map_of (roomMetadata st) x \<noteq> None"
proof (cases e)
  case (Connection sid)
  have "st' = (if sid \<in> set (sockets st) then st else st\<lparr>sockets := sockets st @ [sid],
                                                   adapter := Set_add (adapter st) (sid, sid)\<rparr>)"
    using assms(1) Connection by simp
  then have "roomLocked st' x = roomLocked st x" by (simp add: roomLocked_def)
  then show ?thesis using assms by simp
next
  case (Client sid ce)
  show ?thesis
  proof (cases "sid \<in> set (sockets st)")
    case True
    then show ?thesis using assms Client locked_event [of st sid ce st' out x] by simp
  next
    case False
    then show ?thesis using assms Client by simp
  qed
next
  case (Disconnect sid)
  show ?thesis
  proof (cases "sid \<in> set (sockets st)")
    case True
    then show ?thesis using assms Disconnect locked_disconnect [of st sid st' out x] by simp
  next
    case False
    then show ?thesis using assms Disconnect by simp
  qed
qed

text \<open>
  Claim C10. A join that creates a room leaves it unlocked whatever the creation config is;
  and in every state reached from the initial one, an event after which a room is locked that
  was not locked before is a \<open>toggle-lock\<close> for that room, sent from a connected socket
  bound to the room's host.
\<close>

theorem rooms_start_unlocked:
  "(map_of (roomMetadata st0) r = None
      \<longrightarrow> on_join_room st0 sid0 r u cfg un = Inr (st1, out1)
      \<longrightarrow> (\<exists>m. map_of (roomMetadata st1) r = Some m \<and> \<not> isLocked m))
   \<and> (run init evs = Inr st \<longrightarrow> handle st e = Inr (st', out)
      \<longrightarrow> \<not> roomLocked st x \<longrightarrow> roomLocked st' x
      \<longrightarrow> (\<exists>sid h. e = Client sid (ToggleLock x) \<and> sid \<in> set (sockets st)
              \<and> map_of (socketToUser st) sid = Some h
              \<and> metaHost (map_of (roomMetadata st) x) = Some h))"
proof (intro conjI impI)
  assume "map_of (roomMetadata st0) r = None" "on_join_room st0 sid0 r u cfg un = Inr (st1, out1)"
  then show "\<exists>m. map_of (roomMetadata st1) r = Some m \<and> \<not> isLocked m"
    by (rule created_room_unlocked)
next
  assume r: "run init evs = Inr st" and h: "handle st e = Inr (st', out)"
    and u: "\<not> roomLocked st x" and l: "roomLocked st' x"
  from locked_handle [OF h l u] obtain sid where
    sid: "e = Client sid (ToggleLock x)" "sid \<in> set (sockets st)"
      "metaHost (map_of (roomMetadata st) x) = map_of (socketToUser st) sid"
      "map_of (roomMetadata st) x \<noteq> None" by blast
  from sid(4) obtain m where m: "map_of (roomMetadata st) x = Some m" by blast
  have "hostInv st" using inv_run [OF inv_init r] by (simp add: authorityInv_def)
  with m obtain h where h: "hostId m = Some h" unfolding hostInv_def by blast
  have "map_of (socketToUser st) sid = Some h \<and> metaHost (map_of (roomMetadata st) x) = Some h"
    using sid(3) m h by (simp add: metaHost_def)
  with sid(1,2) show "\<exists>sid h. e = Client sid (ToggleLock x) \<and> sid \<in> set (sockets st)
              \<and> map_of (socketToUser st) sid = Some h
              \<and> metaHost (map_of (roomMetadata st) x) = Some h"
    by blast
qed

text \<open>
  The theorem at a room created with a full config, and at the \<open>toggle-lock\<close> of the host
  of ``R1''.
\<close>

theorem rooms_start_unlocked_witness:
  "map_of (roomMetadata s1Connected) ''R1'' = None
   \<and> on_join_room s1Connected ''s1'' ''R1'' ''u1''
        (Some \<lparr>cfg_isPublic = True, cfg_name = ''Standup'', cfg_waitingRoom = Some True\<rparr>) None
       = Inr (createdRoom\<lparr>roomMetadata :=
                 [(''R1'', \<lparr>isPublic = True, name = Some ''Standup'', hostId = Some ''u1'',
                            isLocked = False, waitingRoom = True\<rparr>)]\<rparr>,
              [(FromSocketToRoom ''s1'' ''R1'', UserConnected ''u1''),
               (ToSocket ''s1'', RoomJoined ''R1'' True
                  \<lparr>rs_isLocked = False, rs_waitingRoom = True, rs_hostId = Some ''u1''\<rparr>),
               (ToAll, RoomsUpdate [\<lparr>ri_roomId = ''R1'', ri_name = Some ''Standup'', ri_count = 1,
                  ri_isPublic = True, ri_isLocked = False, ri_waitingRoom = True\<rparr>])])
   \<and> run init [Connection ''s1'', Client ''s1'' (JoinRoom ''R1'' ''u1'' None None)] = Inr createdRoom
   \<and> \<not> roomLocked createdRoom ''R1''
   \<and> roomLocked (createdRoom\<lparr>roomMetadata :=
                 [(''R1'', \<lparr>isPublic = False, name = Some ''Room R1'', hostId = Some ''u1'',
                            isLocked = True, waitingRoom = False\<rparr>)]\<rparr>) ''R1''
   \<and> handle createdRoom (Client ''s1'' (ToggleLock ''R1''))
       = Inr (createdRoom\<lparr>roomMetadata :=
                 [(''R1'', \<lparr>isPublic = False, name = Some ''Room R1'', hostId = Some ''u1'',
                            isLocked = True, waitingRoom = False\<rparr>)]\<rparr>,
              [(ToRoom ''R1'', RoomSettingsUpdate
                  \<lparr>rs_isLocked = True, rs_waitingRoom = False, rs_hostId = Some ''u1''\<rparr>),
               (ToAll, RoomsUpdate [])])
   \<and> map_of (socketToUser createdRoom) ''s1'' = Some ''u1''
   \<and> metaHost (map_of (roomMetadata createdRoom) ''R1'') = Some ''u1''"
proof -
  have a: "map_of (roomMetadata s1Connected) ''R1'' = None"
    by (simp add: s1Connected_def init_def)
  have b: "on_join_room s1Connected ''s1'' ''R1'' ''u1''
        (Some \<lparr>cfg_isPublic = True, cfg_name = ''Standup'', cfg_waitingRoom = Some True\<rparr>) None
       = Inr (createdRoom\<lparr>roomMetadata :=
                 [(''R1'', \<lparr>isPublic = True, name = Some ''Standup'', hostId = Some ''u1'',
                            isLocked = False, waitingRoom = True\<rparr>)]\<rparr>,
              [(FromSocketToRoom ''s1'' ''R1'', UserConnected ''u1''),
               (ToSocket ''s1'', RoomJoined ''R1'' True
                  \<lparr>rs_isLocked = False, rs_waitingRoom = True, rs_hostId = Some ''u1''\<rparr>),
               (ToAll, RoomsUpdate [\<lparr>ri_roomId = ''R1'', ri_name = Some ''Standup'', ri_count = 1,
                  ri_isPublic = True, ri_isLocked = False, ri_waitingRoom = True\<rparr>])])"
    by (simp add: createdRoom_def s1Connected_def init_def handler_defs update_conv')
  have c: "run init [Connection ''s1'', Client ''s1'' (JoinRoom ''R1'' ''u1'' None None)] = Inr createdRoom"
    by (rule createdRoom_reachable)
  have d: "\<not> roomLocked createdRoom ''R1''" by (simp add: roomLocked_def createdRoom_def)
  have e: "roomLocked (createdRoom\<lparr>roomMetadata :=
                 [(''R1'', \<lparr>isPublic = False, name = Some ''Room R1'', hostId = Some ''u1'',
                            isLocked = True, waitingRoom = False\<rparr>)]\<rparr>) ''R1''"
    by (simp add: roomLocked_def)
  have f: "handle createdRoom (Client ''s1'' (ToggleLock ''R1''))
       = Inr (createdRoom\<lparr>roomMetadata :=
                 [(''R1'', \<lparr>isPublic = False, name = Some ''Room R1'', hostId = Some ''u1'',
                            isLocked = True, waitingRoom = False\<rparr>)]\<rparr>,
              [(ToRoom ''R1'', RoomSettingsUpdate
                  \<lparr>rs_isLocked = True, rs_waitingRoom = False, rs_hostId = Some ''u1''\<rparr>),
               (ToAll, RoomsUpdate [])])"
    by (simp add: createdRoom_def handler_defs update_conv')
  from rooms_start_unlocked [THEN conjunct2, rule_format, OF c f d e]
  have "map_of (socketToUser createdRoom) ''s1'' = Some ''u1''
        \<and> metaHost (map_of (roomMetadata createdRoom) ''R1'') = Some ''u1''"
    by (auto simp: createdRoom_def metaHost_def)
  with a b c d e f show ?thesis by simp
qed

subsection \<open>Joining a room\<close>






lemma gatedRoom_reachable:
  "run init [Connection ''s1'', Connection ''s2'',
             Client ''s1'' (JoinRoom ''R1'' ''u1'' cfgGated None)] = Inr gatedRoom"
  by (simp add: gatedRoom_def cfgGated_def init_def handler_defs)

lemma ghostGatedRoom_reachable:
  "run init [Connection ''s1'', Client ''s1'' (JoinRoom ''R1'' ''u1'' cfgGated None),
             Client ''s1'' (JoinRoom ''R2'' ''u1'' None None), Disconnect ''s1'',
             Connection ''s2''] = Inr ghostGatedRoom"
  by (simp add: ghostGatedRoom_def cfgGated_def init_def handler_defs)

lemma hostInv_reachable: "run init evs = Inr st \<Longrightarrow> hostInv st"
  using inv_run [OF inv_init, of evs st] by (simp add: authorityInv_def)

lemma roomsInv_reachable: "run init evs = Inr st \<Longrightarrow> roomsInv st"
  using inv_run [OF inv_init, of evs st] by (simp add: authorityInv_def)




subsection \<open>The waiting room\<close>

lemma update_absent: "map_of al k = None \<Longrightarrow> AList.update k v al = al @ [(k, v)]"
  by (induction al) auto

lemma join_waiting:
  assumes m: "map_of (roomMetadata st) r = Some m" "\<not> isLocked m" "waitingRoom m"
      "hostId m \<noteq> Some u"
    and j: "on_join_room st sid r u cfg un = Inr (st', out)"
  shows "map_of (waitingRooms st') r
           = Some (AList.update u \<lparr>wu_odId = u, wu_socketId = sid, wu_userName = nameOr un u\<rparr>
                    (waitingOf st r))
         \<and> out = (ToSocket sid, WaitingRoom r
                     (length (AList.update u \<lparr>wu_odId = u, wu_socketId = sid, wu_userName = nameOr un u\<rparr>
                               (waitingOf st r))))
                 # toSocketIfAny (findSocketOf st' (hostId m))
                     [WaitingRoomUpdate r
                        (waitingList (AList.update u \<lparr>wu_odId = u, wu_socketId = sid, wu_userName = nameOr un u\<rparr>
                               (waitingOf st r)))]
         \<and> rooms st' = rooms st \<and> roomMetadata st' = roomMetadata st
         \<and> socketToUser st' = AList.update sid u (socketToUser st)
         \<and> sockets st' = sockets st \<and> adapter st' = adapter st"
proof -
  have "Inr (st', out) = Inr (joinWaiting (storeUserName st u un) sid r u un m)"
    using m j by (auto simp add: on_join_room_def Let_def)
  then have e: "joinWaiting (storeUserName st u un) sid r u un m = (st', out)" by simp
  show ?thesis
    using e [symmetric]
    by (simp add: joinWaiting_def Let_def update_conv' findSocketOf_def waitingOf_def)
qed

text \<open>
  Claim C6, amended. A join, sent by a connected socket, of an existing, unlocked room whose
  waiting room is on, for a user who is not the host, sets the waiting entry of that user
  (identifier, socket, display name or else the identifier) and leaves the entries of other
  users untouched. The requester's socket, and no other, receives \<open>waiting-room\<close>; when the
  user had no entry before, the new entry is last and the message carries its position. The
  updated waiting list is emitted to the socket.io room named by the first socket that is
  bound to the host's identifier once the requester's socket is bound to the requester, when
  there is such a socket and its identifier is not empty, and is received by exactly the
  connected sockets that are in that socket.io room; otherwise no waiting list is emitted.
  The membership map is unchanged.
\<close>

theorem join_waiting_room:
  assumes "sid \<in> set (sockets st)"
    and "map_of (roomMetadata st) r = Some m" and "\<not> isLocked m" and "waitingRoom m"
    and "hostId m \<noteq> Some u"
    and "handle st (Client sid (JoinRoom r u cfg un)) = Inr (st', out)"
  shows "\<exists>w p. map_of (waitingRooms st') r = Some w
           \<and> map_of w u = Some \<lparr>wu_odId = u, wu_socketId = sid, wu_userName = nameOr un u\<rparr>
           \<and> (\<forall>k. k \<noteq> u \<longrightarrow> map_of w k = map_of (waitingOf st r) k)
           \<and> (map_of (waitingOf st r) u = None \<longrightarrow>
                 w = waitingOf st r @ [(u, \<lparr>wu_odId = u, wu_socketId = sid, wu_userName = nameOr un u\<rparr>)]
                 \<and> p = length w)
           \<and> out = (ToSocket sid, WaitingRoom r p)
                   # (case findSocketOf st' (hostId m) of
                        None \<Rightarrow> []
                      | Some h \<Rightarrow> if truthy h
                                  then [(ToRoom h, WaitingRoomUpdate r (waitingList w))] else [])
           \<and> receivers st' out (WaitingRoom r p) = [sid]
           \<and> receivers st' out (WaitingRoomUpdate r (waitingList w))
               = (case findSocketOf st' (hostId m) of
                    None \<Rightarrow> []
                  | Some h \<Rightarrow> if truthy h
                              then filter (\<lambda>x. (x, h) \<in> set (adapter st')) (sockets st') else [])
           \<and> socketToUser st' = AList.update sid u (socketToUser st)
           \<and> rooms st' = rooms st"
proof -
  let ?e = "\<lparr>wu_odId = u, wu_socketId = sid, wu_userName = nameOr un u\<rparr>"
  let ?w = "AList.update u ?e (waitingOf st r)"
  have j: "on_join_room st sid r u cfg un = Inr (st', out)" using assms(1,6) by simp
  note w = join_waiting [OF assms(2-5) j]
  have o: "out = (ToSocket sid, WaitingRoom r (length ?w))
                   # (case findSocketOf st' (hostId m) of
                        None \<Rightarrow> []
                      | Some h \<Rightarrow> if truthy h
                                  then [(ToRoom h, WaitingRoomUpdate r (waitingList ?w))]
                                  else [])"
    using w by (simp add: toSocketIfAny_def split: option.splits)
  have s: "sid \<in> set (sockets st')" using w assms(1) by simp
  show ?thesis
  proof (intro exI [of _ ?w] exI [of _ "length ?w"] conjI allI impI)
    show "map_of (waitingRooms st') r = Some ?w" using w by blast
    show "map_of ?w u = Some ?e" by (simp add: update_conv')
    show "out = (ToSocket sid, WaitingRoom r (length ?w))
                   # (case findSocketOf st' (hostId m) of
                        None \<Rightarrow> []
                      | Some h \<Rightarrow> if truthy h
                                  then [(ToRoom h, WaitingRoomUpdate r (waitingList ?w))]
                                  else [])"
      by (rule o)
    show "receivers st' out (WaitingRoom r (length ?w)) = [sid]"
      using s by (subst o) (simp add: receivers_def split: option.splits)
    show "receivers st' out (WaitingRoomUpdate r (waitingList ?w))
               = (case findSocketOf st' (hostId m) of
                    None \<Rightarrow> []
                  | Some h \<Rightarrow> if truthy h
                              then filter (\<lambda>x. (x, h) \<in> set (adapter st')) (sockets st') else [])"
      by (subst o) (simp add: receivers_def inRoom_def split: option.splits)
    show "socketToUser st' = AList.update sid u (socketToUser st)" using w by blast
    show "rooms st' = rooms st" using w by blast
    show "length ?w = length ?w" by simp
  next
    fix k
    assume "k \<noteq> u"
    then show "map_of ?w k = map_of (waitingOf st r) k" by (simp add: update_conv')
  next
    assume "map_of (waitingOf st r) u = None"
    then show "?w = waitingOf st r @ [(u, ?e)]" by (simp add: update_absent)
  qed
qed

text \<open>The theorem at the room ``R1'' of host ``u1'' (on ``s1''), with ``u2'' asking on ``s2''.\<close>

theorem join_waiting_room_witness:
  "run init [Connection ''s1'', Connection ''s2'',
             Client ''s1'' (JoinRoom ''R1'' ''u1'' cfgGated None)] = Inr gatedRoom
   \<and> ''s2'' \<in> set (sockets gatedRoom)
   \<and> map_of (roomMetadata gatedRoom) ''R1''
       = Some \<lparr>isPublic = True, name = Some ''Standup'', hostId = Some ''u1'',
               isLocked = False, waitingRoom = True\<rparr>
   \<and> waitingOf gatedRoom ''R1'' = []
   \<and> handle gatedRoom (Client ''s2'' (JoinRoom ''R1'' ''u2'' None None))
       = Inr (gatedRoomWaiting,
              [(ToSocket ''s2'', WaitingRoom ''R1'' 1),
               (ToRoom ''s1'', WaitingRoomUpdate ''R1'' [(''u2'', ''u2'')])])
   \<and> waitingOf gatedRoomWaiting ''R1''
       = [(''u2'', \<lparr>wu_odId = ''u2'', wu_socketId = ''s2'', wu_userName = ''u2''\<rparr>)]
   \<and> findSocketOf gatedRoomWaiting (Some ''u1'') = Some ''s1''
   \<and> receivers gatedRoomWaiting
        [(ToSocket ''s2'', WaitingRoom ''R1'' 1),
         (ToRoom ''s1'', WaitingRoomUpdate ''R1'' [(''u2'', ''u2'')])]
        (WaitingRoom ''R1'' 1) = [''s2'']
   \<and> receivers gatedRoomWaiting
        [(ToSocket ''s2'', WaitingRoom ''R1'' 1),
         (ToRoom ''s1'', WaitingRoomUpdate ''R1'' [(''u2'', ''u2'')])]
        (WaitingRoomUpdate ''R1'' [(''u2'', ''u2'')]) = [''s1'']
   \<and> rooms gatedRoomWaiting = rooms gatedRoom"
proof -
  have r: "run init [Connection ''s1'', Connection ''s2'',
             Client ''s1'' (JoinRoom ''R1'' ''u1'' cfgGated None)] = Inr gatedRoom"
    by (rule gatedRoom_reachable)
  have a: "''s2'' \<in> set (sockets gatedRoom)" by (simp add: gatedRoom_def)
  have b: "map_of (roomMetadata gatedRoom) ''R1''
       = Some \<lparr>isPublic = True, name = Some ''Standup'', hostId = Some ''u1'',
               isLocked = False, waitingRoom = True\<rparr>" by (simp add: gatedRoom_def)
  have c: "handle gatedRoom (Client ''s2'' (JoinRoom ''R1'' ''u2'' None None))
       = Inr (gatedRoomWaiting,
              [(ToSocket ''s2'', WaitingRoom ''R1'' 1),
               (ToRoom ''s1'', WaitingRoomUpdate ''R1'' [(''u2'', ''u2'')])])"
    by (simp add: gatedRoom_def gatedRoomWaiting_def handler_defs)
  have d: "findSocketOf gatedRoomWaiting (Some ''u1'') = Some ''s1''"
    by (simp add: gatedRoom_def gatedRoomWaiting_def findSocketOf_def)
  have e: "waitingOf gatedRoom ''R1'' = []" by (simp add: gatedRoom_def waitingOf_def)
  have f: "waitingOf gatedRoomWaiting ''R1''
       = [(''u2'', \<lparr>wu_odId = ''u2'', wu_socketId = ''s2'', wu_userName = ''u2''\<rparr>)]"
    by (simp add: gatedRoom_def gatedRoomWaiting_def waitingOf_def)
  have g: "receivers gatedRoomWaiting
        [(ToSocket ''s2'', WaitingRoom ''R1'' 1),
         (ToRoom ''s1'', WaitingRoomUpdate ''R1'' [(''u2'', ''u2'')])]
        (WaitingRoom ''R1'' 1) = [''s2'']"
    by (simp add: receivers_def gatedRoom_def gatedRoomWaiting_def)
  have h: "receivers gatedRoomWaiting
        [(ToSocket ''s2'', WaitingRoom ''R1'' 1),
         (ToRoom ''s1'', WaitingRoomUpdate ''R1'' [(''u2'', ''u2'')])]
        (WaitingRoomUpdate ''R1'' [(''u2'', ''u2'')]) = [''s1'']"
    by (simp add: receivers_def inRoom_def gatedRoom_def gatedRoomWaiting_def)
  from join_waiting_room [OF a b _ _ _ c]
  have "rooms gatedRoomWaiting = rooms gatedRoom" by auto
  with r a b c d e f g h show ?thesis by blast
qed

lemma queueOfTwo_reachable:
  "run init [Connection ''s1'', Connection ''s2'',
             Client ''s1'' (JoinRoom ''R1'' ''u1'' cfgGated None),
             Client ''s2'' (JoinRoom ''R1'' ''u2'' None None), Connection ''s3'',
             Client ''s3'' (JoinRoom ''R1'' ''u3'' None None)] = Inr queueOfTwo"
  by (simp add: queueOfTwo_def cfgGated_def init_def handler_defs)

lemma hostLeftOwnRoom_reachable:
  "run init [Connection ''s1'', Connection ''s2'',
             Client ''s1'' (JoinRoom ''R1'' ''u1'' cfgGated None),
             Client ''s1'' (LeaveRoom ''s1'' ''u9'')] = Inr hostLeftOwnRoom"
  by (simp add: hostLeftOwnRoom_def gatedRoom_def cfgGated_def init_def handler_defs)

text \<open>
  Claim C6 as stated fails in three ways. When no socket is bound to the host, nothing is
  emitted for the host: ``u1'' created ``R1'' with the waiting room on, joined ``R2'' on the
  same socket and disconnected; the handler cleaned ``R2'' only, ``R1'' keeps ``u1'' as host,
  and a join of ``R1'' is queued without any \<open>waiting-room-update\<close>. When the host's socket
  has left the socket.io room named by its own identifier (it sent \<open>leave-room\<close> with that
  name), the update is emitted to that room and nobody receives it. And the position sent is
  the size of the queue: ``u2'', first of two waiting users, asks again and is told position 2.
\<close>

theorem host_not_notified_counterexample:
  "run init [Connection ''s1'', Client ''s1'' (JoinRoom ''R1'' ''u1'' cfgGated None),
             Client ''s1'' (JoinRoom ''R2'' ''u1'' None None), Disconnect ''s1'',
             Connection ''s2''] = Inr ghostGatedRoom
   \<and> map_of (roomMetadata ghostGatedRoom) ''R1''
       = Some \<lparr>isPublic = True, name = Some ''Standup'', hostId = Some ''u1'',
               isLocked = False, waitingRoom = True\<rparr>
   \<and> handle ghostGatedRoom (Client ''s2'' (JoinRoom ''R1'' ''u2'' None None))
       = Inr (ghostGatedRoomWaiting, [(ToSocket ''s2'', WaitingRoom ''R1'' 1)])
   \<and> run init [Connection ''s1'', Connection ''s2'',
             Client ''s1'' (JoinRoom ''R1'' ''u1'' cfgGated None),
             Client ''s1'' (LeaveRoom ''s1'' ''u9'')] = Inr hostLeftOwnRoom
   \<and> map_of (socketToUser hostLeftOwnRoom) ''s1'' = Some ''u1''
   \<and> handle hostLeftOwnRoom (Client ''s2'' (JoinRoom ''R1'' ''u2'' None None))
       = Inr (hostLeftOwnRoom\<lparr>waitingRooms :=
                  [(''R1'', [(''u2'', \<lparr>wu_odId = ''u2'', wu_socketId = ''s2'', wu_userName = ''u2''\<rparr>)])],
                socketToUser := [(''s1'', ''u1''), (''s2'', ''u2'')]\<rparr>,
              [(ToSocket ''s2'', WaitingRoom ''R1'' 1),
               (ToRoom ''s1'', WaitingRoomUpdate ''R1'' [(''u2'', ''u2'')])])
   \<and> recipients (hostLeftOwnRoom\<lparr>waitingRooms :=
                  [(''R1'', [(''u2'', \<lparr>wu_odId = ''u2'', wu_socketId = ''s2'', wu_userName = ''u2''\<rparr>)])],
                socketToUser := [(''s1'', ''u1''), (''s2'', ''u2'')]\<rparr>) (ToRoom ''s1'') = []
   \<and> run init [Connection ''s1'', Connection ''s2'',
             Client ''s1'' (JoinRoom ''R1'' ''u1'' cfgGated None),
             Client ''s2'' (JoinRoom ''R1'' ''u2'' None None), Connection ''s3'',
             Client ''s3'' (JoinRoom ''R1'' ''u3'' None None)] = Inr queueOfTwo
   \<and> handle queueOfTwo (Client ''s2'' (JoinRoom ''R1'' ''u2'' None None))
       = Inr (queueOfTwo,
              [(ToSocket ''s2'', WaitingRoom ''R1'' 2),
               (ToRoom ''s1'', WaitingRoomUpdate ''R1'' [(''u2'', ''u2''), (''u3'', ''u3'')])])"
proof (intro conjI)
  show "run init [Connection ''s1'', Client ''s1'' (JoinRoom ''R1'' ''u1'' cfgGated None),
             Client ''s1'' (JoinRoom ''R2'' ''u1'' None None), Disconnect ''s1'',
             Connection ''s2''] = Inr ghostGatedRoom"
    by (rule ghostGatedRoom_reachable)
  show "map_of (roomMetadata ghostGatedRoom) ''R1''
       = Some \<lparr>isPublic = True, name = Some ''Standup'', hostId = Some ''u1'',
               isLocked = False, waitingRoom = True\<rparr>"
    by (simp add: ghostGatedRoom_def)
  show "handle ghostGatedRoom (Client ''s2'' (JoinRoom ''R1'' ''u2'' None None))
       = Inr (ghostGatedRoomWaiting, [(ToSocket ''s2'', WaitingRoom ''R1'' 1)])"
    by (simp add: ghostGatedRoom_def ghostGatedRoomWaiting_def handler_defs)
  show "run init [Connection ''s1'', Connection ''s2'',
             Client ''s1'' (JoinRoom ''R1'' ''u1'' cfgGated None),
             Client ''s1'' (LeaveRoom ''s1'' ''u9'')] = Inr hostLeftOwnRoom"
    by (rule hostLeftOwnRoom_reachable)
  show "map_of (socketToUser hostLeftOwnRoom) ''s1'' = Some ''u1''"
    by (simp add: hostLeftOwnRoom_def gatedRoom_def)
  show "handle hostLeftOwnRoom (Client ''s2'' (JoinRoom ''R1'' ''u2'' None None))
       = Inr (hostLeftOwnRoom\<lparr>waitingRooms :=
                  [(''R1'', [(''u2'', \<lparr>wu_odId = ''u2'', wu_socketId = ''s2'', wu_userName = ''u2''\<rparr>)])],
                socketToUser := [(''s1'', ''u1''), (''s2'', ''u2'')]\<rparr>,
              [(ToSocket ''s2'', WaitingRoom ''R1'' 1),
               (ToRoom ''s1'', WaitingRoomUpdate ''R1'' [(''u2'', ''u2'')])])"
    by (simp add: hostLeftOwnRoom_def gatedRoom_def handler_defs)
  show "recipients (hostLeftOwnRoom\<lparr>waitingRooms :=
                  [(''R1'', [(''u2'', \<lparr>wu_odId = ''u2'', wu_socketId = ''s2'', wu_userName = ''u2''\<rparr>)])],
                socketToUser := [(''s1'', ''u1''), (''s2'', ''u2'')]\<rparr>) (ToRoom ''s1'') = []"
    by (simp add: hostLeftOwnRoom_def gatedRoom_def inRoom_def)
  show "run init [Connection ''s1'', Connection ''s2'',
             Client ''s1'' (JoinRoom ''R1'' ''u1'' cfgGated None),
             Client ''s2'' (JoinRoom ''R1'' ''u2'' None None), Connection ''s3'',
             Client ''s3'' (JoinRoom ''R1'' ''u3'' None None)] = Inr queueOfTwo"
    by (rule queueOfTwo_reachable)
  show "handle queueOfTwo (Client ''s2'' (JoinRoom ''R1'' ''u2'' None None))
       = Inr (queueOfTwo,
              [(ToSocket ''s2'', WaitingRoom ''R1'' 2),
               (ToRoom ''s1'', WaitingRoomUpdate ''R1'' [(''u2'', ''u2''), (''u3'', ''u3'')])])"
    by (simp add: queueOfTwo_def handler_defs)
qed

subsection \<open>The last member departs\<close>

lemma emitted_reaches:
  assumes "(ToSocket s, m) \<in> set out" "s \<in> set (sockets st)"
  shows "s \<in> set (receivers st out m)"
proof -
  have "(ToSocket s, m) \<in> set (filter (\<lambda>e. snd e = m) out)" using assms(1) by simp
  moreover have "s \<in> set (recipients st (fst (ToSocket s, m)))" using assms(2) by simp
  ultimately show ?thesis unfolding receivers_def set_concat set_map by blast
qed

lemma closeWaiting_emits:
  "x \<in> set (snd (closeWaiting socks r waiting s2u))
     \<longleftrightarrow> (\<exists>k e. x = (ToSocket (wu_socketId e), RoomClosed r) \<and> (k, e) \<in> set waiting
                \<and> wu_socketId e \<in> set socks)"
proof (induction waiting arbitrary: s2u)
  case Nil
  show ?case by simp
next
  case (Cons p waiting)
  obtain k0 e0 where p: "p = (k0, e0)" by (cases p)
  show ?case
  proof (cases "wu_socketId e0 \<in> set socks")
    case True
    have "x \<in> set (snd (closeWaiting socks r (p # waiting) s2u))
          \<longleftrightarrow> x = (ToSocket (wu_socketId e0), RoomClosed r)
              \<or> x \<in> set (snd (closeWaiting socks r waiting (AList.delete (wu_socketId e0) s2u)))"
      by (simp add: p True Let_def)
    also have "\<dots> \<longleftrightarrow> x = (ToSocket (wu_socketId e0), RoomClosed r)
              \<or> (\<exists>k e. x = (ToSocket (wu_socketId e), RoomClosed r) \<and> (k, e) \<in> set waiting
                    \<and> wu_socketId e \<in> set socks)"
      by (simp only: Cons.IH)
    also have "\<dots> \<longleftrightarrow> (\<exists>k e. x = (ToSocket (wu_socketId e), RoomClosed r)
                    \<and> (k, e) \<in> set (p # waiting) \<and> wu_socketId e \<in> set socks)"
      using True unfolding p by (simp only: set_simps insert_iff) blast
    finally show ?thesis .
  next
    case False
    have "x \<in> set (snd (closeWaiting socks r (p # waiting) s2u))
          \<longleftrightarrow> x \<in> set (snd (closeWaiting socks r waiting s2u))"
      by (simp add: p False)
    also have "\<dots> \<longleftrightarrow> (\<exists>k e. x = (ToSocket (wu_socketId e), RoomClosed r) \<and> (k, e) \<in> set waiting
                    \<and> wu_socketId e \<in> set socks)"
      by (simp only: Cons.IH)
    also have "\<dots> \<longleftrightarrow> (\<exists>k e. x = (ToSocket (wu_socketId e), RoomClosed r)
                    \<and> (k, e) \<in> set (p # waiting) \<and> wu_socketId e \<in> set socks)"
      using False unfolding p by (simp only: set_simps insert_iff) blast
    finally show ?thesis .
  qed
qed

lemma depart_last_out:
  assumes "Set_delete us0 u = []"
  shows "snd (departRoom st r u meta us0)
           = (case map_of (waitingRooms st) r of
                None \<Rightarrow> []
              | Some w \<Rightarrow> snd (closeWaiting (sockets st) r w (socketToUser st)))"
  using assms by (simp add: departRoom_def cleanupRoom_def Let_def split: option.splits)

lemma depart_last_maps:
  assumes "Set_delete us0 u = []"
  shows "map_of (rooms (fst (departRoom st r u meta us0))) r = None"
    "map_of (roomMetadata (fst (departRoom st r u meta us0))) r = None"
    "map_of (waitingRooms (fst (departRoom st r u meta us0))) r = None"
  using assms by (simp_all add: departRoom_rooms departRoom_meta departRoom_waiting)

lemma leaveRoom_out:
  "snd (leaveRoom st sid r u)
     = (case map_of (rooms st) r of
          None \<Rightarrow> []
        | Some us0 \<Rightarrow> snd (departRoom (st\<lparr>adapter := Set_delete (adapter st) (sid, r)\<rparr>) r u
                            (map_of (roomMetadata st) r) us0))
       @ [(FromSocketToRoom sid r, UserDisconnected u)]
       @ broadcastPublicRooms (fst (leaveRoom st sid r u))"
  by (simp add: leaveRoom_def Let_def split: option.splits)

lemma leaveRoom_socks:
  "sockets (fst (leaveRoom st sid r u)) = sockets st"
  "adapter (fst (leaveRoom st sid r u)) = Set_delete (adapter st) (sid, r)"
  "socketToUser (fst (leaveRoom st sid r u)) =
     socketToUser (case map_of (rooms st) r of None \<Rightarrow> st
            | Some us0 \<Rightarrow> fst (departRoom (st\<lparr>adapter := Set_delete (adapter st) (sid, r)\<rparr>) r u
                                (map_of (roomMetadata st) r) us0))"
  by (simp_all add: leaveRoom_def Let_def split: option.splits)

lemma leave_last_member:
  assumes "map_of (rooms st) r = Some us" "Set_delete us u = []"
    and "on_leave_room st sid r u = Inr (st', out)"
  shows "map_of (rooms st') r = None \<and> map_of (roomMetadata st') r = None
         \<and> map_of (waitingRooms st') r = None
         \<and> sockets st' = sockets st
         \<and> (\<forall>k e. (k, e) \<in> set (waitingOf st r) \<and> wu_socketId e \<in> set (sockets st')
              \<longrightarrow> wu_socketId e \<in> set (receivers st' out (RoomClosed r)))"
proof -
  let ?st1 = "st\<lparr>adapter := Set_delete (adapter st) (sid, r)\<rparr>"
  let ?d = "departRoom ?st1 r u (map_of (roomMetadata st) r) us"
  have st': "st' = fst (leaveRoom st sid r u)" and out: "out = snd (leaveRoom st sid r u)"
    using assms(3) by (auto simp: on_leave_room_def)
  have maps: "map_of (rooms st') r = None \<and> map_of (roomMetadata st') r = None
         \<and> map_of (waitingRooms st') r = None"
    using depart_last_maps [OF assms(2), of ?st1 r "map_of (roomMetadata st) r"]
    by (simp add: st' leaveRoom_fst assms(1))
  have socks: "sockets st' = sockets st" by (simp add: st' leaveRoom_socks)
  have "\<forall>k e. (k, e) \<in> set (waitingOf st r) \<and> wu_socketId e \<in> set (sockets st')
              \<longrightarrow> wu_socketId e \<in> set (receivers st' out (RoomClosed r))"
  proof (intro allI impI)
    fix k e
    assume a: "(k, e) \<in> set (waitingOf st r) \<and> wu_socketId e \<in> set (sockets st')"
    then obtain w where w: "map_of (waitingRooms st) r = Some w" "(k, e) \<in> set w"
      by (cases "map_of (waitingRooms st) r") (auto simp: waitingOf_def)
    then have "snd ?d = snd (closeWaiting (sockets st) r w (socketToUser st))"
      using depart_last_out [OF assms(2), of ?st1 r "map_of (roomMetadata st) r"] by simp
    moreover have "(ToSocket (wu_socketId e), RoomClosed r)
                     \<in> set (snd (closeWaiting (sockets st) r w (socketToUser st)))"
      using a w socks unfolding closeWaiting_emits by auto
    ultimately have "(ToSocket (wu_socketId e), RoomClosed r) \<in> set out"
      by (simp add: out leaveRoom_out assms(1))
    then show "wu_socketId e \<in> set (receivers st' out (RoomClosed r))"
      using a by (intro emitted_reaches) simp_all
  qed
  with maps socks show ?thesis by blast
qed

lemma leaveWaiting_map:
  assumes "map_of wr r = Some w"
  shows "map_of (fst (leaveWaiting st u wr)) r = Some w
         \<or> map_of (fst (leaveWaiting st u wr)) r = Some (AList.delete u w)"
  using assms
  by (induction wr) (auto simp: Let_def split: if_splits)

lemma set_delete_alist: "(k, e) \<in> set (AList.delete u w) \<longleftrightarrow> (k, e) \<in> set w \<and> k \<noteq> u"
  by (induction w) auto

lemma disconnect_bound:
  assumes c: "sid \<in> set (sockets st)"
    and b: "map_of (socketToUser st) sid = Some u" "truthy u"
    and r: "map_of (userToRoom st) u = Some r" "truthy r"
    and us: "map_of (rooms st) r = Some us"
    and h: "handle st (Disconnect sid) = Inr (st', out)"
  shows "\<exists>st1 d. st1 = (socketGone st sid)\<lparr>waitingRooms :=
                           fst (leaveWaiting (socketGone st sid) u (waitingRooms st))\<rparr>
           \<and> d = departRoom st1 r u (map_of (roomMetadata st) r) us
           \<and> rooms st' = rooms (fst d) \<and> roomMetadata st' = roomMetadata (fst d)
           \<and> waitingRooms st' = waitingRooms (fst d)
           \<and> sockets st' = removeAll sid (sockets st)
           \<and> adapter st' = filter (\<lambda>(s, r). s \<noteq> sid) (adapter st)
           \<and> out = snd (leaveWaiting (socketGone st sid) u (waitingRooms st)) @ snd d
                   @ [(FromSocketToRoom sid r, UserDisconnected u)]
                   @ broadcastPublicRooms (fst d)"
proof -
  let ?g = "socketGone st sid"
  have g: "socketToUser ?g = socketToUser st" "userToRoom ?g = userToRoom st"
    "rooms ?g = rooms st" "roomMetadata ?g = roomMetadata st" "waitingRooms ?g = waitingRooms st"
    "sockets ?g = removeAll sid (sockets st)"
    "adapter ?g = filter (\<lambda>(s, r). s \<noteq> sid) (adapter st)"
    by (simp_all add: socketGone_def)
  have "handle st (Disconnect sid) = Inr (disconnectUser ?g sid u)"
    using c b by (simp add: on_disconnect_def Let_def g)
  with h have e: "disconnectUser ?g sid u = (st', out)" by simp
  show ?thesis
    using e [symmetric] r us
    by (simp add: disconnectUser_def disconnectRoom_def Let_def g)
qed

lemma disconnect_last_member:
  assumes c: "sid \<in> set (sockets st)"
    and b: "map_of (socketToUser st) sid = Some u" "truthy u"
    and r: "map_of (userToRoom st) u = Some r" "truthy r"
    and us: "map_of (rooms st) r = Some us" "Set_delete us u = []"
    and h: "handle st (Disconnect sid) = Inr (st', out)"
  shows "map_of (rooms st') r = None \<and> map_of (roomMetadata st') r = None
         \<and> map_of (waitingRooms st') r = None
         \<and> sockets st' = removeAll sid (sockets st)
         \<and> (\<forall>k e. (k, e) \<in> set (waitingOf st r) \<and> k \<noteq> u
                \<and> wu_socketId e \<in> set (sockets st')
              \<longrightarrow> wu_socketId e \<in> set (receivers st' out (RoomClosed r)))"
proof -
  let ?g = "socketGone st sid"
  let ?st1 = "?g\<lparr>waitingRooms := fst (leaveWaiting ?g u (waitingRooms st))\<rparr>"
  let ?d = "departRoom ?st1 r u (map_of (roomMetadata st) r) us"
  from disconnect_bound [OF c b r us(1) h]
  have st': "rooms st' = rooms (fst ?d)" "roomMetadata st' = roomMetadata (fst ?d)"
      "waitingRooms st' = waitingRooms (fst ?d)"
    and socks: "sockets st' = removeAll sid (sockets st)"
    and out: "out = snd (leaveWaiting ?g u (waitingRooms st)) @ snd ?d
                   @ [(FromSocketToRoom sid r, UserDisconnected u)]
                   @ broadcastPublicRooms (fst ?d)"
    by simp_all
  have maps: "map_of (rooms st') r = None \<and> map_of (roomMetadata st') r = None
         \<and> map_of (waitingRooms st') r = None"
    using depart_last_maps [OF us(2), of ?st1 r "map_of (roomMetadata st) r"]
    by (simp add: st')
  have "\<forall>k e. (k, e) \<in> set (waitingOf st r) \<and> k \<noteq> u
                \<and> wu_socketId e \<in> set (sockets st')
              \<longrightarrow> wu_socketId e \<in> set (receivers st' out (RoomClosed r))"
  proof (intro allI impI)
    fix k e
    assume a: "(k, e) \<in> set (waitingOf st r) \<and> k \<noteq> u \<and> wu_socketId e \<in> set (sockets st')"
    then obtain w where w: "map_of (waitingRooms st) r = Some w" "(k, e) \<in> set w"
      by (cases "map_of (waitingRooms st) r") (auto simp: waitingOf_def)
    from w leaveWaiting_map [of "waitingRooms st" r w ?g u]
    obtain w' where w': "map_of (waitingRooms ?st1) r = Some w'" "w' = w \<or> w' = AList.delete u w"
      by auto
    have k: "(k, e) \<in> set w'" using a w w'(2) by (auto simp: set_delete_alist)
    have s: "wu_socketId e \<in> set (sockets ?st1)" using a socks by (simp add: socketGone_def)
    have "snd ?d = snd (closeWaiting (sockets ?st1) r w' (socketToUser ?st1))"
      using depart_last_out [OF us(2), of ?st1 r "map_of (roomMetadata st) r"] w'(1)
      by simp
    moreover have "(ToSocket (wu_socketId e), RoomClosed r)
                     \<in> set (snd (closeWaiting (sockets ?st1) r w' (socketToUser ?st1)))"
      using k s unfolding closeWaiting_emits by blast
    ultimately have "(ToSocket (wu_socketId e), RoomClosed r) \<in> set out"
      by (simp add: out)
    then show "wu_socketId e \<in> set (receivers st' out (RoomClosed r))"
      using a by (intro emitted_reaches) simp_all
  qed
  with maps socks show ?thesis by blast
qed

text \<open>
  Claim C3, amended. In every state reached from the initial one, a room identifier that is
  a key of the membership map, of the metadata map or of the waiting-room map has at least
  one member. When a connected socket sends \<open>leave-room\<close> naming a room and the only member
  of its membership set, the room leaves the three maps within the event, and every waiting
  entry of the room whose socket is connected receives \<open>room-closed\<close>. When a connected
  socket disconnects that is bound to a non-empty user identifier whose room binding names a
  room with a non-empty identifier of which that user is the only member, the room leaves the
  three maps within the event, and every waiting entry of the room that belongs to another
  user and whose socket is still connected after the disconnection receives \<open>room-closed\<close>.
\<close>

theorem empty_rooms_are_removed:
  "(run init evs = Inr st0 \<longrightarrow> roomsInv st0)
   \<and> (sid \<in> set (sockets st) \<longrightarrow> map_of (rooms st) r = Some [u]
      \<longrightarrow> handle st (Client sid (LeaveRoom r u)) = Inr (st', out)
      \<longrightarrow> map_of (rooms st') r = None \<and> map_of (roomMetadata st') r = None
         \<and> map_of (waitingRooms st') r = None
         \<and> sockets st' = sockets st
         \<and> (\<forall>k e. (k, e) \<in> set (waitingOf st r) \<and> wu_socketId e \<in> set (sockets st')
              \<longrightarrow> wu_socketId e \<in> set (receivers st' out (RoomClosed r))))
   \<and> (sid2 \<in> set (sockets st2) \<longrightarrow> map_of (socketToUser st2) sid2 = Some u2 \<longrightarrow> truthy u2
      \<longrightarrow> map_of (userToRoom st2) u2 = Some r2 \<longrightarrow> truthy r2
      \<longrightarrow> map_of (rooms st2) r2 = Some [u2]
      \<longrightarrow> handle st2 (Disconnect sid2) = Inr (st3, out3)
      \<longrightarrow> map_of (rooms st3) r2 = None \<and> map_of (roomMetadata st3) r2 = None
         \<and> map_of (waitingRooms st3) r2 = None
         \<and> sockets st3 = removeAll sid2 (sockets st2)
         \<and> (\<forall>k e. (k, e) \<in> set (waitingOf st2 r2) \<and> k \<noteq> u2
                \<and> wu_socketId e \<in> set (sockets st3)
              \<longrightarrow> wu_socketId e \<in> set (receivers st3 out3 (RoomClosed r2))))"
proof (intro conjI)
  show "run init evs = Inr st0 \<longrightarrow> roomsInv st0"
    by (simp add: roomsInv_reachable)
  show "sid \<in> set (sockets st) \<longrightarrow> map_of (rooms st) r = Some [u]
      \<longrightarrow> handle st (Client sid (LeaveRoom r u)) = Inr (st', out)
      \<longrightarrow> map_of (rooms st') r = None \<and> map_of (roomMetadata st') r = None
         \<and> map_of (waitingRooms st') r = None
         \<and> sockets st' = sockets st
         \<and> (\<forall>k e. (k, e) \<in> set (waitingOf st r) \<and> wu_socketId e \<in> set (sockets st')
              \<longrightarrow> wu_socketId e \<in> set (receivers st' out (RoomClosed r)))"
  proof (intro impI)
    assume a: "sid \<in> set (sockets st)" "map_of (rooms st) r = Some [u]"
      "handle st (Client sid (LeaveRoom r u)) = Inr (st', out)"
    have d: "Set_delete [u] u = []" by (simp add: Set_delete_def)
    have l: "on_leave_room st sid r u = Inr (st', out)" using a(1,3) by simp
    show "map_of (rooms st') r = None \<and> map_of (roomMetadata st') r = None
         \<and> map_of (waitingRooms st') r = None
         \<and> sockets st' = sockets st
         \<and> (\<forall>k e. (k, e) \<in> set (waitingOf st r) \<and> wu_socketId e \<in> set (sockets st')
              \<longrightarrow> wu_socketId e \<in> set (receivers st' out (RoomClosed r)))"
      by (rule leave_last_member [OF a(2) d l])
  qed
  show "sid2 \<in> set (sockets st2) \<longrightarrow> map_of (socketToUser st2) sid2 = Some u2 \<longrightarrow> truthy u2
      \<longrightarrow> map_of (userToRoom st2) u2 = Some r2 \<longrightarrow> truthy r2
      \<longrightarrow> map_of (rooms st2) r2 = Some [u2]
      \<longrightarrow> handle st2 (Disconnect sid2) = Inr (st3, out3)
      \<longrightarrow> map_of (rooms st3) r2 = None \<and> map_of (roomMetadata st3) r2 = None
         \<and> map_of (waitingRooms st3) r2 = None
         \<and> sockets st3 = removeAll sid2 (sockets st2)
         \<and> (\<forall>k e. (k, e) \<in> set (waitingOf st2 r2) \<and> k \<noteq> u2
                \<and> wu_socketId e \<in> set (sockets st3)
              \<longrightarrow> wu_socketId e \<in> set (receivers st3 out3 (RoomClosed r2)))"
  proof (intro impI)
    assume a: "sid2 \<in> set (sockets st2)" "map_of (socketToUser st2) sid2 = Some u2" "truthy u2"
      "map_of (userToRoom st2) u2 = Some r2" "truthy r2" "map_of (rooms st2) r2 = Some [u2]"
      "handle st2 (Disconnect sid2) = Inr (st3, out3)"
    have d: "Set_delete [u2] u2 = []" by (simp add: Set_delete_def)
    show "map_of (rooms st3) r2 = None \<and> map_of (roomMetadata st3) r2 = None
         \<and> map_of (waitingRooms st3) r2 = None
         \<and> sockets st3 = removeAll sid2 (sockets st2)
         \<and> (\<forall>k e. (k, e) \<in> set (waitingOf st2 r2) \<and> k \<noteq> u2
                \<and> wu_socketId e \<in> set (sockets st3)
              \<longrightarrow> wu_socketId e \<in> set (receivers st3 out3 (RoomClosed r2)))"
      by (rule disconnect_last_member [OF a(1-6) d a(7)])
  qed
qed

lemma twoRooms_reachable:
  "run init [Connection ''s1'', Client ''s1'' (JoinRoom ''R1'' ''u1'' None None),
             Client ''s1'' (JoinRoom ''R2'' ''u1'' None None)] = Inr twoRooms"
  by (simp add: twoRooms_def init_def handler_defs)

lemma staleWaiting_reachable:
  "run init [Connection ''s1'', Client ''s1'' (JoinRoom ''R1'' ''u1'' cfgGated None),
             Connection ''s3'', Client ''s3'' (JoinRoom ''R2'' ''u3'' cfgGated None),
             Connection ''s2'', Client ''s2'' (JoinRoom ''R1'' ''u2'' None None),
             Client ''s2'' (JoinRoom ''R2'' ''u2'' None None), Disconnect ''s2''] = Inr staleWaiting"
  by (simp add: staleWaiting_def metaStandup_def cfgGated_def init_def handler_defs)

lemma namelessMember_reachable:
  "run init [Connection ''s1'', Client ''s1'' (JoinRoom ''R1'' [] None None)] = Inr namelessMember"
  by (simp add: namelessMember_def init_def handler_defs)

lemma namelessRoom_reachable:
  "run init [Connection ''s1'', Client ''s1'' (JoinRoom [] ''u1'' None None)] = Inr namelessRoom"
  by (simp add: namelessRoom_def init_def handler_defs)

lemma waitingMember_reachable:
  "run init [Connection ''s1'', Client ''s1'' (JoinRoom ''R1'' ''u1'' None None),
             Connection ''s2'', Client ''s2'' (JoinRoom ''R1'' ''u2'' None None),
             Client ''s1'' (ToggleWaitingRoom ''R1''), Connection ''s5'',
             Client ''s5'' (JoinRoom ''R1'' ''u2'' None None),
             Client ''s1'' (LeaveRoom ''R1'' ''u1'')] = Inr waitingMember"
  by (simp add: waitingMember_def init_def handler_defs)

text \<open>
  Claim C3 as stated fails in these ways. The room binding of a user holds the room joined
  last: ``u1'' joins ``R1'' and then ``R2'' on one socket and disconnects, the handler cleans
  ``R2'' only, and ``R1'' stays in the three maps with the departed ``u1'' as its member. A
  waiting entry whose socket is gone gets no \<open>room-closed\<close>: ``u2'' asks to enter ``R1'' and
  ``R2'' and disconnects, the loop of the handler removes the first entry only, and when
  ``R2'' closes nothing is sent for the entry that is left. A member whose identifier is the
  empty string, or whose room has the empty string as identifier, disconnects and the room
  stays: the handler tests \<open>if (odId)\<close> and \<open>if (roomId)\<close>. And the disconnection of the last
  member ``u2'' first deletes the waiting entry that ``u2'' holds for the same room on another
  socket, ``s5'', which is connected and receives no \<open>room-closed\<close>.
\<close>

theorem ghost_room_counterexample:
  "run init [Connection ''s1'', Client ''s1'' (JoinRoom ''R1'' ''u1'' None None),
             Client ''s1'' (JoinRoom ''R2'' ''u1'' None None)] = Inr twoRooms
   \<and> map_of (rooms twoRooms) ''R1'' = Some [''u1'']
   \<and> map_of (socketToUser twoRooms) ''s1'' = Some ''u1''
   \<and> handle twoRooms (Disconnect ''s1'')
       = Inr (ghostRoom,
              [(FromSocketToRoom ''s1'' ''R2'', UserDisconnected ''u1''), (ToAll, RoomsUpdate [])])
   \<and> sockets ghostRoom = []
   \<and> map_of (rooms ghostRoom) ''R1'' = Some [''u1'']
   \<and> map_of (roomMetadata ghostRoom) ''R1''
       = Some \<lparr>isPublic = False, name = Some ''Room R1'', hostId = Some ''u1'',
               isLocked = False, waitingRoom = False\<rparr>
   \<and> map_of (waitingRooms ghostRoom) ''R1'' = Some []
   \<and> run init [Connection ''s1'', Client ''s1'' (JoinRoom ''R1'' ''u1'' cfgGated None),
             Connection ''s3'', Client ''s3'' (JoinRoom ''R2'' ''u3'' cfgGated None),
             Connection ''s2'', Client ''s2'' (JoinRoom ''R1'' ''u2'' None None),
             Client ''s2'' (JoinRoom ''R2'' ''u2'' None None), Disconnect ''s2''] = Inr staleWaiting
   \<and> map_of (rooms staleWaiting) ''R2'' = Some [''u3'']
   \<and> map_of (waitingRooms staleWaiting) ''R2''
       = Some [(''u2'', \<lparr>wu_odId = ''u2'', wu_socketId = ''s2'', wu_userName = ''u2''\<rparr>)]
   \<and> handle staleWaiting (Client ''s3'' (LeaveRoom ''R2'' ''u3''))
       = Inr (staleWaiting\<lparr>rooms := [(''R1'', [''u1''])],
                           roomMetadata := [(''R1'', metaStandup ''u1'')],
                           waitingRooms := [(''R1'', [])],
                           userToRoom := [(''u1'', ''R1'')],
                           adapter := [(''s1'', ''s1''), (''s1'', ''R1''), (''s3'', ''s3'')]\<rparr>,
              [(FromSocketToRoom ''s3'' ''R2'', UserDisconnected ''u3''),
               (ToAll, RoomsUpdate
                  [\<lparr>ri_roomId = ''R1'', ri_name = Some ''Standup'', ri_count = 1,
                    ri_isPublic = True, ri_isLocked = False, ri_waitingRoom = True\<rparr>])])
   \<and> run init [Connection ''s1'', Client ''s1'' (JoinRoom ''R1'' [] None None)] = Inr namelessMember
   \<and> map_of (rooms namelessMember) ''R1'' = Some [[]]
   \<and> map_of (socketToUser namelessMember) ''s1'' = Some []
   \<and> handle namelessMember (Disconnect ''s1'')
       = Inr (namelessMember\<lparr>sockets := [], adapter := []\<rparr>, [])
   \<and> run init [Connection ''s1'', Client ''s1'' (JoinRoom [] ''u1'' None None)] = Inr namelessRoom
   \<and> map_of (rooms namelessRoom) [] = Some [''u1'']
   \<and> map_of (userToRoom namelessRoom) ''u1'' = Some []
   \<and> handle namelessRoom (Disconnect ''s1'')
       = Inr (namelessRoom\<lparr>socketToUser := [], userToRoom := [], sockets := [], adapter := []\<rparr>, [])
   \<and> run init [Connection ''s1'', Client ''s1'' (JoinRoom ''R1'' ''u1'' None None),
             Connection ''s2'', Client ''s2'' (JoinRoom ''R1'' ''u2'' None None),
             Client ''s1'' (ToggleWaitingRoom ''R1''), Connection ''s5'',
             Client ''s5'' (JoinRoom ''R1'' ''u2'' None None),
             Client ''s1'' (LeaveRoom ''R1'' ''u1'')] = Inr waitingMember
   \<and> map_of (rooms waitingMember) ''R1'' = Some [''u2'']
   \<and> map_of (socketToUser waitingMember) ''s2'' = Some ''u2''
   \<and> waitingOf waitingMember ''R1''
       = [(''u2'', \<lparr>wu_odId = ''u2'', wu_socketId = ''s5'', wu_userName = ''u2''\<rparr>)]
   \<and> handle waitingMember (Disconnect ''s2'')
       = Inr (init\<lparr>socketToUser := [(''s1'', ''u1''), (''s5'', ''u2'')],
                   sockets := [''s1'', ''s5''],
                   adapter := [(''s1'', ''s1''), (''s5'', ''s5'')]\<rparr>,
              [(ToRoom ''s2'', WaitingRoomUpdate ''R1'' []),
               (FromSocketToRoom ''s2'' ''R1'', UserDisconnected ''u2''),
               (ToAll, RoomsUpdate [])])"
proof (intro conjI)
  show "run init [Connection ''s1'', Client ''s1'' (JoinRoom ''R1'' ''u1'' None None),
             Client ''s1'' (JoinRoom ''R2'' ''u1'' None None)] = Inr twoRooms"
    by (rule twoRooms_reachable)
  show "handle twoRooms (Disconnect ''s1'')
       = Inr (ghostRoom,
              [(FromSocketToRoom ''s1'' ''R2'', UserDisconnected ''u1''), (ToAll, RoomsUpdate [])])"
    by (simp add: twoRooms_def ghostRoom_def handler_defs)
  show "run init [Connection ''s1'', Client ''s1'' (JoinRoom ''R1'' ''u1'' cfgGated None),
             Connection ''s3'', Client ''s3'' (JoinRoom ''R2'' ''u3'' cfgGated None),
             Connection ''s2'', Client ''s2'' (JoinRoom ''R1'' ''u2'' None None),
             Client ''s2'' (JoinRoom ''R2'' ''u2'' None None), Disconnect ''s2''] = Inr staleWaiting"
    by (rule staleWaiting_reachable)
  show "handle staleWaiting (Client ''s3'' (LeaveRoom ''R2'' ''u3''))
       = Inr (staleWaiting\<lparr>rooms := [(''R1'', [''u1''])],
                           roomMetadata := [(''R1'', metaStandup ''u1'')],
                           waitingRooms := [(''R1'', [])],
                           userToRoom := [(''u1'', ''R1'')],
                           adapter := [(''s1'', ''s1''), (''s1'', ''R1''), (''s3'', ''s3'')]\<rparr>,
              [(FromSocketToRoom ''s3'' ''R2'', UserDisconnected ''u3''),
               (ToAll, RoomsUpdate
                  [\<lparr>ri_roomId = ''R1'', ri_name = Some ''Standup'', ri_count = 1,
                    ri_isPublic = True, ri_isLocked = False, ri_waitingRoom = True\<rparr>])])"
    by (simp add: staleWaiting_def metaStandup_def handler_defs)
  show "run init [Connection ''s1'', Client ''s1'' (JoinRoom ''R1'' [] None None)] = Inr namelessMember"
    by (rule namelessMember_reachable)
  show "handle namelessMember (Disconnect ''s1'')
       = Inr (namelessMember\<lparr>sockets := [], adapter := []\<rparr>, [])"
    by (simp add: namelessMember_def handler_defs)
  show "run init [Connection ''s1'', Client ''s1'' (JoinRoom [] ''u1'' None None)] = Inr namelessRoom"
    by (rule namelessRoom_reachable)
  show "handle namelessRoom (Disconnect ''s1'')
       = Inr (namelessRoom\<lparr>socketToUser := [], userToRoom := [], sockets := [], adapter := []\<rparr>, [])"
    by (simp add: namelessRoom_def handler_defs)
  show "run init [Connection ''s1'', Client ''s1'' (JoinRoom ''R1'' ''u1'' None None),
             Connection ''s2'', Client ''s2'' (JoinRoom ''R1'' ''u2'' None None),
             Client ''s1'' (ToggleWaitingRoom ''R1''), Connection ''s5'',
             Client ''s5'' (JoinRoom ''R1'' ''u2'' None None),
             Client ''s1'' (LeaveRoom ''R1'' ''u1'')] = Inr waitingMember"
    by (rule waitingMember_reachable)
  show "handle waitingMember (Disconnect ''s2'')
       = Inr (init\<lparr>socketToUser := [(''s1'', ''u1''), (''s5'', ''u2'')],
                   sockets := [''s1'', ''s5''],
                   adapter := [(''s1'', ''s1''), (''s5'', ''s5'')]\<rparr>,
              [(ToRoom ''s2'', WaitingRoomUpdate ''R1'' []),
               (FromSocketToRoom ''s2'' ''R1'', UserDisconnected ''u2''),
               (ToAll, RoomsUpdate [])])"
    by (simp add: waitingMember_def init_def handler_defs)
qed (simp_all add: twoRooms_def ghostRoom_def staleWaiting_def namelessMember_def
       namelessRoom_def waitingMember_def waitingOf_def)

text \<open>
  The theorem at the room ``R1'' of the only member ``u1'' (socket ``s1''), with ``u2'' waiting
  on socket ``s2'': both the leave and the disconnection delete the room, and ``s2'' receives
  \<open>room-closed\<close>.
\<close>

theorem empty_rooms_are_removed_witness:
  "run init [Connection ''s1'', Connection ''s2'',
             Client ''s1'' (JoinRoom ''R1'' ''u1'' cfgGated None)] = Inr gatedRoom
   \<and> roomsInv gatedRoom
   \<and> ''s1'' \<in> set (sockets gatedRoomWaiting)
   \<and> map_of (rooms gatedRoomWaiting) ''R1'' = Some [''u1'']
   \<and> map_of (socketToUser gatedRoomWaiting) ''s1'' = Some ''u1''
   \<and> map_of (userToRoom gatedRoomWaiting) ''u1'' = Some ''R1''
   \<and> waitingOf gatedRoomWaiting ''R1''
       = [(''u2'', \<lparr>wu_odId = ''u2'', wu_socketId = ''s2'', wu_userName = ''u2''\<rparr>)]
   \<and> handle gatedRoomWaiting (Client ''s1'' (LeaveRoom ''R1'' ''u1''))
       = Inr (init\<lparr>socketToUser := [(''s1'', ''u1'')], sockets := [''s1'', ''s2''],
                   adapter := [(''s1'', ''s1''), (''s2'', ''s2'')]\<rparr>,
              [(ToSocket ''s2'', RoomClosed ''R1''),
               (FromSocketToRoom ''s1'' ''R1'', UserDisconnected ''u1''),
               (ToAll, RoomsUpdate [])])
   \<and> ''s2'' \<in> set (receivers
         (init\<lparr>socketToUser := [(''s1'', ''u1'')], sockets := [''s1'', ''s2''],
                   adapter := [(''s1'', ''s1''), (''s2'', ''s2'')]\<rparr>)
         [(ToSocket ''s2'', RoomClosed ''R1''),
          (FromSocketToRoom ''s1'' ''R1'', UserDisconnected ''u1''),
          (ToAll, RoomsUpdate [])] (RoomClosed ''R1''))
   \<and> handle gatedRoomWaiting (Disconnect ''s1'')
       = Inr (init\<lparr>sockets := [''s2''], adapter := [(''s2'', ''s2'')]\<rparr>,
              [(ToSocket ''s2'', RoomClosed ''R1''),
               (FromSocketToRoom ''s1'' ''R1'', UserDisconnected ''u1''),
               (ToAll, RoomsUpdate [])])
   \<and> ''s2'' \<in> set (receivers (init\<lparr>sockets := [''s2''], adapter := [(''s2'', ''s2'')]\<rparr>)
         [(ToSocket ''s2'', RoomClosed ''R1''),
          (FromSocketToRoom ''s1'' ''R1'', UserDisconnected ''u1''),
          (ToAll, RoomsUpdate [])] (RoomClosed ''R1''))"
proof -
  have a: "run init [Connection ''s1'', Connection ''s2'',
             Client ''s1'' (JoinRoom ''R1'' ''u1'' cfgGated None)] = Inr gatedRoom"
    by (rule gatedRoom_reachable)
  have b: "''s1'' \<in> set (sockets gatedRoomWaiting)"
    "map_of (rooms gatedRoomWaiting) ''R1'' = Some [''u1'']"
    "map_of (socketToUser gatedRoomWaiting) ''s1'' = Some ''u1''"
    "map_of (userToRoom gatedRoomWaiting) ''u1'' = Some ''R1''"
    "waitingOf gatedRoomWaiting ''R1''
       = [(''u2'', \<lparr>wu_odId = ''u2'', wu_socketId = ''s2'', wu_userName = ''u2''\<rparr>)]"
    "truthy ''u1''" "truthy ''R1''"
    by (simp_all add: gatedRoomWaiting_def gatedRoom_def truthy_def waitingOf_def)
  have l: "handle gatedRoomWaiting (Client ''s1'' (LeaveRoom ''R1'' ''u1''))
       = Inr (init\<lparr>socketToUser := [(''s1'', ''u1'')], sockets := [''s1'', ''s2''],
                   adapter := [(''s1'', ''s1''), (''s2'', ''s2'')]\<rparr>,
              [(ToSocket ''s2'', RoomClosed ''R1''),
               (FromSocketToRoom ''s1'' ''R1'', UserDisconnected ''u1''),
               (ToAll, RoomsUpdate [])])"
    by (simp add: gatedRoomWaiting_def gatedRoom_def init_def handler_defs)
  have d: "handle gatedRoomWaiting (Disconnect ''s1'')
       = Inr (init\<lparr>sockets := [''s2''], adapter := [(''s2'', ''s2'')]\<rparr>,
              [(ToSocket ''s2'', RoomClosed ''R1''),
               (FromSocketToRoom ''s1'' ''R1'', UserDisconnected ''u1''),
               (ToAll, RoomsUpdate [])])"
    by (simp add: gatedRoomWaiting_def gatedRoom_def init_def handler_defs)
  have e: "''s2'' \<in> set (sockets (init\<lparr>socketToUser := [(''s1'', ''u1'')], sockets := [''s1'', ''s2''],
                   adapter := [(''s1'', ''s1''), (''s2'', ''s2'')]\<rparr>))"
    "''s2'' \<in> set (sockets (init\<lparr>sockets := [''s2''], adapter := [(''s2'', ''s2'')]\<rparr>))"
    "''u2'' \<noteq> ''u1''"
    by simp_all
  note t = empty_rooms_are_removed
    [of "[Connection ''s1'', Connection ''s2'', Client ''s1'' (JoinRoom ''R1'' ''u1'' cfgGated None)]"
        gatedRoom "''s1''" gatedRoomWaiting "''R1''" "''u1''"
        "init\<lparr>socketToUser := [(''s1'', ''u1'')], sockets := [''s1'', ''s2''],
                   adapter := [(''s1'', ''s1''), (''s2'', ''s2'')]\<rparr>"
        "[(ToSocket ''s2'', RoomClosed ''R1''),
               (FromSocketToRoom ''s1'' ''R1'', UserDisconnected ''u1''),
               (ToAll, RoomsUpdate [])]"
        "''s1''" gatedRoomWaiting "''u1''" "''R1''"
        "init\<lparr>sockets := [''s2''], adapter := [(''s2'', ''s2'')]\<rparr>"
        "[(ToSocket ''s2'', RoomClosed ''R1''),
               (FromSocketToRoom ''s1'' ''R1'', UserDisconnected ''u1''),
               (ToAll, RoomsUpdate [])]"]
  from t a have i: "roomsInv gatedRoom" by blast
  have w: "(''u2'', \<lparr>wu_odId = ''u2'', wu_socketId = ''s2'', wu_userName = ''u2''\<rparr>)
             \<in> set (waitingOf gatedRoomWaiting ''R1'')"
    "wu_socketId \<lparr>wu_odId = ''u2'', wu_socketId = ''s2'', wu_userName = ''u2''\<rparr> = ''s2''"
    by (simp_all add: b(5))
  from t [THEN conjunct2, THEN conjunct1, rule_format, OF b(1,2) l]
  have "\<forall>k e. (k, e) \<in> set (waitingOf gatedRoomWaiting ''R1'')
           \<and> wu_socketId e \<in> set (sockets (init\<lparr>socketToUser := [(''s1'', ''u1'')],
                   sockets := [''s1'', ''s2''],
                   adapter := [(''s1'', ''s1''), (''s2'', ''s2'')]\<rparr>))
          \<longrightarrow> wu_socketId e \<in> set (receivers
         (init\<lparr>socketToUser := [(''s1'', ''u1'')], sockets := [''s1'', ''s2''],
                   adapter := [(''s1'', ''s1''), (''s2'', ''s2'')]\<rparr>)
         [(ToSocket ''s2'', RoomClosed ''R1''),
          (FromSocketToRoom ''s1'' ''R1'', UserDisconnected ''u1''),
          (ToAll, RoomsUpdate [])] (RoomClosed ''R1''))"
    by blast
  from this [rule_format, of "''u2''" "\<lparr>wu_odId = ''u2'', wu_socketId = ''s2'', wu_userName = ''u2''\<rparr>"]
    w e(1)
  have f: "''s2'' \<in> set (receivers
         (init\<lparr>socketToUser := [(''s1'', ''u1'')], sockets := [''s1'', ''s2''],
                   adapter := [(''s1'', ''s1''), (''s2'', ''s2'')]\<rparr>)
         [(ToSocket ''s2'', RoomClosed ''R1''),
          (FromSocketToRoom ''s1'' ''R1'', UserDisconnected ''u1''),
          (ToAll, RoomsUpdate [])] (RoomClosed ''R1''))"
    by simp
  from t [THEN conjunct2, THEN conjunct2, rule_format, OF b(1) b(3) b(6) b(4) b(7) b(2) d]
  have "\<forall>k e. (k, e) \<in> set (waitingOf gatedRoomWaiting ''R1'') \<and> k \<noteq> ''u1''
           \<and> wu_socketId e \<in> set (sockets (init\<lparr>sockets := [''s2''], adapter := [(''s2'', ''s2'')]\<rparr>))
          \<longrightarrow> wu_socketId e \<in> set (receivers
         (init\<lparr>sockets := [''s2''], adapter := [(''s2'', ''s2'')]\<rparr>)
         [(ToSocket ''s2'', RoomClosed ''R1''),
          (FromSocketToRoom ''s1'' ''R1'', UserDisconnected ''u1''),
          (ToAll, RoomsUpdate [])] (RoomClosed ''R1''))"
    by blast
  from this [rule_format, of "''u2''" "\<lparr>wu_odId = ''u2'', wu_socketId = ''s2'', wu_userName = ''u2''\<rparr>"]
    w e(2,3)
  have g: "''s2'' \<in> set (receivers
         (init\<lparr>sockets := [''s2''], adapter := [(''s2'', ''s2'')]\<rparr>)
         [(ToSocket ''s2'', RoomClosed ''R1''),
          (FromSocketToRoom ''s1'' ''R1'', UserDisconnected ''u1''),
          (ToAll, RoomsUpdate [])] (RoomClosed ''R1''))"
    by simp
  from a i b(1-5) l f d g show ?thesis by blast
qed

subsection \<open>Host handoff\<close>

lemma findSocketOf_cong: "socketToUser st' = socketToUser st \<Longrightarrow> findSocketOf st' x = findSocketOf st x"
  by (simp add: findSocketOf_def)

lemma hostChanged_toSocketIfAny:
  "[e \<leftarrow> toSocketIfAny h (HostChanged True # RoomSettingsUpdate s # ws). snd e = HostChanged True]
     = (case h of None \<Rightarrow> [] | Some x \<Rightarrow> if truthy x then [(ToRoom x, HostChanged True)]
          @ [e \<leftarrow> map (\<lambda>m. (ToRoom x, m)) ws. snd e = HostChanged True] else [])"
  by (simp add: toSocketIfAny_def split: option.splits)

lemma depart_host:
  assumes "hostId m = Some u" "Set_delete us0 u \<noteq> []"
  shows "\<exists>h. Set_first (Set_delete us0 u) = Some h \<and> h \<in> set us0 \<and> h \<noteq> u
           \<and> map_of (roomMetadata (fst (departRoom st r u (Some m) us0))) r
               = Some (m\<lparr>hostId := Some h\<rparr>)
           \<and> map_of (rooms (fst (departRoom st r u (Some m) us0))) r = Some (Set_delete us0 u)
           \<and> [e \<leftarrow> snd (departRoom st r u (Some m) us0). snd e = HostChanged True]
               = (case findSocketOf st (Some h) of
                    None \<Rightarrow> []
                  | Some x \<Rightarrow> if truthy x then [(ToRoom x, HostChanged True)] else [])"
proof -
  from Set_first_mem [OF assms(2)] obtain h where
    h: "Set_first (Set_delete us0 u) = Some h" "h \<in> set (Set_delete us0 u)" by blast
  let ?st1 = "st\<lparr>rooms := AList.update r (Set_delete us0 u) (rooms st)\<rparr>"
  have d: "departRoom st r u (Some m) us0 = transferHost ?st1 r m (Set_delete us0 u)"
    using assms by (simp add: departRoom_def Let_def)
  have f: "findSocketOf (?st1\<lparr>roomMetadata :=
              AList.update r (m\<lparr>hostId := Some h\<rparr>) (roomMetadata ?st1)\<rparr>) (Some h)
           = findSocketOf st (Some h)"
    by (rule findSocketOf_cong) simp
  have out: "[e \<leftarrow> snd (transferHost ?st1 r m (Set_delete us0 u)). snd e = HostChanged True]
               = (case findSocketOf st (Some h) of
                    None \<Rightarrow> []
                  | Some x \<Rightarrow> if truthy x then [(ToRoom x, HostChanged True)] else [])"
    unfolding transferHost_def Let_def h(1) snd_conv f append_Cons append_Nil
      hostChanged_toSocketIfAny
    by (auto split: option.splits)
  have "map_of (roomMetadata (fst (departRoom st r u (Some m) us0))) r = Some (m\<lparr>hostId := Some h\<rparr>)"
    by (simp add: departRoom_meta assms h(1))
  moreover have "map_of (rooms (fst (departRoom st r u (Some m) us0))) r = Some (Set_delete us0 u)"
    by (simp add: departRoom_rooms assms)
  ultimately show ?thesis using h out d by auto
qed

lemma leaveWaiting_no_hostChanged:
  "[e \<leftarrow> snd (leaveWaiting st u wr). snd e = HostChanged b] = []"
  by (induction wr) (auto simp: Let_def toSocketIfAny_def split: option.splits)

lemma broadcast_no_hostChanged:
  "[e \<leftarrow> broadcastPublicRooms st. snd e = HostChanged b] = []"
  by (simp add: broadcastPublicRooms_def)

lemma receivers_hostChanged:
  assumes "[e \<leftarrow> out. snd e = HostChanged True]
               = (case h of
                    None \<Rightarrow> []
                  | Some x \<Rightarrow> if truthy x then [(ToRoom x, HostChanged True)] else [])"
  shows "receivers st out (HostChanged True)
           = (case h of
                None \<Rightarrow> []
              | Some x \<Rightarrow> if truthy x
                          then filter (\<lambda>y. (y, x) \<in> set (adapter st)) (sockets st) else [])"
  unfolding receivers_def assms by (simp add: inRoom_def split: option.splits)

lemma leave_host:
  assumes us: "map_of (rooms st) r = Some us" "Set_delete us u \<noteq> []"
    and m: "map_of (roomMetadata st) r = Some m" "hostId m = Some u"
    and l: "on_leave_room st sid r u = Inr (st', out)"
  shows "\<exists>h. Set_first (Set_delete us u) = Some h \<and> h \<in> set us \<and> h \<noteq> u
           \<and> map_of (roomMetadata st') r = Some (m\<lparr>hostId := Some h\<rparr>)
           \<and> map_of (rooms st') r = Some (Set_delete us u)
           \<and> [e \<leftarrow> out. snd e = HostChanged True]
               = (case findSocketOf st (Some h) of
                    None \<Rightarrow> []
                  | Some x \<Rightarrow> if truthy x then [(ToRoom x, HostChanged True)] else [])
           \<and> receivers st' out (HostChanged True)
               = (case findSocketOf st (Some h) of
                    None \<Rightarrow> []
                  | Some x \<Rightarrow> if truthy x
                              then filter (\<lambda>y. (y, x) \<in> set (adapter st')) (sockets st') else [])
           \<and> sockets st' = sockets st
           \<and> adapter st' = Set_delete (adapter st) (sid, r)"
proof -
  let ?st1 = "st\<lparr>adapter := Set_delete (adapter st) (sid, r)\<rparr>"
  have st': "st' = fst (leaveRoom st sid r u)" and out: "out = snd (leaveRoom st sid r u)"
    using l by (auto simp: on_leave_room_def)
  from depart_host [OF m(2) us(2), of ?st1 r] obtain h where
    h: "Set_first (Set_delete us u) = Some h" "h \<in> set us" "h \<noteq> u"
      "map_of (roomMetadata (fst (departRoom ?st1 r u (Some m) us))) r = Some (m\<lparr>hostId := Some h\<rparr>)"
      "map_of (rooms (fst (departRoom ?st1 r u (Some m) us))) r = Some (Set_delete us u)"
      "[e \<leftarrow> snd (departRoom ?st1 r u (Some m) us). snd e = HostChanged True]
               = (case findSocketOf ?st1 (Some h) of
                    None \<Rightarrow> []
                  | Some x \<Rightarrow> if truthy x then [(ToRoom x, HostChanged True)] else [])"
    by blast
  have f: "findSocketOf ?st1 (Some h) = findSocketOf st (Some h)"
    by (rule findSocketOf_cong) simp
  have o: "[e \<leftarrow> out. snd e = HostChanged True]
               = (case findSocketOf st (Some h) of
                    None \<Rightarrow> []
                  | Some x \<Rightarrow> if truthy x then [(ToRoom x, HostChanged True)] else [])"
    using h(6) unfolding f
    by (simp add: out leaveRoom_out us(1) m(1) broadcast_no_hostChanged)
  have "map_of (roomMetadata st') r = Some (m\<lparr>hostId := Some h\<rparr>)"
    using h(4) by (simp add: st' leaveRoom_fst us(1) m(1))
  moreover have "map_of (rooms st') r = Some (Set_delete us u)"
    using h(5) by (simp add: st' leaveRoom_fst us(1) m(1))
  moreover have "sockets st' = sockets st" "adapter st' = Set_delete (adapter st) (sid, r)"
    by (simp_all add: st' leaveRoom_socks)
  ultimately show ?thesis using h(1-3) o receivers_hostChanged [OF o, of st'] by blast
qed

lemma disconnect_host:
  assumes c: "sid \<in> set (sockets st)"
    and b: "map_of (socketToUser st) sid = Some u" "truthy u"
    and r: "map_of (userToRoom st) u = Some r" "truthy r"
    and us: "map_of (rooms st) r = Some us" "Set_delete us u \<noteq> []"
    and m: "map_of (roomMetadata st) r = Some m" "hostId m = Some u"
    and d: "handle st (Disconnect sid) = Inr (st', out)"
  shows "\<exists>h. Set_first (Set_delete us u) = Some h \<and> h \<in> set us \<and> h \<noteq> u
           \<and> map_of (roomMetadata st') r = Some (m\<lparr>hostId := Some h\<rparr>)
           \<and> map_of (rooms st') r = Some (Set_delete us u)
           \<and> [e \<leftarrow> out. snd e = HostChanged True]
               = (case findSocketOf st (Some h) of
                    None \<Rightarrow> []
                  | Some x \<Rightarrow> if truthy x then [(ToRoom x, HostChanged True)] else [])
           \<and> receivers st' out (HostChanged True)
               = (case findSocketOf st (Some h) of
                    None \<Rightarrow> []
                  | Some x \<Rightarrow> if truthy x
                              then filter (\<lambda>y. (y, x) \<in> set (adapter st')) (sockets st') else [])
           \<and> sockets st' = removeAll sid (sockets st)
           \<and> adapter st' = filter (\<lambda>(s, r). s \<noteq> sid) (adapter st)"
proof -
  let ?g = "socketGone st sid"
  let ?st1 = "?g\<lparr>waitingRooms := fst (leaveWaiting ?g u (waitingRooms st))\<rparr>"
  let ?d = "departRoom ?st1 r u (Some m) us"
  from disconnect_bound [OF c b r us(1) d]
  have st': "rooms st' = rooms (fst ?d)" "roomMetadata st' = roomMetadata (fst ?d)"
      "sockets st' = removeAll sid (sockets st)"
      "adapter st' = filter (\<lambda>(s, r). s \<noteq> sid) (adapter st)"
    and out: "out = snd (leaveWaiting ?g u (waitingRooms st)) @ snd ?d
                   @ [(FromSocketToRoom sid r, UserDisconnected u)]
                   @ broadcastPublicRooms (fst ?d)"
    by (simp_all add: m(1))
  from depart_host [OF m(2) us(2), of ?st1 r] obtain h where
    h: "Set_first (Set_delete us u) = Some h" "h \<in> set us" "h \<noteq> u"
      "map_of (roomMetadata (fst ?d)) r = Some (m\<lparr>hostId := Some h\<rparr>)"
      "map_of (rooms (fst ?d)) r = Some (Set_delete us u)"
      "[e \<leftarrow> snd ?d. snd e = HostChanged True]
               = (case findSocketOf ?st1 (Some h) of
                    None \<Rightarrow> []
                  | Some x \<Rightarrow> if truthy x then [(ToRoom x, HostChanged True)] else [])"
    by blast
  have f: "findSocketOf ?st1 (Some h) = findSocketOf st (Some h)"
    by (rule findSocketOf_cong) (simp add: socketGone_def)
  have o: "[e \<leftarrow> out. snd e = HostChanged True]
               = (case findSocketOf st (Some h) of
                    None \<Rightarrow> []
                  | Some x \<Rightarrow> if truthy x then [(ToRoom x, HostChanged True)] else [])"
    using h(6) unfolding f
    by (simp add: out leaveWaiting_no_hostChanged broadcast_no_hostChanged)
  have "map_of (roomMetadata st') r = Some (m\<lparr>hostId := Some h\<rparr>)"
    "map_of (rooms st') r = Some (Set_delete us u)"
    using h(4,5) st'(1,2) by simp_all
  then show ?thesis using h(1-3) o receivers_hostChanged [OF o, of st'] st'(3,4) by blast
qed

text \<open>
  Claim C4, amended. In every state reached from the initial one, each room with metadata
  has a host, and the host is in the room's membership set. When a connected socket sends
  \<open>leave-room\<close> naming a room and its host, or a connected socket disconnects that is bound
  to the host while the host's identifier and the room's identifier are not empty and the
  host's room binding names the room, and a member remains, the host field becomes the first
  remaining member. \<open>host-changed\<close> with \<open>isHost: true\<close> is then emitted once, to the
  socket.io room named by the first socket bound to the new host's identifier, when there is
  such a socket and its identifier is not empty, and is received by exactly the connected
  sockets that are in that socket.io room after the event; otherwise it is not emitted and
  nobody receives it.
\<close>

theorem host_handoff:
  "(run init evs = Inr st0 \<longrightarrow> hostInv st0)
   \<and> (sid \<in> set (sockets st) \<longrightarrow> map_of (rooms st) r = Some us
      \<longrightarrow> map_of (roomMetadata st) r = Some m \<longrightarrow> hostId m = Some u \<longrightarrow> Set_delete us u \<noteq> []
      \<longrightarrow> handle st (Client sid (LeaveRoom r u)) = Inr (st', out)
      \<longrightarrow> (\<exists>h. Set_first (Set_delete us u) = Some h \<and> h \<in> set us \<and> h \<noteq> u
              \<and> map_of (roomMetadata st') r = Some (m\<lparr>hostId := Some h\<rparr>)
              \<and> map_of (rooms st') r = Some (Set_delete us u)
              \<and> [e \<leftarrow> out. snd e = HostChanged True]
                  = (case findSocketOf st (Some h) of
                       None \<Rightarrow> []
                     | Some x \<Rightarrow> if truthy x then [(ToRoom x, HostChanged True)] else [])
              \<and> receivers st' out (HostChanged True)
                  = (case findSocketOf st (Some h) of
                       None \<Rightarrow> []
                     | Some x \<Rightarrow> if truthy x
                                 then filter (\<lambda>y. (y, x) \<in> set (adapter st')) (sockets st')
                                 else [])
              \<and> sockets st' = sockets st
              \<and> adapter st' = Set_delete (adapter st) (sid, r)))
   \<and> (sid2 \<in> set (sockets st2) \<longrightarrow> map_of (socketToUser st2) sid2 = Some u2 \<longrightarrow> truthy u2
      \<longrightarrow> map_of (userToRoom st2) u2 = Some r2 \<longrightarrow> truthy r2
      \<longrightarrow> map_of (rooms st2) r2 = Some us2
      \<longrightarrow> map_of (roomMetadata st2) r2 = Some m2 \<longrightarrow> hostId m2 = Some u2
      \<longrightarrow> Set_delete us2 u2 \<noteq> []
      \<longrightarrow> handle st2 (Disconnect sid2) = Inr (st3, out3)
      \<longrightarrow> (\<exists>h. Set_first (Set_delete us2 u2) = Some h \<and> h \<in> set us2 \<and> h \<noteq> u2
              \<and> map_of (roomMetadata st3) r2 = Some (m2\<lparr>hostId := Some h\<rparr>)
              \<and> map_of (rooms st3) r2 = Some (Set_delete us2 u2)
              \<and> [e \<leftarrow> out3. snd e = HostChanged True]
                  = (case findSocketOf st2 (Some h) of
                       None \<Rightarrow> []
                     | Some x \<Rightarrow> if truthy x then [(ToRoom x, HostChanged True)] else [])
              \<and> receivers st3 out3 (HostChanged True)
                  = (case findSocketOf st2 (Some h) of
                       None \<Rightarrow> []
                     | Some x \<Rightarrow> if truthy x
                                 then filter (\<lambda>y. (y, x) \<in> set (adapter st3)) (sockets st3)
                                 else [])
              \<and> sockets st3 = removeAll sid2 (sockets st2)
              \<and> adapter st3 = filter (\<lambda>(s, r). s \<noteq> sid2) (adapter st2)))"
proof (intro conjI)
  show "run init evs = Inr st0 \<longrightarrow> hostInv st0"
    by (simp add: hostInv_reachable)
  show "sid \<in> set (sockets st) \<longrightarrow> map_of (rooms st) r = Some us
      \<longrightarrow> map_of (roomMetadata st) r = Some m \<longrightarrow> hostId m = Some u \<longrightarrow> Set_delete us u \<noteq> []
      \<longrightarrow> handle st (Client sid (LeaveRoom r u)) = Inr (st', out)
      \<longrightarrow> (\<exists>h. Set_first (Set_delete us u) = Some h \<and> h \<in> set us \<and> h \<noteq> u
              \<and> map_of (roomMetadata st') r = Some (m\<lparr>hostId := Some h\<rparr>)
              \<and> map_of (rooms st') r = Some (Set_delete us u)
              \<and> [e \<leftarrow> out. snd e = HostChanged True]
                  = (case findSocketOf st (Some h) of
                       None \<Rightarrow> []
                     | Some x \<Rightarrow> if truthy x then [(ToRoom x, HostChanged True)] else [])
              \<and> receivers st' out (HostChanged True)
                  = (case findSocketOf st (Some h) of
                       None \<Rightarrow> []
                     | Some x \<Rightarrow> if truthy x
                                 then filter (\<lambda>y. (y, x) \<in> set (adapter st')) (sockets st')
                                 else [])
              \<and> sockets st' = sockets st
              \<and> adapter st' = Set_delete (adapter st) (sid, r))"
  proof (intro impI)
    assume a: "sid \<in> set (sockets st)" "map_of (rooms st) r = Some us"
      "map_of (roomMetadata st) r = Some m" "hostId m = Some u" "Set_delete us u \<noteq> []"
      "handle st (Client sid (LeaveRoom r u)) = Inr (st', out)"
    have l: "on_leave_room st sid r u = Inr (st', out)" using a(1,6) by simp
    show "\<exists>h. Set_first (Set_delete us u) = Some h \<and> h \<in> set us \<and> h \<noteq> u
              \<and> map_of (roomMetadata st') r = Some (m\<lparr>hostId := Some h\<rparr>)
              \<and> map_of (rooms st') r = Some (Set_delete us u)
              \<and> [e \<leftarrow> out. snd e = HostChanged True]
                  = (case findSocketOf st (Some h) of
                       None \<Rightarrow> []
                     | Some x \<Rightarrow> if truthy x then [(ToRoom x, HostChanged True)] else [])
              \<and> receivers st' out (HostChanged True)
                  = (case findSocketOf st (Some h) of
                       None \<Rightarrow> []
                     | Some x \<Rightarrow> if truthy x
                                 then filter (\<lambda>y. (y, x) \<in> set (adapter st')) (sockets st')
                                 else [])
              \<and> sockets st' = sockets st
              \<and> adapter st' = Set_delete (adapter st) (sid, r)"
      by (rule leave_host [OF a(2) a(5) a(3) a(4) l])
  qed
  show "sid2 \<in> set (sockets st2) \<longrightarrow> map_of (socketToUser st2) sid2 = Some u2 \<longrightarrow> truthy u2
      \<longrightarrow> map_of (userToRoom st2) u2 = Some r2 \<longrightarrow> truthy r2
      \<longrightarrow> map_of (rooms st2) r2 = Some us2
      \<longrightarrow> map_of (roomMetadata st2) r2 = Some m2 \<longrightarrow> hostId m2 = Some u2
      \<longrightarrow> Set_delete us2 u2 \<noteq> []
      \<longrightarrow> handle st2 (Disconnect sid2) = Inr (st3, out3)
      \<longrightarrow> (\<exists>h. Set_first (Set_delete us2 u2) = Some h \<and> h \<in> set us2 \<and> h \<noteq> u2
              \<and> map_of (roomMetadata st3) r2 = Some (m2\<lparr>hostId := Some h\<rparr>)
              \<and> map_of (rooms st3) r2 = Some (Set_delete us2 u2)
              \<and> [e \<leftarrow> out3. snd e = HostChanged True]
                  = (case findSocketOf st2 (Some h) of
                       None \<Rightarrow> []
                     | Some x \<Rightarrow> if truthy x then [(ToRoom x, HostChanged True)] else [])
              \<and> receivers st3 out3 (HostChanged True)
                  = (case findSocketOf st2 (Some h) of
                       None \<Rightarrow> []
                     | Some x \<Rightarrow> if truthy x
                                 then filter (\<lambda>y. (y, x) \<in> set (adapter st3)) (sockets st3)
                                 else [])
              \<and> sockets st3 = removeAll sid2 (sockets st2)
              \<and> adapter st3 = filter (\<lambda>(s, r). s \<noteq> sid2) (adapter st2))"
  proof (intro impI)
    assume a: "sid2 \<in> set (sockets st2)" "map_of (socketToUser st2) sid2 = Some u2" "truthy u2"
      "map_of (userToRoom st2) u2 = Some r2" "truthy r2" "map_of (rooms st2) r2 = Some us2"
      "map_of (roomMetadata st2) r2 = Some m2" "hostId m2 = Some u2" "Set_delete us2 u2 \<noteq> []"
      "handle st2 (Disconnect sid2) = Inr (st3, out3)"
    show "\<exists>h. Set_first (Set_delete us2 u2) = Some h \<and> h \<in> set us2 \<and> h \<noteq> u2
              \<and> map_of (roomMetadata st3) r2 = Some (m2\<lparr>hostId := Some h\<rparr>)
              \<and> map_of (rooms st3) r2 = Some (Set_delete us2 u2)
              \<and> [e \<leftarrow> out3. snd e = HostChanged True]
                  = (case findSocketOf st2 (Some h) of
                       None \<Rightarrow> []
                     | Some x \<Rightarrow> if truthy x then [(ToRoom x, HostChanged True)] else [])
              \<and> receivers st3 out3 (HostChanged True)
                  = (case findSocketOf st2 (Some h) of
                       None \<Rightarrow> []
                     | Some x \<Rightarrow> if truthy x
                                 then filter (\<lambda>y. (y, x) \<in> set (adapter st3)) (sockets st3)
                                 else [])
              \<and> sockets st3 = removeAll sid2 (sockets st2)
              \<and> adapter st3 = filter (\<lambda>(s, r). s \<noteq> sid2) (adapter st2)"
      by (rule disconnect_host [OF a(1-6) a(9) a(7,8) a(10)])
  qed
qed

lemma threeMembers_reachable:
  "run init [Connection ''s1'', Client ''s1'' (JoinRoom ''R1'' ''u1'' None None),
             Connection ''s2'', Client ''s2'' (JoinRoom ''R1'' ''u2'' None None),
             Connection ''s3'', Client ''s3'' (JoinRoom ''R1'' ''u3'' None None)] = Inr threeMembers"
  by (simp add: threeMembers_def metaR1_def init_def handler_defs)

lemma twoRoomsHost_reachable:
  "run init [Connection ''s1'', Client ''s1'' (JoinRoom ''R1'' ''u1'' None None),
             Connection ''s2'', Client ''s2'' (JoinRoom ''R1'' ''u2'' None None),
             Client ''s1'' (JoinRoom ''R2'' ''u1'' None None)] = Inr twoRoomsHost"
  by (simp add: twoRoomsHost_def metaR1_def init_def handler_defs)

lemma ghostMember_reachable:
  "run init [Connection ''s1'', Client ''s1'' (JoinRoom ''R1'' ''u1'' None None),
             Connection ''s2'', Client ''s2'' (JoinRoom ''R1'' ''u2'' None None),
             Client ''s2'' (JoinRoom ''R2'' ''u2'' None None), Disconnect ''s2''] = Inr ghostMember"
  by (simp add: ghostMember_def metaR1_def init_def handler_defs)

lemma namelessHost_reachable:
  "run init [Connection ''s1'', Client ''s1'' (JoinRoom ''R1'' [] None None),
             Connection ''s2'', Client ''s2'' (JoinRoom ''R1'' ''u2'' None None)] = Inr namelessHost"
  by (simp add: namelessHost_def metaR1_def init_def handler_defs)

lemma namelessRoomOfTwo_reachable:
  "run init [Connection ''s1'', Client ''s1'' (JoinRoom [] ''u1'' None None),
             Connection ''s2'', Client ''s2'' (JoinRoom [] ''u2'' None None)] = Inr namelessRoomOfTwo"
  by (simp add: namelessRoomOfTwo_def init_def handler_defs)

lemma deafMember_reachable:
  "run init [Connection ''s1'', Client ''s1'' (JoinRoom ''R1'' ''u1'' None None),
             Connection ''s2'', Client ''s2'' (JoinRoom ''R1'' ''u2'' None None),
             Client ''s2'' (LeaveRoom ''s2'' ''u9'')] = Inr deafMember"
  by (simp add: deafMember_def metaR1_def init_def handler_defs)

text \<open>
  The theorem at the example of the specification: the host ``u1'' leaves, or disconnects
  from, the room of ``u1'', ``u2'' and ``u3''; ``u2'' becomes host and its socket ``s2'', and no
  other, receives \<open>host-changed\<close>.
\<close>

theorem host_handoff_witness:
  "run init [Connection ''s1'', Client ''s1'' (JoinRoom ''R1'' ''u1'' None None),
             Connection ''s2'', Client ''s2'' (JoinRoom ''R1'' ''u2'' None None),
             Connection ''s3'', Client ''s3'' (JoinRoom ''R1'' ''u3'' None None)] = Inr threeMembers
   \<and> hostInv threeMembers
   \<and> ''s1'' \<in> set (sockets threeMembers)
   \<and> map_of (socketToUser threeMembers) ''s1'' = Some ''u1''
   \<and> map_of (userToRoom threeMembers) ''u1'' = Some ''R1''
   \<and> map_of (rooms threeMembers) ''R1'' = Some [''u1'', ''u2'', ''u3'']
   \<and> map_of (roomMetadata threeMembers) ''R1'' = Some (metaR1 ''u1'')
   \<and> findSocketOf threeMembers (Some ''u2'') = Some ''s2''
   \<and> handle threeMembers (Client ''s1'' (LeaveRoom ''R1'' ''u1''))
       = Inr (threeMembers\<lparr>rooms := [(''R1'', [''u2'', ''u3''])],
                           roomMetadata := [(''R1'', metaR1 ''u2'')],
                           userToRoom := [(''u2'', ''R1''), (''u3'', ''R1'')],
                           adapter := [(''s1'', ''s1''), (''s2'', ''s2''), (''s2'', ''R1''),
                                       (''s3'', ''s3''), (''s3'', ''R1'')]\<rparr>,
              [(ToRoom ''s2'', HostChanged True),
               (ToRoom ''s2'', RoomSettingsUpdate
                  \<lparr>rs_isLocked = False, rs_waitingRoom = False, rs_hostId = Some ''u2''\<rparr>),
               (FromSocketToRoom ''s1'' ''R1'', UserDisconnected ''u1''),
               (ToAll, RoomsUpdate [])])
   \<and> receivers (threeMembers\<lparr>rooms := [(''R1'', [''u2'', ''u3''])],
                           roomMetadata := [(''R1'', metaR1 ''u2'')],
                           userToRoom := [(''u2'', ''R1''), (''u3'', ''R1'')],
                           adapter := [(''s1'', ''s1''), (''s2'', ''s2''), (''s2'', ''R1''),
                                       (''s3'', ''s3''), (''s3'', ''R1'')]\<rparr>)
              [(ToRoom ''s2'', HostChanged True),
               (ToRoom ''s2'', RoomSettingsUpdate
                  \<lparr>rs_isLocked = False, rs_waitingRoom = False, rs_hostId = Some ''u2''\<rparr>),
               (FromSocketToRoom ''s1'' ''R1'', UserDisconnected ''u1''),
               (ToAll, RoomsUpdate [])] (HostChanged True) = [''s2'']
   \<and> handle threeMembers (Disconnect ''s1'')
       = Inr (threeMembers\<lparr>rooms := [(''R1'', [''u2'', ''u3''])],
                           roomMetadata := [(''R1'', metaR1 ''u2'')],
                           socketToUser := [(''s2'', ''u2''), (''s3'', ''u3'')],
                           userToRoom := [(''u2'', ''R1''), (''u3'', ''R1'')],
                           sockets := [''s2'', ''s3''],
                           adapter := [(''s2'', ''s2''), (''s2'', ''R1''),
                                       (''s3'', ''s3''), (''s3'', ''R1'')]\<rparr>,
              [(ToRoom ''s2'', HostChanged True),
               (ToRoom ''s2'', RoomSettingsUpdate
                  \<lparr>rs_isLocked = False, rs_waitingRoom = False, rs_hostId = Some ''u2''\<rparr>),
               (FromSocketToRoom ''s1'' ''R1'', UserDisconnected ''u1''),
               (ToAll, RoomsUpdate [])])
   \<and> receivers (threeMembers\<lparr>rooms := [(''R1'', [''u2'', ''u3''])],
                           roomMetadata := [(''R1'', metaR1 ''u2'')],
                           socketToUser := [(''s2'', ''u2''), (''s3'', ''u3'')],
                           userToRoom := [(''u2'', ''R1''), (''u3'', ''R1'')],
                           sockets := [''s2'', ''s3''],
                           adapter := [(''s2'', ''s2''), (''s2'', ''R1''),
                                       (''s3'', ''s3''), (''s3'', ''R1'')]\<rparr>)
              [(ToRoom ''s2'', HostChanged True),
               (ToRoom ''s2'', RoomSettingsUpdate
                  \<lparr>rs_isLocked = False, rs_waitingRoom = False, rs_hostId = Some ''u2''\<rparr>),
               (FromSocketToRoom ''s1'' ''R1'', UserDisconnected ''u1''),
               (ToAll, RoomsUpdate [])] (HostChanged True) = [''s2'']"
proof -
  have a: "run init [Connection ''s1'', Client ''s1'' (JoinRoom ''R1'' ''u1'' None None),
             Connection ''s2'', Client ''s2'' (JoinRoom ''R1'' ''u2'' None None),
             Connection ''s3'', Client ''s3'' (JoinRoom ''R1'' ''u3'' None None)] = Inr threeMembers"
    by (rule threeMembers_reachable)
  have b: "''s1'' \<in> set (sockets threeMembers)"
    "map_of (socketToUser threeMembers) ''s1'' = Some ''u1''"
    "map_of (userToRoom threeMembers) ''u1'' = Some ''R1''"
    "map_of (rooms threeMembers) ''R1'' = Some [''u1'', ''u2'', ''u3'']"
    "map_of (roomMetadata threeMembers) ''R1'' = Some (metaR1 ''u1'')"
    "findSocketOf threeMembers (Some ''u2'') = Some ''s2''"
    by (simp_all add: threeMembers_def findSocketOf_def)
  have l: "handle threeMembers (Client ''s1'' (LeaveRoom ''R1'' ''u1''))
       = Inr (threeMembers\<lparr>rooms := [(''R1'', [''u2'', ''u3''])],
                           roomMetadata := [(''R1'', metaR1 ''u2'')],
                           userToRoom := [(''u2'', ''R1''), (''u3'', ''R1'')],
                           adapter := [(''s1'', ''s1''), (''s2'', ''s2''), (''s2'', ''R1''),
                                       (''s3'', ''s3''), (''s3'', ''R1'')]\<rparr>,
              [(ToRoom ''s2'', HostChanged True),
               (ToRoom ''s2'', RoomSettingsUpdate
                  \<lparr>rs_isLocked = False, rs_waitingRoom = False, rs_hostId = Some ''u2''\<rparr>),
               (FromSocketToRoom ''s1'' ''R1'', UserDisconnected ''u1''),
               (ToAll, RoomsUpdate [])])"
    by (simp add: threeMembers_def metaR1_def handler_defs)
  have d: "handle threeMembers (Disconnect ''s1'')
       = Inr (threeMembers\<lparr>rooms := [(''R1'', [''u2'', ''u3''])],
                           roomMetadata := [(''R1'', metaR1 ''u2'')],
                           socketToUser := [(''s2'', ''u2''), (''s3'', ''u3'')],
                           userToRoom := [(''u2'', ''R1''), (''u3'', ''R1'')],
                           sockets := [''s2'', ''s3''],
                           adapter := [(''s2'', ''s2''), (''s2'', ''R1''),
                                       (''s3'', ''s3''), (''s3'', ''R1'')]\<rparr>,
              [(ToRoom ''s2'', HostChanged True),
               (ToRoom ''s2'', RoomSettingsUpdate
                  \<lparr>rs_isLocked = False, rs_waitingRoom = False, rs_hostId = Some ''u2''\<rparr>),
               (FromSocketToRoom ''s1'' ''R1'', UserDisconnected ''u1''),
               (ToAll, RoomsUpdate [])])"
    by (simp add: threeMembers_def metaR1_def handler_defs)
  have r1: "receivers (threeMembers\<lparr>rooms := [(''R1'', [''u2'', ''u3''])],
                           roomMetadata := [(''R1'', metaR1 ''u2'')],
                           userToRoom := [(''u2'', ''R1''), (''u3'', ''R1'')],
                           adapter := [(''s1'', ''s1''), (''s2'', ''s2''), (''s2'', ''R1''),
                                       (''s3'', ''s3''), (''s3'', ''R1'')]\<rparr>)
              [(ToRoom ''s2'', HostChanged True),
               (ToRoom ''s2'', RoomSettingsUpdate
                  \<lparr>rs_isLocked = False, rs_waitingRoom = False, rs_hostId = Some ''u2''\<rparr>),
               (FromSocketToRoom ''s1'' ''R1'', UserDisconnected ''u1''),
               (ToAll, RoomsUpdate [])] (HostChanged True) = [''s2'']"
    by (simp add: receivers_def inRoom_def threeMembers_def)
  have r2: "receivers (threeMembers\<lparr>rooms := [(''R1'', [''u2'', ''u3''])],
                           roomMetadata := [(''R1'', metaR1 ''u2'')],
                           socketToUser := [(''s2'', ''u2''), (''s3'', ''u3'')],
                           userToRoom := [(''u2'', ''R1''), (''u3'', ''R1'')],
                           sockets := [''s2'', ''s3''],
                           adapter := [(''s2'', ''s2''), (''s2'', ''R1''),
                                       (''s3'', ''s3''), (''s3'', ''R1'')]\<rparr>)
              [(ToRoom ''s2'', HostChanged True),
               (ToRoom ''s2'', RoomSettingsUpdate
                  \<lparr>rs_isLocked = False, rs_waitingRoom = False, rs_hostId = Some ''u2''\<rparr>),
               (FromSocketToRoom ''s1'' ''R1'', UserDisconnected ''u1''),
               (ToAll, RoomsUpdate [])] (HostChanged True) = [''s2'']"
    by (simp add: receivers_def inRoom_def)
  from host_handoff [THEN conjunct1, rule_format, OF a] have i: "hostInv threeMembers" .
  have hy: "hostId (metaR1 ''u1'') = Some ''u1''"
    "Set_delete [''u1'', ''u2'', ''u3''] ''u1'' \<noteq> []"
    "truthy ''u1''" "truthy ''R1''"
    by (simp_all add: metaR1_def Set_delete_def truthy_def)
  from host_handoff [THEN conjunct2, THEN conjunct1, rule_format, OF b(1) b(4) b(5) hy(1,2) l]
  obtain h where h: "Set_first (Set_delete [''u1'', ''u2'', ''u3''] ''u1'') = Some h"
    "map_of (roomMetadata (threeMembers\<lparr>rooms := [(''R1'', [''u2'', ''u3''])],
                           roomMetadata := [(''R1'', metaR1 ''u2'')],
                           userToRoom := [(''u2'', ''R1''), (''u3'', ''R1'')],
                           adapter := [(''s1'', ''s1''), (''s2'', ''s2''), (''s2'', ''R1''),
                                       (''s3'', ''s3''), (''s3'', ''R1'')]\<rparr>)) ''R1''
       = Some (metaR1 ''u1''\<lparr>hostId := Some h\<rparr>)"
    by blast
  from host_handoff [THEN conjunct2, THEN conjunct2, rule_format,
      OF b(1) b(2) hy(3) b(3) hy(4) b(4) b(5) hy(1,2) d]
  obtain h' where h': "Set_first (Set_delete [''u1'', ''u2'', ''u3''] ''u1'') = Some h'"
    "map_of (roomMetadata (threeMembers\<lparr>rooms := [(''R1'', [''u2'', ''u3''])],
                           roomMetadata := [(''R1'', metaR1 ''u2'')],
                           socketToUser := [(''s2'', ''u2''), (''s3'', ''u3'')],
                           userToRoom := [(''u2'', ''R1''), (''u3'', ''R1'')],
                           sockets := [''s2'', ''s3''],
                           adapter := [(''s2'', ''s2''), (''s2'', ''R1''),
                                       (''s3'', ''s3''), (''s3'', ''R1'')]\<rparr>)) ''R1''
       = Some (metaR1 ''u1''\<lparr>hostId := Some h'\<rparr>)"
    by blast
  from h(1) have "h = ''u2''" by (simp add: Set_first_def Set_delete_def)
  from h'(1) have "h' = ''u2''" by (simp add: Set_first_def Set_delete_def)
  from a i b l r1 d r2 show ?thesis by blast
qed

text \<open>
  Claim C4 as stated fails in these ways. The host ``u1'' of ``R1'' joins ``R2'' on the same
  socket and disconnects: the handler works on ``R2'', the host field of ``R1'' still names
  ``u1'', and nobody receives \<open>host-changed\<close>. When the member ``u2'' that remains has no
  socket bound to it (it joined ``R2'' and disconnected), the disconnection of the host makes
  ``u2'' host and emits no \<open>host-changed\<close>. A host whose identifier is the empty string, or
  whose room has the empty string as identifier, disconnects and stays host: the handler
  tests \<open>if (odId)\<close> and \<open>if (roomId)\<close>. And when the socket of the new host has left the
  socket.io room named by its own identifier, \<open>host-changed\<close> is emitted to that room and
  nobody receives it.
\<close>

theorem host_handoff_counterexample:
  "run init [Connection ''s1'', Client ''s1'' (JoinRoom ''R1'' ''u1'' None None),
             Connection ''s2'', Client ''s2'' (JoinRoom ''R1'' ''u2'' None None),
             Client ''s1'' (JoinRoom ''R2'' ''u1'' None None)] = Inr twoRoomsHost
   \<and> map_of (socketToUser twoRoomsHost) ''s1'' = Some ''u1''
   \<and> map_of (rooms twoRoomsHost) ''R1'' = Some [''u1'', ''u2'']
   \<and> map_of (roomMetadata twoRoomsHost) ''R1'' = Some (metaR1 ''u1'')
   \<and> handle twoRoomsHost (Disconnect ''s1'')
       = Inr (staleHostRoom,
              [(FromSocketToRoom ''s1'' ''R2'', UserDisconnected ''u1''), (ToAll, RoomsUpdate [])])
   \<and> map_of (roomMetadata staleHostRoom) ''R1'' = Some (metaR1 ''u1'')
   \<and> run init [Connection ''s1'', Client ''s1'' (JoinRoom ''R1'' ''u1'' None None),
             Connection ''s2'', Client ''s2'' (JoinRoom ''R1'' ''u2'' None None),
             Client ''s2'' (JoinRoom ''R2'' ''u2'' None None), Disconnect ''s2''] = Inr ghostMember
   \<and> map_of (socketToUser ghostMember) ''s1'' = Some ''u1''
   \<and> map_of (userToRoom ghostMember) ''u1'' = Some ''R1''
   \<and> map_of (rooms ghostMember) ''R1'' = Some [''u1'', ''u2'']
   \<and> map_of (roomMetadata ghostMember) ''R1'' = Some (metaR1 ''u1'')
   \<and> handle ghostMember (Disconnect ''s1'')
       = Inr (orphanRoom,
              [(FromSocketToRoom ''s1'' ''R1'', UserDisconnected ''u1''), (ToAll, RoomsUpdate [])])
   \<and> map_of (roomMetadata orphanRoom) ''R1'' = Some (metaR1 ''u2'')
   \<and> run init [Connection ''s1'', Client ''s1'' (JoinRoom ''R1'' [] None None),
             Connection ''s2'', Client ''s2'' (JoinRoom ''R1'' ''u2'' None None)] = Inr namelessHost
   \<and> map_of (socketToUser namelessHost) ''s1'' = Some []
   \<and> map_of (rooms namelessHost) ''R1'' = Some [[], ''u2'']
   \<and> map_of (roomMetadata namelessHost) ''R1'' = Some (metaR1 [])
   \<and> handle namelessHost (Disconnect ''s1'')
       = Inr (namelessHost\<lparr>sockets := [''s2''],
                           adapter := [(''s2'', ''s2''), (''s2'', ''R1'')]\<rparr>, [])
   \<and> run init [Connection ''s1'', Client ''s1'' (JoinRoom [] ''u1'' None None),
             Connection ''s2'', Client ''s2'' (JoinRoom [] ''u2'' None None)] = Inr namelessRoomOfTwo
   \<and> map_of (socketToUser namelessRoomOfTwo) ''s1'' = Some ''u1''
   \<and> map_of (userToRoom namelessRoomOfTwo) ''u1'' = Some []
   \<and> map_of (rooms namelessRoomOfTwo) [] = Some [''u1'', ''u2'']
   \<and> metaHost (map_of (roomMetadata namelessRoomOfTwo) []) = Some ''u1''
   \<and> handle namelessRoomOfTwo (Disconnect ''s1'')
       = Inr (namelessRoomOfTwo\<lparr>socketToUser := [(''s2'', ''u2'')],
                                userToRoom := [(''u2'', [])],
                                sockets := [''s2''],
                                adapter := [(''s2'', ''s2''), (''s2'', [])]\<rparr>, [])
   \<and> run init [Connection ''s1'', Client ''s1'' (JoinRoom ''R1'' ''u1'' None None),
             Connection ''s2'', Client ''s2'' (JoinRoom ''R1'' ''u2'' None None),
             Client ''s2'' (LeaveRoom ''s2'' ''u9'')] = Inr deafMember
   \<and> map_of (rooms deafMember) ''R1'' = Some [''u1'', ''u2'']
   \<and> map_of (roomMetadata deafMember) ''R1'' = Some (metaR1 ''u1'')
   \<and> findSocketOf deafMember (Some ''u2'') = Some ''s2''
   \<and> handle deafMember (Client ''s1'' (LeaveRoom ''R1'' ''u1''))
       = Inr (deafMember\<lparr>rooms := [(''R1'', [''u2''])],
                         roomMetadata := [(''R1'', metaR1 ''u2'')],
                         userToRoom := [(''u2'', ''R1'')],
                         adapter := [(''s1'', ''s1''), (''s2'', ''R1'')]\<rparr>,
              [(ToRoom ''s2'', HostChanged True),
               (ToRoom ''s2'', RoomSettingsUpdate
                  \<lparr>rs_isLocked = False, rs_waitingRoom = False, rs_hostId = Some ''u2''\<rparr>),
               (FromSocketToRoom ''s1'' ''R1'', UserDisconnected ''u1''),
               (ToAll, RoomsUpdate [])])
   \<and> recipients (deafMember\<lparr>rooms := [(''R1'', [''u2''])],
                         roomMetadata := [(''R1'', metaR1 ''u2'')],
                         userToRoom := [(''u2'', ''R1'')],
                         adapter := [(''s1'', ''s1''), (''s2'', ''R1'')]\<rparr>) (ToRoom ''s2'') = []"
proof (intro conjI)
  show "run init [Connection ''s1'', Client ''s1'' (JoinRoom ''R1'' ''u1'' None None),
             Connection ''s2'', Client ''s2'' (JoinRoom ''R1'' ''u2'' None None),
             Client ''s1'' (JoinRoom ''R2'' ''u1'' None None)] = Inr twoRoomsHost"
    by (rule twoRoomsHost_reachable)
  show "run init [Connection ''s1'', Client ''s1'' (JoinRoom ''R1'' ''u1'' None None),
             Connection ''s2'', Client ''s2'' (JoinRoom ''R1'' ''u2'' None None),
             Client ''s2'' (JoinRoom ''R2'' ''u2'' None None), Disconnect ''s2''] = Inr ghostMember"
    by (rule ghostMember_reachable)
  show "run init [Connection ''s1'', Client ''s1'' (JoinRoom ''R1'' [] None None),
             Connection ''s2'', Client ''s2'' (JoinRoom ''R1'' ''u2'' None None)] = Inr namelessHost"
    by (rule namelessHost_reachable)
  show "run init [Connection ''s1'', Client ''s1'' (JoinRoom [] ''u1'' None None),
             Connection ''s2'', Client ''s2'' (JoinRoom [] ''u2'' None None)] = Inr namelessRoomOfTwo"
    by (rule namelessRoomOfTwo_reachable)
  show "run init [Connection ''s1'', Client ''s1'' (JoinRoom ''R1'' ''u1'' None None),
             Connection ''s2'', Client ''s2'' (JoinRoom ''R1'' ''u2'' None None),
             Client ''s2'' (LeaveRoom ''s2'' ''u9'')] = Inr deafMember"
    by (rule deafMember_reachable)
  show "handle twoRoomsHost (Disconnect ''s1'')
       = Inr (staleHostRoom,
              [(FromSocketToRoom ''s1'' ''R2'', UserDisconnected ''u1''), (ToAll, RoomsUpdate [])])"
    by (simp add: twoRoomsHost_def staleHostRoom_def metaR1_def handler_defs)
  show "handle ghostMember (Disconnect ''s1'')
       = Inr (orphanRoom,
              [(FromSocketToRoom ''s1'' ''R1'', UserDisconnected ''u1''), (ToAll, RoomsUpdate [])])"
    by (simp add: ghostMember_def orphanRoom_def metaR1_def handler_defs)
  show "handle namelessHost (Disconnect ''s1'')
       = Inr (namelessHost\<lparr>sockets := [''s2''],
                           adapter := [(''s2'', ''s2''), (''s2'', ''R1'')]\<rparr>, [])"
    by (simp add: namelessHost_def handler_defs)
  show "handle namelessRoomOfTwo (Disconnect ''s1'')
       = Inr (namelessRoomOfTwo\<lparr>socketToUser := [(''s2'', ''u2'')],
                                userToRoom := [(''u2'', [])],
                                sockets := [''s2''],
                                adapter := [(''s2'', ''s2''), (''s2'', [])]\<rparr>, [])"
    by (simp add: namelessRoomOfTwo_def handler_defs)
  show "handle deafMember (Client ''s1'' (LeaveRoom ''R1'' ''u1''))
       = Inr (deafMember\<lparr>rooms := [(''R1'', [''u2''])],
                         roomMetadata := [(''R1'', metaR1 ''u2'')],
                         userToRoom := [(''u2'', ''R1'')],
                         adapter := [(''s1'', ''s1''), (''s2'', ''R1'')]\<rparr>,
              [(ToRoom ''s2'', HostChanged True),
               (ToRoom ''s2'', RoomSettingsUpdate
                  \<lparr>rs_isLocked = False, rs_waitingRoom = False, rs_hostId = Some ''u2''\<rparr>),
               (FromSocketToRoom ''s1'' ''R1'', UserDisconnected ''u1''),
               (ToAll, RoomsUpdate [])])"
    by (simp add: deafMember_def metaR1_def handler_defs)
qed (simp_all add: twoRoomsHost_def staleHostRoom_def ghostMember_def orphanRoom_def
       namelessHost_def namelessRoomOfTwo_def deafMember_def metaHost_def findSocketOf_def
       inRoom_def)

end
